theory Spec2Isabelle
  imports Complex_Main "HOL-Library.Monad_Syntax"
begin

section \<open>Python and tensor primitives used by \<open>utils/trainer.py\<close>\<close>

text \<open>
  Conventions of the embedding.

  \<^item> A function that can raise returns an \<open>option\<close>; \<open>None\<close> stands for "a Python
    exception propagates to the caller" (IndexError, KeyError, ZeroDivisionError, a
    torch shape error) or "a non-finite float (NaN, inf) is produced"; the trainers do
    not catch anything, so the first \<open>None\<close> ends the epoch.
  \<^item> Floats are modelled by \<open>real\<close>: rounding is not part of the model.
  \<^item> A tensor of shape \<open>[N, C, H, W]\<close> is a nested list, outermost dimension first.
    A nested list cannot record the inner extents of a tensor whose outer extent is 0;
    where the source reads such an extent the model reads 0.
  \<^item> Labels and predicted classes are class indices (\<open>nat\<close>).
\<close>

type_synonym tensor2 = "real list list"
type_synonym tensor3 = "tensor2 list"
type_synonym tensor4 = "tensor3 list"
type_synonym labels = "nat list"

text \<open>Python list indexing \<open>xs[i]\<close>. An index from \<open>0\<close> to \<open>len(xs) - 1\<close> reads
  from the front, an index from \<open>-len(xs)\<close> to \<open>-1\<close> reads from the back, and any other
  index raises IndexError.\<close>

definition py_index :: "'a list \<Rightarrow> int \<Rightarrow> 'a option" where
  "py_index xs i =
     (if 0 \<le> i \<and> i < int (length xs) then Some (xs ! nat i)
      else if i < 0 \<and> - int (length xs) \<le> i then Some (xs ! nat (int (length xs) + i))
      else None)"

text \<open>Python true division \<open>a / b\<close> of two ints: ZeroDivisionError when \<open>b = 0\<close>.\<close>

definition py_true_div :: "int \<Rightarrow> int \<Rightarrow> real option" where
  "py_true_div a b = (if b = 0 then None else Some (real_of_int a / real_of_int b))"

text \<open>Division of a numpy scalar by a Python number: a zero divisor gives NaN or inf
  (with a warning), which leaves the model.\<close>

definition np_true_div :: "real \<Rightarrow> real \<Rightarrow> real option" where
  "np_true_div a b = (if b = 0 then None else Some (a / b))"

text \<open>Dictionary lookup \<open>d[k]\<close>: KeyError when the key is missing.\<close>

definition py_getitem :: "('k \<times> 'v) list \<Rightarrow> 'k \<Rightarrow> 'v option" where
  "py_getitem d k = map_of d k"

subsection \<open>64-bit integer tensors\<close>

text \<open>
  An integer tensor of torch holds signed 64-bit values (\<open>torch.int64\<close>). Arithmetic on
  it wraps around in two's complement: \<open>int64_wrap x\<close> is the value that the 64 bits of
  the exact result \<open>x\<close> denote. A Python int that meets a tensor in an operation is
  converted to that type first, and the conversion raises when the int does not fit.
  \<open>t // n\<close> on an integer tensor rounds down in the torch releases from 1.13 on and
  towards zero in the releases before; \<open>rounds_down\<close> says which.
\<close>

definition int64_wrap :: "int \<Rightarrow> int" where
  "int64_wrap x = (x + 2 ^ 63) mod 2 ^ 64 - 2 ^ 63"

definition fits_int64 :: "int \<Rightarrow> bool" where
  "fits_int64 x = (- (2 ^ 63) \<le> x \<and> x < 2 ^ 63)"

definition tensor_floordiv :: "bool \<Rightarrow> int \<Rightarrow> int \<Rightarrow> int" where
  "tensor_floordiv rounds_down a b =
     (if rounds_down then a div b else sgn a * sgn b * (\<bar>a\<bar> div \<bar>b\<bar>))"

subsection \<open>Shapes and elementwise operations\<close>

definition same_shape2 :: "tensor2 \<Rightarrow> tensor2 \<Rightarrow> bool" where
  "same_shape2 a b = list_all2 (\<lambda>x y. length x = length y) a b"

definition same_shape3 :: "tensor3 \<Rightarrow> tensor3 \<Rightarrow> bool" where
  "same_shape3 a b = list_all2 same_shape2 a b"

definition same_shape4 :: "tensor4 \<Rightarrow> tensor4 \<Rightarrow> bool" where
  "same_shape4 a b = list_all2 same_shape3 a b"

definition ewise2 :: "(real \<Rightarrow> real \<Rightarrow> real) \<Rightarrow> tensor2 \<Rightarrow> tensor2 \<Rightarrow> tensor2" where
  "ewise2 f a b = map2 (map2 f) a b"

definition ewise3 :: "(real \<Rightarrow> real \<Rightarrow> real) \<Rightarrow> tensor3 \<Rightarrow> tensor3 \<Rightarrow> tensor3" where
  "ewise3 f a b = map2 (ewise2 f) a b"

definition ewise4 :: "(real \<Rightarrow> real \<Rightarrow> real) \<Rightarrow> tensor4 \<Rightarrow> tensor4 \<Rightarrow> tensor4" where
  "ewise4 f a b = map2 (ewise3 f) a b"

text \<open>\<open>a * b\<close> and \<open>a + b\<close> on two 4-d tensors. The operands of the trainers have
  equal shapes; torch raises on shapes that cannot be broadcast, and the model raises
  on every pair of unequal shapes.\<close>

definition tmul :: "tensor4 \<Rightarrow> tensor4 \<Rightarrow> tensor4 option" where
  "tmul a b = (if same_shape4 a b then Some (ewise4 (\<lambda>x y. x * y) a b) else None)"

definition tadd :: "tensor4 \<Rightarrow> tensor4 \<Rightarrow> tensor4 option" where
  "tadd a b = (if same_shape4 a b then Some (ewise4 (\<lambda>x y. x + y) a b) else None)"

text \<open>\<open>1 - t\<close>: the scalar is broadcast.\<close>

definition rsub1 :: "tensor4 \<Rightarrow> tensor4" where
  "rsub1 t = map (map (map (map (\<lambda>x. 1 - x)))) t"

text \<open>\<open>t[rand_index]\<close>: selection along dimension 0 by a list of indices; an index
  out of range raises.\<close>

definition index_select :: "'a list \<Rightarrow> nat list \<Rightarrow> 'a list option" where
  "index_select t idx =
     (if list_all (\<lambda>i. i < length t) idx then Some (map (\<lambda>i. t ! i) idx) else None)"

text \<open>\<open>torch.ones_like\<close> and \<open>torch.zeros_like\<close>, used to state the boundary cases of
  the blending.\<close>

definition ones_like :: "tensor4 \<Rightarrow> tensor4" where
  "ones_like t = map (map (map (map (\<lambda>_. 1)))) t"

definition zeros_like :: "tensor4 \<Rightarrow> tensor4" where
  "zeros_like t = map (map (map (map (\<lambda>_. 0)))) t"

subsection \<open>The blending step\<close>

text \<open>
  Lines 79-83 and 202-206 of \<open>utils/trainer.py\<close>:
  \<^verbatim>\<open>
  image_a = upsampled_attention_masks * batch
  image_b = (1 - upsampled_attention_masks) * batch[rand_index]
  batch = image_a + image_b
  \<close>
\<close>

definition blend :: "tensor4 \<Rightarrow> tensor4 \<Rightarrow> nat list \<Rightarrow> tensor4 option" where
  "blend upsampled_attention_masks batch rand_index = do {
     image_a \<leftarrow> tmul upsampled_attention_masks batch;
     permuted \<leftarrow> index_select batch rand_index;
     image_b \<leftarrow> tmul (rsub1 upsampled_attention_masks) permuted;
     tadd image_a image_b
   }"


text \<open>The two hypotheses under which the boundary cases are stated: a tensor is
  rectangular (all samples have one shape), and \<open>torch.randperm(n)\<close> returns a
  permutation of \<open>0, ..., n - 1\<close>.\<close>

definition rect4 :: "tensor4 \<Rightarrow> bool" where
  "rect4 t = list_all (\<lambda>a. list_all (\<lambda>b. same_shape3 a b) t) t"

definition is_randperm :: "nat list \<Rightarrow> nat \<Rightarrow> bool" where
  "is_randperm idx n = (sort idx = [0..<n])"

subsection \<open>Class activation map, mask upsampling, box pasting\<close>

text \<open>\<open>N, C, W_f, H_f = target_fmap.shape\<close> and \<open>batch.shape[-2:]\<close>.\<close>

definition shape4 :: "tensor4 \<Rightarrow> nat \<times> nat \<times> nat \<times> nat" where
  "shape4 t =
     (case t of [] \<Rightarrow> (0, 0, 0, 0)
      | s # _ \<Rightarrow> (case s of [] \<Rightarrow> (length t, 0, 0, 0)
          | c # _ \<Rightarrow> (case c of [] \<Rightarrow> (length t, length s, 0, 0)
              | r # _ \<Rightarrow> (length t, length s, length c, length r))))"

definition spatial_size :: "tensor4 \<Rightarrow> nat \<times> nat" where
  "spatial_size t = (case shape4 t of (n, c, h, w) \<Rightarrow> (h, w))"

text \<open>\<open>F.adaptive_avg_pool2d(target_gradients, 1)\<close>: the mean of every channel map,
  \<open>[N, C, W, H]\<close> to \<open>[N, C, 1, 1]\<close> (kept here as \<open>[N, C]\<close>). torch rejects an input with
  an empty spatial extent.\<close>

definition adaptive_avg_pool2d_1 :: "tensor4 \<Rightarrow> real list list option" where
  "adaptive_avg_pool2d_1 t =
     (if list_all (list_all (\<lambda>m. concat m \<noteq> [])) t
      then Some (map (map (\<lambda>m. sum_list (concat m) / real (length (concat m)))) t)
      else None)"

text \<open>\<open>.sum(dim=1, keepdim=True)\<close> followed later by \<open>.squeeze(dim=1)\<close>: the sum of the
  channel maps of one sample.\<close>

definition sum_dim1 :: "tensor3 \<Rightarrow> tensor2" where
  "sum_dim1 cs = (case cs of [] \<Rightarrow> [] | c # rest \<Rightarrow> foldl (ewise2 (\<lambda>x y. x + y)) c rest)"

text \<open>Lines 65-68 and 189-192:
  \<^verbatim>\<open>
  importance_weights = F.adaptive_avg_pool2d(target_gradients, 1)
  class_activation_map = torch.mul(target_fmap, importance_weights).sum(dim=1, keepdim=True)
  class_activation_map = F.relu(class_activation_map).squeeze(dim=1)
  \<close>
  The product broadcasts the weight of a channel over its map; the batch and channel
  extents of the two operands have to agree.\<close>

definition class_activation_map :: "tensor4 \<Rightarrow> tensor4 \<Rightarrow> tensor3 option" where
  "class_activation_map target_fmap target_gradients = do {
     importance_weights \<leftarrow> adaptive_avg_pool2d_1 target_gradients;
     (if list_all2 (\<lambda>f ws. length f = length ws) target_fmap importance_weights
      then Some (map2 (\<lambda>f ws.
                   map (map (\<lambda>x. max 0 x))
                     (sum_dim1 (map2 (\<lambda>m w. map (map (\<lambda>x. x * w)) m) f ws)))
                 target_fmap importance_weights)
      else None)
   }"

text \<open>\<open>F.interpolate(..., size=(oh, ow), mode='nearest')\<close> on one 2-d map: output
  pixel \<open>(i, j)\<close> reads input pixel \<open>(\<lfloor>i * ih / oh\<rfloor>, \<lfloor>j * iw / ow\<rfloor>)\<close>. torch rejects an
  empty input.\<close>

definition interpolate_nearest :: "nat \<times> nat \<Rightarrow> tensor2 \<Rightarrow> tensor2 option" where
  "interpolate_nearest out_size m =
     (case out_size of (oh, ow) \<Rightarrow>
        if m = [] \<or> \<not> list_all (\<lambda>r. r \<noteq> []) m then None
        else Some (map (\<lambda>i. let r = m ! (i * length m div oh)
                             in map (\<lambda>j. r ! (j * length r div ow)) [0..<ow]) [0..<oh]))"

fun sequence_option :: "'a option list \<Rightarrow> 'a list option" where
  "sequence_option [] = Some []"
| "sequence_option (x # xs) = do { y \<leftarrow> x; ys \<leftarrow> sequence_option xs; Some (y # ys) }"

text \<open>Lines 73-74 and 198-199:
  \<^verbatim>\<open>
  F.interpolate(attention_masks.unsqueeze(1).repeat([1,3,1,1]), size=batch.shape[-2:], mode='nearest')
  \<close>\<close>

definition upsample_masks :: "tensor3 \<Rightarrow> nat \<times> nat \<Rightarrow> tensor4 option" where
  "upsample_masks attention_masks out_size =
     sequence_option
       (map (\<lambda>m. sequence_option (map (interpolate_nearest out_size) (replicate 3 m)))
          attention_masks)"

text \<open>Line 338, with \<open>src = batch[rand_index]\<close>:
  \<^verbatim>\<open>
  batch[:, :, bbx1:bbx2, bby1:bby2] = batch[rand_index, :, bbx1:bbx2, bby1:bby2]
  \<close>
  The box corners are non-negative; a slice is clipped to the extent of its dimension.\<close>

definition paste_box :: "nat \<times> nat \<times> nat \<times> nat \<Rightarrow> tensor4 \<Rightarrow> tensor4 \<Rightarrow> tensor4 option" where
  "paste_box box dst src =
     (case box of (bbx1, bby1, bbx2, bby2) \<Rightarrow>
        if same_shape4 dst src
        then Some (map2 (map2 (\<lambda>dm sm.
               map (\<lambda>(i, dr, sr).
                 map (\<lambda>(j, dv, sv).
                        if bbx1 \<le> i \<and> i < bbx2 \<and> bby1 \<le> j \<and> j < bby2 then sv else dv)
                     (enumerate 0 (zip dr sr)))
                 (enumerate 0 (zip dm sm)))) dst src)
        else None)"

subsection \<open>Predictions, losses and their autograd history\<close>

text \<open>
  A torch tensor produced by the network carries a value and the autograd graph it was
  computed from. The graph of a loss is recorded as the list of its terms
  \<open>(coefficient, input batch, target labels)\<close>, each standing for
  \<open>coefficient * criterion(model(input), labels)\<close>.
\<close>

type_synonym autograd = "(real \<times> tensor4 \<times> labels) list"

record pred_t =
  logits :: "real list list"
  pred_input :: tensor4

record loss_t =
  lval :: real
  lgraph :: autograd

text \<open>\<open>loss * c\<close> and \<open>loss1 + loss2\<close> on loss tensors.\<close>

definition lmul :: "loss_t \<Rightarrow> real \<Rightarrow> loss_t" where
  "lmul l c = \<lparr>lval = lval l * c, lgraph = map (\<lambda>(k, x, y). (k * c, x, y)) (lgraph l)\<rparr>"

definition ladd :: "loss_t \<Rightarrow> loss_t \<Rightarrow> loss_t" where
  "ladd l1 l2 = \<lparr>lval = lval l1 + lval l2, lgraph = lgraph l1 @ lgraph l2\<rparr>"

text \<open>\<open>torch.argmax(pred, 1)\<close>: per row, the index of the first maximal value.\<close>

fun argmax_from :: "real \<Rightarrow> nat \<Rightarrow> nat \<Rightarrow> real list \<Rightarrow> nat" where
  "argmax_from best bi i [] = bi"
| "argmax_from best bi i (x # xs) =
     (if best < x then argmax_from x i (Suc i) xs else argmax_from best bi (Suc i) xs)"

definition argmax_row :: "real list \<Rightarrow> nat" where
  "argmax_row xs = (case xs of [] \<Rightarrow> 0 | x # rest \<Rightarrow> argmax_from x 0 1 rest)"

definition argmax1 :: "real list list \<Rightarrow> nat list" where
  "argmax1 p = map argmax_row p"

text \<open>\<open>torch.sum(pred_max == labels)\<close>; the two vectors have one length.\<close>

definition count_correct :: "nat list \<Rightarrow> labels \<Rightarrow> nat option" where
  "count_correct pred_max ls =
     (if length pred_max = length ls
      then Some (length (filter (\<lambda>(p, l). p = l) (zip pred_max ls)))
      else None)"

section \<open>The model, the optimizer and the scheduler\<close>

text \<open>
  The trainers receive three mutable objects: the wrapped model, the optimizer (which
  holds the model's parameters and their \<open>.grad\<close> buffers) and the scheduler (which holds
  the optimizer). They are one store here, \<open>world\<close>, passed through every call.

  \<^item> \<open>params\<close>: the parameters of the network;
  \<^item> \<open>grads\<close>: the \<open>.grad\<close> buffers, as the list of the losses backpropagated since the
    last \<open>zero_grad()\<close> (autograd accumulates);
  \<^item> \<open>training\<close>: the mode set by \<open>model.train()\<close> and \<open>model.eval()\<close>;
  \<^item> \<open>num_stages\<close>, \<open>stage_names\<close>, \<open>dict_activation\<close>, \<open>dict_gradients\<close>: the
    attributes of the wrapper that the trainers read;
  \<^item> \<open>opt_state\<close>, \<open>sched_state\<close>: the internal state of optimizer and scheduler;
  \<^item> \<open>calls\<close>: the calls made on the three objects and on the side channels, in order.
\<close>

datatype call =
  ModelTrain
| ModelEval
| ZeroGrad
| Forward tensor4
| Backward autograd
| OptimizerStep
| SchedulerStep
| ClearDict
| GenerateMask int int "bool option"
| SaveFig string nat nat

record ('w, 'o, 's) world =
  params :: 'w
  grads :: "autograd list"
  training :: bool
  num_stages :: int
  stage_names :: "string list"
  dict_activation :: "(string \<times> tensor4) list"
  dict_gradients :: "(string \<times> tensor4 list) list"
  opt_state :: 'o
  sched_state :: 's
  calls :: "call list"

text \<open>
  What the trainers are given from outside this file: the network, the stage outputs and
  stage gradients seen by the wrapper's hooks, the criterion, the update rules of
  optimizer and scheduler, and \<open>generate_attentive_mask\<close> of \<open>utils/misc.py\<close> (its
  \<open>allow_boundary\<close> argument is \<open>None\<close> where the call leaves it to the default), and
  the rounding of \<open>//\<close> on integer tensors in the torch release at hand.
  The network reads the parameters and the mode; only \<open>optimizer.step()\<close> writes
  parameters.
\<close>

record ('w, 'o, 's) env =
  net_forward :: "bool \<Rightarrow> 'w \<Rightarrow> tensor4 \<Rightarrow> real list list"
  hook_activation :: "bool \<Rightarrow> 'w \<Rightarrow> tensor4 \<Rightarrow> string \<Rightarrow> tensor4"
  hook_gradient :: "bool \<Rightarrow> 'w \<Rightarrow> autograd \<Rightarrow> string \<Rightarrow> tensor4 list"
  criterion :: "real list list \<Rightarrow> labels \<Rightarrow> real"
  opt_update :: "'o \<Rightarrow> 'w \<Rightarrow> autograd list \<Rightarrow> 'o \<times> 'w"
  sched_update :: "'s \<Rightarrow> 'o \<Rightarrow> 's \<times> 'o"
  generate_attentive_mask :: "tensor3 \<Rightarrow> int \<Rightarrow> int \<Rightarrow> bool option \<Rightarrow> tensor3"
  floordiv_rounds_down :: bool

definition model_train :: "('w, 'o, 's) world \<Rightarrow> ('w, 'o, 's) world" where
  "model_train w = w\<lparr>training := True, calls := calls w @ [ModelTrain]\<rparr>"

definition model_eval :: "('w, 'o, 's) world \<Rightarrow> ('w, 'o, 's) world" where
  "model_eval w = w\<lparr>training := False, calls := calls w @ [ModelEval]\<rparr>"

definition zero_grad :: "('w, 'o, 's) world \<Rightarrow> ('w, 'o, 's) world" where
  "zero_grad w = w\<lparr>grads := [], calls := calls w @ [ZeroGrad]\<rparr>"

definition optimizer_step :: "('w, 'o, 's) env \<Rightarrow> ('w, 'o, 's) world \<Rightarrow> ('w, 'o, 's) world" where
  "optimizer_step env w =
     (case opt_update env (opt_state w) (params w) (grads w) of (os, ps) \<Rightarrow>
        w\<lparr>params := ps, opt_state := os, calls := calls w @ [OptimizerStep]\<rparr>)"

definition scheduler_step :: "('w, 'o, 's) env \<Rightarrow> ('w, 'o, 's) world \<Rightarrow> ('w, 'o, 's) world" where
  "scheduler_step env w =
     (case sched_update env (sched_state w) (opt_state w) of (ss, os) \<Rightarrow>
        w\<lparr>opt_state := os, sched_state := ss, calls := calls w @ [SchedulerStep]\<rparr>)"

text \<open>
  Modelled from the spec: the class \<open>Wrapper\<close> (imported by \<open>train.py\<close>, defined
  outside \<open>src/\<close>). After section 4.1 of the specification: every forward pass records, for
  each named stage, its output activation; a backward pass records, for each named
  stage, the gradient of its output; \<open>clear_dict()\<close> drops both caches.
\<close>

definition forward :: "('w, 'o, 's) env \<Rightarrow> ('w, 'o, 's) world \<Rightarrow> tensor4 \<Rightarrow> pred_t \<times> ('w, 'o, 's) world" where
  "forward env w x =
     (\<lparr>logits = net_forward env (training w) (params w) x, pred_input = x\<rparr>,
      w\<lparr>dict_activation :=
           map (\<lambda>s. (s, hook_activation env (training w) (params w) x s)) (stage_names w),
        calls := calls w @ [Forward x]\<rparr>)"

definition backward :: "('w, 'o, 's) env \<Rightarrow> ('w, 'o, 's) world \<Rightarrow> loss_t \<Rightarrow> ('w, 'o, 's) world" where
  "backward env w l =
     w\<lparr>grads := grads w @ [lgraph l],
       dict_gradients :=
         map (\<lambda>s. (s, hook_gradient env (training w) (params w) (lgraph l) s)) (stage_names w),
       calls := calls w @ [Backward (lgraph l)]\<rparr>"

definition clear_dict :: "('w, 'o, 's) world \<Rightarrow> ('w, 'o, 's) world" where
  "clear_dict w = w\<lparr>dict_activation := [], dict_gradients := [], calls := calls w @ [ClearDict]\<rparr>"

text \<open>\<open>criterion(pred, labels)\<close>: the value, and the graph through the forward pass that
  produced \<open>pred\<close>.\<close>

definition crit :: "('w, 'o, 's) env \<Rightarrow> pred_t \<Rightarrow> labels \<Rightarrow> loss_t" where
  "crit env p ls = \<lparr>lval = criterion env (logits p) ls, lgraph = [(1, pred_input p, ls)]\<rparr>"

text \<open>The call of \<open>generate_attentive_mask\<close>, recorded with its radius, number of
  proposals and boundary flag.\<close>

definition call_generate_mask ::
  "('w, 'o, 's) env \<Rightarrow> ('w, 'o, 's) world \<Rightarrow> tensor3 \<Rightarrow> int \<Rightarrow> int \<Rightarrow> bool option
     \<Rightarrow> tensor3 \<times> ('w, 'o, 's) world" where
  "call_generate_mask env w cam r k ab =
     (generate_attentive_mask env cam r k ab, w\<lparr>calls := calls w @ [GenerateMask r k ab]\<rparr>)"

text \<open>The periodic figure of a batch (\<open>make_grid\<close>, \<open>fig.savefig\<close>): recorded by file
  prefix, epoch and batch index. A failure of the write is not modelled.\<close>

definition savefig :: "('w, 'o, 's) world \<Rightarrow> string \<Rightarrow> nat \<Rightarrow> nat \<Rightarrow> ('w, 'o, 's) world" where
  "savefig w name cur_epoch idx = w\<lparr>calls := calls w @ [SaveFig name cur_epoch idx]\<rparr>"

section \<open>The trainers of \<open>utils/trainer.py\<close>\<close>

text \<open>
  \<open>kwargs\<close>: the keyword arguments read by the trainers (\<open>save_path\<close> only names the
  directory of the figures and is left out). \<open>draws\<close>: the values drawn from the random
  generators for one batch: \<open>np.random.rand(1)\<close>, \<open>torch.randperm(N)\<close>,
  \<open>torch.randint(low=1, high=num_stages)\<close> (a 64-bit tensor entry), \<open>np.random.beta(1, 1)\<close>
  and the box returned by
  \<open>rand_bbox\<close> of \<open>utils/misc.py\<close>. The trainers take the draws of batch \<open>idx\<close> as
  \<open>rnd idx\<close>.
\<close>

record kwargs =
  cut_prob :: real
  radius :: int
  num_proposals :: int
  multiplier :: int

record draws =
  rnd_r :: real
  rnd_perm :: "nat list"
  rnd_stage :: int
  rnd_lam :: real
  rnd_bbox :: "nat \<times> nat \<times> nat \<times> nat"

text \<open>The locals that a trainer carries from batch to batch.\<close>

record ('w, 'o, 's) locals =
  model :: "('w, 'o, 's) world"
  train_loss :: real
  train_n_corrects :: nat
  train_n_samples :: nat

text \<open>\<open>for idx, data in enumerate(train_loader)\<close>: the body runs on every batch in
  order; an exception in a body ends the loop.\<close>

fun for_each :: "('st \<Rightarrow> 'x \<Rightarrow> 'st option) \<Rightarrow> 'st \<Rightarrow> 'x list \<Rightarrow> 'st option" where
  "for_each body st [] = Some st"
| "for_each body st (x # xs) = do { st' \<leftarrow> body st x; for_each body st' xs }"

text \<open>Lines 113-118 (and 234-239): the accumulators, then
  \<open>optimizer.zero_grad(); loss.backward(); optimizer.step()\<close>.\<close>

definition accumulate ::
  "('w, 'o, 's) locals \<Rightarrow> ('w, 'o, 's) world \<Rightarrow> loss_t \<Rightarrow> labels \<Rightarrow> nat list
     \<Rightarrow> ('w, 'o, 's) locals option" where
  "accumulate st w loss ls pred_max = do {
     n \<leftarrow> count_correct pred_max ls;
     Some \<lparr>model = w,
           train_loss = train_loss st + lval loss,
           train_n_corrects = train_n_corrects st + n,
           train_n_samples = train_n_samples st + length ls\<rparr>
   }"

text \<open>Lines 120-125: \<open>scheduler.step()\<close>, the epoch means, the returned triple. With
  no batch the first quotient is \<open>0 / 0\<close> on Python ints (ZeroDivisionError); with
  batches that hold no sample the second is NaN.\<close>

definition finish_epoch ::
  "('w, 'o, 's) env \<Rightarrow> ('w, 'o, 's) locals \<Rightarrow> nat
     \<Rightarrow> (('w, 'o, 's) world \<times> real \<times> real) option" where
  "finish_epoch env st n_batches = do {
     let w = scheduler_step env (model st);
     epoch_train_loss \<leftarrow> np_true_div (train_loss st) (real n_batches);
     epoch_train_acc \<leftarrow> np_true_div (real (train_n_corrects st)) (real (train_n_samples st));
     Some (w, epoch_train_loss, epoch_train_acc)
   }"

definition init_locals :: "('w, 'o, 's) world \<Rightarrow> ('w, 'o, 's) locals" where
  "init_locals w = \<lparr>model = w, train_loss = 0, train_n_corrects = 0, train_n_samples = 0\<rparr>"

subsection \<open>\<open>train\<close> (vanilla)\<close>

definition train_batch ::
  "('w, 'o, 's) env \<Rightarrow> nat \<Rightarrow> ('w, 'o, 's) locals \<Rightarrow> nat \<times> tensor4 \<times> labels
     \<Rightarrow> ('w, 'o, 's) locals option" where
  "train_batch env cur_epoch st item =
     (case item of (idx, batch, ls) \<Rightarrow> do {
        let w = zero_grad (model st);
        let (pred, w) = forward env w batch;
        let pred_max = argmax1 (logits pred);
        let loss = crit env pred ls;
        let w = (if idx mod 100 = 0 \<and> cur_epoch mod 20 = 0
                 then savefig w ''Train_BatchSample'' cur_epoch idx else w);
        st \<leftarrow> accumulate st w loss ls pred_max;
        let w = backward env (model st) loss;
        let w = optimizer_step env w;
        Some (st\<lparr>model := w\<rparr>)
      })"

definition train ::
  "('w, 'o, 's) env \<Rightarrow> nat \<Rightarrow> ('w, 'o, 's) world \<Rightarrow> (tensor4 \<times> labels) list
     \<Rightarrow> (('w, 'o, 's) world \<times> real \<times> real) option" where
  "train env cur_epoch w train_loader = do {
     let w = model_train w;
     st \<leftarrow> for_each (train_batch env cur_epoch) (init_locals w) (enumerate 0 train_loader);
     finish_epoch env st (length train_loader)
   }"

subsection \<open>\<open>train_HybridPartSwapping\<close>\<close>

text \<open>Lines 76-77: \<open>n_mix = (radius + 1) ** 2\<close> (commented in the source as the number
  of zeros in the attention mask) and \<open>mix_ratio = n_mix/(W_f*H_f)\<close>.\<close>

definition hps_mix_ratio :: "int \<Rightarrow> nat \<Rightarrow> nat \<Rightarrow> real option" where
  "hps_mix_ratio r W_f H_f = (let n_mix = (r + 1) ^ 2 in py_true_div n_mix (int (W_f * H_f)))"

text \<open>Lines 50-96, the branch taken when \<open>r < cut_prob\<close>. It returns the mixed batch,
  the predicted classes on it, the loss and the store.\<close>

definition hps_augment ::
  "('w, 'o, 's) env \<Rightarrow> kwargs \<Rightarrow> ('w, 'o, 's) world \<Rightarrow> tensor4 \<Rightarrow> labels \<Rightarrow> pred_t \<Rightarrow> draws
     \<Rightarrow> (tensor4 \<times> nat list \<times> loss_t \<times> ('w, 'o, 's) world) option" where
  "hps_augment env kw w batch ls pred d = do {
     let target_stage_index = num_stages w - 1;
     target_stage_name \<leftarrow> py_index (stage_names w) target_stage_index;
     let loss = crit env pred ls;
     let w = backward env w loss;
     target_fmap \<leftarrow> py_getitem (dict_activation w) target_stage_name;
     gs \<leftarrow> py_getitem (dict_gradients w) target_stage_name;
     target_gradients \<leftarrow> py_index gs 0;
     let w = zero_grad w;
     let w = clear_dict w;
     let (N, C, W_f, H_f) = shape4 target_fmap;
     cam \<leftarrow> class_activation_map target_fmap target_gradients;
     let (attention_masks, w) =
           call_generate_mask env w cam (radius kw) (num_proposals kw) (Some False);
     upsampled_attention_masks \<leftarrow> upsample_masks attention_masks (spatial_size batch);
     mix_ratio \<leftarrow> hps_mix_ratio (radius kw) W_f H_f;
     let rand_index = rnd_perm d;
     batch \<leftarrow> blend upsampled_attention_masks batch rand_index;
     let target_a = ls;
     target_b \<leftarrow> index_select ls rand_index;
     let (pred, w) = forward env w batch;
     let pred_max = argmax1 (logits pred);
     let loss = (if target_stage_index < 3 then crit env pred ls
                 else ladd (lmul (crit env pred target_a) mix_ratio)
                           (lmul (crit env pred target_b) (1 - mix_ratio)));
     Some (batch, pred_max, loss, w)
   }"

definition hps_batch ::
  "('w, 'o, 's) env \<Rightarrow> kwargs \<Rightarrow> nat \<Rightarrow> (nat \<Rightarrow> draws) \<Rightarrow> ('w, 'o, 's) locals
     \<Rightarrow> nat \<times> tensor4 \<times> labels \<Rightarrow> ('w, 'o, 's) locals option" where
  "hps_batch env kw cur_epoch rnd st item =
     (case item of (idx, batch, ls) \<Rightarrow> do {
        let w = zero_grad (model st);
        let (pred, w) = forward env w batch;
        let pred_max = argmax1 (logits pred);
        let r = rnd_r (rnd idx);
        (batch, pred_max, loss, w) \<leftarrow>
           (if r < cut_prob kw then hps_augment env kw w batch ls pred (rnd idx)
            else Some (batch, pred_max, crit env pred ls, w));
        let w = (if idx mod 150 = 0 \<and> cur_epoch mod 10 = 0
                 then savefig w ''Train_Orig_BatchSample'' cur_epoch idx else w);
        st \<leftarrow> accumulate st w loss ls pred_max;
        let w = zero_grad (model st);
        let w = backward env w loss;
        let w = optimizer_step env w;
        Some (st\<lparr>model := w\<rparr>)
      })"

definition train_HybridPartSwapping ::
  "('w, 'o, 's) env \<Rightarrow> kwargs \<Rightarrow> nat \<Rightarrow> (nat \<Rightarrow> draws) \<Rightarrow> ('w, 'o, 's) world
     \<Rightarrow> (tensor4 \<times> labels) list \<Rightarrow> (('w, 'o, 's) world \<times> real \<times> real) option" where
  "train_HybridPartSwapping env kw cur_epoch rnd w train_loader = do {
     let w = model_train w;
     st \<leftarrow> for_each (hps_batch env kw cur_epoch rnd) (init_locals w) (enumerate 0 train_loader);
     finish_epoch env st (length train_loader)
   }"

subsection \<open>\<open>train_HybridCutMix\<close>\<close>

text \<open>Lines 167-170: the update of \<open>final_radius\<close>, a variable that lives across the
  iterations of the batch loop.
  \<^verbatim>\<open>
  final_radius = final_radius * (model.num_stages - target_stage_index)
  if target_stage_index < 3:
      final_radius = final_radius // 4
  \<close>
  \<open>target_stage_index\<close> is an entry of a 64-bit integer tensor, so the difference, the
  product and the quotient are 64-bit tensor values: the difference and the product
  wrap around.\<close>

definition update_radius :: "bool \<Rightarrow> int \<Rightarrow> int \<Rightarrow> int \<Rightarrow> int" where
  "update_radius rounds_down n_stages target_stage_index final_radius =
     (let final_radius = int64_wrap (final_radius * int64_wrap (n_stages - target_stage_index))
      in if target_stage_index < 3 then tensor_floordiv rounds_down final_radius 4
         else final_radius)"

text \<open>Line 172: \<open>num_proposals = (model.num_stages - target_stage_index) * p_multiplier\<close>,
  a 64-bit tensor value as well.\<close>

definition hcm_num_proposals :: "int \<Rightarrow> int \<Rightarrow> int \<Rightarrow> int" where
  "hcm_num_proposals n_stages target_stage_index p_multiplier =
     int64_wrap (int64_wrap (n_stages - target_stage_index) * p_multiplier)"

text \<open>Lines 196 and 201:
  \<^verbatim>\<open>
  n_non_zero_pixels = attention_masks.sum(dim=1).sum(dim=1)
  occlusion_ratio = (1 - (n_non_zero_pixels/n_total_pixels)).mean()
  \<close>
  A division by \<open>n_total_pixels = 0\<close> and the mean of no sample are not finite.\<close>

definition hcm_occlusion_ratio :: "tensor3 \<Rightarrow> nat \<Rightarrow> real option" where
  "hcm_occlusion_ratio attention_masks n_total_pixels =
     (if n_total_pixels = 0 \<or> attention_masks = [] then None
      else Some (sum_list (map (\<lambda>m. 1 - sum_list (concat m) / real n_total_pixels) attention_masks)
                 / real (length attention_masks)))"

text \<open>Lines 165-217, the branch taken when \<open>r < cut_prob\<close>; it also returns the new
  \<open>final_radius\<close>. \<open>torch.randint(low=1, high=num_stages)\<close> raises when
  \<open>num_stages \<le> 1\<close>; the Python ints \<open>num_stages\<close>, \<open>final_radius\<close> (before the first
  update) and \<open>p_multiplier\<close> are converted to 64-bit tensor values, which raises when
  one of them does not fit.\<close>

definition hcm_augment ::
  "('w, 'o, 's) env \<Rightarrow> kwargs \<Rightarrow> int \<Rightarrow> ('w, 'o, 's) world \<Rightarrow> tensor4 \<Rightarrow> labels \<Rightarrow> pred_t \<Rightarrow> draws
     \<Rightarrow> (int \<times> tensor4 \<times> nat list \<times> loss_t \<times> ('w, 'o, 's) world) option" where
  "hcm_augment env kw final_radius w batch ls pred d = do {
     target_stage_index \<leftarrow> (if num_stages w \<le> 1 then None else Some (rnd_stage d));
     converted \<leftarrow> (if fits_int64 (num_stages w) \<and> fits_int64 final_radius
                       \<and> fits_int64 (multiplier kw) then Some () else None);
     let final_radius = update_radius (floordiv_rounds_down env) (num_stages w)
                          target_stage_index final_radius;
     let n_proposals = hcm_num_proposals (num_stages w) target_stage_index (multiplier kw);
     target_stage_name \<leftarrow> py_index (stage_names w) target_stage_index;
     let loss = crit env pred ls;
     let w = backward env w loss;
     target_fmap \<leftarrow> py_getitem (dict_activation w) target_stage_name;
     gs \<leftarrow> py_getitem (dict_gradients w) target_stage_name;
     target_gradients \<leftarrow> py_index gs 0;
     let w = zero_grad w;
     let w = clear_dict w;
     let (N, C, W_f, H_f) = shape4 target_fmap;
     let n_total_pixels = W_f * H_f;
     cam \<leftarrow> class_activation_map target_fmap target_gradients;
     let (attention_masks, w) = call_generate_mask env w cam final_radius n_proposals None;
     upsampled_attention_masks \<leftarrow> upsample_masks attention_masks (spatial_size batch);
     occlusion_ratio \<leftarrow> hcm_occlusion_ratio attention_masks n_total_pixels;
     let rand_index = rnd_perm d;
     batch \<leftarrow> blend upsampled_attention_masks batch rand_index;
     let target_a = ls;
     target_b \<leftarrow> index_select ls rand_index;
     let (pred, w) = forward env w batch;
     let pred_max = argmax1 (logits pred);
     let loss = (if target_stage_index < 3 then crit env pred ls
                 else ladd (lmul (crit env pred target_a) (1 - occlusion_ratio))
                           (lmul (crit env pred target_b) occlusion_ratio));
     Some (final_radius, batch, pred_max, loss, w)
   }"

definition hcm_batch ::
  "('w, 'o, 's) env \<Rightarrow> kwargs \<Rightarrow> nat \<Rightarrow> (nat \<Rightarrow> draws) \<Rightarrow> int \<times> ('w, 'o, 's) locals
     \<Rightarrow> nat \<times> tensor4 \<times> labels \<Rightarrow> (int \<times> ('w, 'o, 's) locals) option" where
  "hcm_batch env kw cur_epoch rnd state item =
     (case (state, item) of ((final_radius, st), (idx, batch, ls)) \<Rightarrow> do {
        let w = zero_grad (model st);
        let (pred, w) = forward env w batch;
        let pred_max = argmax1 (logits pred);
        let r = rnd_r (rnd idx);
        (final_radius, batch, pred_max, loss, w) \<leftarrow>
           (if r < cut_prob kw then hcm_augment env kw final_radius w batch ls pred (rnd idx)
            else Some (final_radius, batch, pred_max, crit env pred ls, w));
        let w = (if idx mod 150 = 0 \<and> cur_epoch mod 1 = 0
                 then savefig w ''Train_Orig_BatchSample'' cur_epoch idx else w);
        st \<leftarrow> accumulate st w loss ls pred_max;
        let w = zero_grad (model st);
        let w = backward env w loss;
        let w = optimizer_step env w;
        Some (final_radius, st\<lparr>model := w\<rparr>)
      })"

definition train_HybridCutMix ::
  "('w, 'o, 's) env \<Rightarrow> kwargs \<Rightarrow> nat \<Rightarrow> (nat \<Rightarrow> draws) \<Rightarrow> ('w, 'o, 's) world
     \<Rightarrow> (tensor4 \<times> labels) list \<Rightarrow> (('w, 'o, 's) world \<times> real \<times> real) option" where
  "train_HybridCutMix env kw cur_epoch rnd w train_loader = do {
     let final_radius = radius kw;
     let w = model_train w;
     (final_radius, st) \<leftarrow>
        for_each (hcm_batch env kw cur_epoch rnd) (final_radius, init_locals w)
          (enumerate 0 train_loader);
     finish_epoch env st (length train_loader)
   }"

subsection \<open>\<open>train_CutMix\<close>\<close>

text \<open>Line 340: \<open>lam = 1 - ((bbx2 - bbx1) * (bby2 - bby1) / (batch.size()[-1] * batch.size()[-2]))\<close>,
  on numpy integers; a zero divisor gives a non-finite value.\<close>

definition cutmix_lam :: "nat \<times> nat \<times> nat \<times> nat \<Rightarrow> tensor4 \<Rightarrow> real option" where
  "cutmix_lam box batch =
     (case (box, spatial_size batch) of ((bbx1, bby1, bbx2, bby2), (h, w)) \<Rightarrow> do {
        q \<leftarrow> np_true_div (real_of_int ((int bbx2 - int bbx1) * (int bby2 - int bby1)))
                          (real (w * h));
        Some (1 - q)
      })"

text \<open>Lines 332-344, the branch taken when \<open>r < cut_prob\<close>.\<close>

definition cutmix_augment ::
  "('w, 'o, 's) env \<Rightarrow> ('w, 'o, 's) world \<Rightarrow> tensor4 \<Rightarrow> labels \<Rightarrow> draws
     \<Rightarrow> (tensor4 \<times> pred_t \<times> loss_t \<times> ('w, 'o, 's) world) option" where
  "cutmix_augment env w batch ls d = do {
     let rand_index = rnd_perm d;
     let labels_a = ls;
     labels_b \<leftarrow> index_select ls rand_index;
     permuted \<leftarrow> index_select batch rand_index;
     batch \<leftarrow> paste_box (rnd_bbox d) batch permuted;
     lam \<leftarrow> cutmix_lam (rnd_bbox d) batch;
     let (pred, w) = forward env w batch;
     let loss = ladd (lmul (crit env pred labels_a) lam) (lmul (crit env pred labels_b) (1 - lam));
     Some (batch, pred, loss, w)
   }"

definition cutmix_batch ::
  "('w, 'o, 's) env \<Rightarrow> kwargs \<Rightarrow> nat \<Rightarrow> (nat \<Rightarrow> draws) \<Rightarrow> ('w, 'o, 's) locals
     \<Rightarrow> nat \<times> tensor4 \<times> labels \<Rightarrow> ('w, 'o, 's) locals option" where
  "cutmix_batch env kw cur_epoch rnd st item =
     (case item of (idx, batch, ls) \<Rightarrow> do {
        let w = zero_grad (model st);
        let r = rnd_r (rnd idx);
        (batch, pred, loss, w) \<leftarrow>
           (if r < cut_prob kw then cutmix_augment env w batch ls (rnd idx)
            else (let (pred, w) = forward env w batch in Some (batch, pred, crit env pred ls, w)));
        let pred_max = argmax1 (logits pred);
        let w = (if idx mod 100 = 0 \<and> cur_epoch mod 20 = 0
                 then savefig w ''TrainVal_BatchSample'' cur_epoch idx else w);
        let w = backward env w loss;
        let w = optimizer_step env w;
        accumulate st w loss ls pred_max
      })"

definition train_CutMix ::
  "('w, 'o, 's) env \<Rightarrow> kwargs \<Rightarrow> nat \<Rightarrow> (nat \<Rightarrow> draws) \<Rightarrow> ('w, 'o, 's) world
     \<Rightarrow> (tensor4 \<times> labels) list \<Rightarrow> (('w, 'o, 's) world \<times> real \<times> real) option" where
  "train_CutMix env kw cur_epoch rnd w train_loader = do {
     let w = model_train w;
     st \<leftarrow> for_each (cutmix_batch env kw cur_epoch rnd) (init_locals w) (enumerate 0 train_loader);
     finish_epoch env st (length train_loader)
   }"

subsection \<open>\<open>test\<close>\<close>

text \<open>Lines 377-416. The loop runs under \<open>torch.no_grad()\<close>: no graph is built and
  nothing is backpropagated; the forward hooks of the wrapper still fire.\<close>

definition test_batch ::
  "('w, 'o, 's) env \<Rightarrow> string option \<Rightarrow> nat \<Rightarrow> ('w, 'o, 's) locals
     \<Rightarrow> nat \<times> tensor4 \<times> labels \<Rightarrow> ('w, 'o, 's) locals option" where
  "test_batch env save_path cur_epoch st item =
     (case item of (idx, batch, ls) \<Rightarrow> do {
        let (pred, w) = forward env (model st) batch;
        let pred_max = argmax1 (logits pred);
        let loss = crit env pred ls;
        st \<leftarrow> accumulate st w loss ls pred_max;
        let w = (if save_path \<noteq> None \<and> idx mod 300 = 0 \<and> cur_epoch mod 20 = 0
                 then savefig (model st) ''Test_BatchSample'' cur_epoch idx else model st);
        Some (st\<lparr>model := w\<rparr>)
      })"

definition test ::
  "('w, 'o, 's) env \<Rightarrow> ('w, 'o, 's) world \<Rightarrow> (tensor4 \<times> labels) list \<Rightarrow> string option \<Rightarrow> nat
     \<Rightarrow> (('w, 'o, 's) world \<times> real \<times> real) option" where
  "test env w test_loader save_path cur_epoch = do {
     let w = model_eval w;
     st \<leftarrow> for_each (test_batch env save_path cur_epoch) (init_locals w) (enumerate 0 test_loader);
     test_loss \<leftarrow> np_true_div (train_loss st) (real (length test_loader));
     test_acc \<leftarrow> np_true_div (real (train_n_corrects st)) (real (train_n_samples st));
     Some (model st, test_loss, test_acc)
   }"

section \<open>The driver \<open>train.py\<close>\<close>

text \<open>
  The driver is a script: its variables are module-level names, bound by the branch
  that runs. A name that no branch has bound is \<open>None\<close> here, and reading it raises
  NameError. The strings \<open>net_type\<close>, \<open>data_type\<close> and \<open>train_mode\<close> are the
  command-line values after \<open>.lower()\<close>.
\<close>

datatype exn = AssertionError | NameError string | Propagated

datatype dataset = MosquitoDL | IP102 | CIFAR10 | CIFAR100 | ImageNet | CUB200

datatype network = ResNet50 | MobileNetV2 | VGG16

text \<open>\<open>assert e\<close> raises AssertionError when \<open>e\<close> is falsy and does nothing otherwise; a
  string is falsy exactly when it is empty. Every \<open>assert\<close> of the driver has a string
  as its condition.\<close>

definition py_assert_str :: "string \<Rightarrow> exn option" where
  "py_assert_str e = (if e = [] then Some AssertionError else None)"

text \<open>\<open>sub in s\<close> on strings.\<close>

fun contains :: "string \<Rightarrow> string \<Rightarrow> bool" where
  "contains sub [] = (sub = [])"
| "contains sub (c # cs) = (take (length sub) (c # cs) = sub \<or> contains sub cs)"

text \<open>Lines 68-84: the branch that binds \<open>train_loader\<close>, \<open>valid_loader\<close> and
  \<open>num_classes\<close>. The result is the raised exception, or the dataset whose loaders are
  bound, if any.\<close>

definition select_dataset :: "string \<Rightarrow> exn + dataset option" where
  "select_dataset data_type =
     (if data_type = ''mosquitodl'' then Inr (Some MosquitoDL)
      else if data_type = ''ip102'' then Inr (Some IP102)
      else if contains ''cifar'' data_type then
        (if data_type = ''cifar10'' then Inr (Some CIFAR10)
         else if data_type = ''cifar100'' then Inr (Some CIFAR100)
         else (case py_assert_str (''Unrecognized '' @ data_type @ '' for CIFAR dataset.'') of
                 Some e \<Rightarrow> Inl e | None \<Rightarrow> Inr None))
      else if data_type = ''imagenet'' then Inr (Some ImageNet)
      else if data_type = ''cub200'' then Inr (Some CUB200)
      else (case py_assert_str (''Unsupported Dataset Type '' @ data_type @ ''.'') of
              Some e \<Rightarrow> Inl e | None \<Rightarrow> Inr None))"

text \<open>Lines 91-107: the branch that binds \<open>model\<close>. Each constructor branch reads
  \<open>num_classes\<close>.\<close>

definition select_network :: "string \<Rightarrow> string \<Rightarrow> dataset option \<Rightarrow> exn + network option" where
  "select_network data_type net_type ds =
     (if data_type = ''cifar'' then Inr None
      else if net_type = ''resnet50'' then
        (if ds = None then Inl (NameError ''num_classes'') else Inr (Some ResNet50))
      else if net_type = ''mobilenetv2'' then
        (if ds = None then Inl (NameError ''num_classes'') else Inr (Some MobileNetV2))
      else if net_type = ''vgg16'' then
        (if ds = None then Inl (NameError ''num_classes'') else Inr (Some VGG16))
      else (case py_assert_str ''Invalid 'net_type' !'' of
              Some e \<Rightarrow> Inl e | None \<Rightarrow> Inr None))"

text \<open>Lines 109-116: the branch that binds \<open>stage_names\<close>.\<close>

definition select_stage_names :: "string \<Rightarrow> exn + string list option" where
  "select_stage_names net_type =
     (if contains ''resnet'' net_type then Inr (Some [''layer1'', ''layer2'', ''layer3'', ''layer4''])
      else if net_type = ''mobilenetv2'' then
        Inr (Some [''features.2'', ''features.4'', ''features.7'', ''features.14''])
      else if net_type = ''vgg16'' then
        Inr (Some [''features.4'', ''features.9'', ''features.16'', ''features.24''])
      else (case py_assert_str ''Unsupported network type !'' of
              Some e \<Rightarrow> Inl e | None \<Rightarrow> Inr None))"

record args =
  net_type :: string
  data_type :: string
  train_mode :: string
  num_epochs :: int
  arg_cut_prob :: real
  arg_radius :: int
  arg_num_proposals :: int

text \<open>What the driver obtains from code outside \<open>src/\<close> and from libraries: the
  loaders of a dataset (one list of batches per epoch), the draws of the random
  generators per epoch and batch, and the freshly built network with its optimizer and
  scheduler.\<close>

record ('w, 'o, 's) ext =
  the_env :: "('w, 'o, 's) env"
  train_loader_of :: "dataset \<Rightarrow> nat \<Rightarrow> (tensor4 \<times> labels) list"
  valid_loader_of :: "dataset \<Rightarrow> nat \<Rightarrow> (tensor4 \<times> labels) list"
  draws_of :: "nat \<Rightarrow> nat \<Rightarrow> draws"
  init_params :: "network \<Rightarrow> dataset \<Rightarrow> 'w"
  init_opt :: 'o
  init_sched :: 's

text \<open>What the driver prints and writes, in order.\<close>

datatype event =
  CurrentEpoch nat
| TrainValPhase
| EpochTrainingLoss real real
| ValidationPhase
| EpochValidationLoss real real
| LogWritten nat
| BestModelSaved nat real
| Finished real

record ('w, 'o, 's) script =
  the_model :: "('w, 'o, 's) world"
  epoch_train :: "(real \<times> real) option"
  logs :: "(nat \<times> real \<times> real \<times> real \<times> real) list"
  best_valid_acc :: real
  events :: "event list"

definition emit :: "event \<Rightarrow> ('w, 'o, 's) script \<Rightarrow> ('w, 'o, 's) script" where
  "emit e s = s\<lparr>events := events s @ [e]\<rparr>"

text \<open>Lines 146-160: the dispatch on \<open>train_mode\<close>. A trainer that returns binds
  \<open>model\<close>, \<open>epoch_train_loss\<close> and \<open>epoch_train_acc\<close>.\<close>

definition dispatch_train ::
  "('w, 'o, 's) ext \<Rightarrow> args \<Rightarrow> dataset \<Rightarrow> nat \<Rightarrow> ('w, 'o, 's) script
     \<Rightarrow> ('w, 'o, 's) script \<times> exn option" where
  "dispatch_train x a ds epoch s =
     (let bound = (\<lambda>r. case r of None \<Rightarrow> (s, Some Propagated)
                       | Some (w, l, acc) \<Rightarrow> (s\<lparr>the_model := w, epoch_train := Some (l, acc)\<rparr>, None))
      in if train_mode a = ''vanilla'' then
           bound (train (the_env x) epoch (the_model s) (train_loader_of x ds epoch))
         else if train_mode a = ''cutmix'' then
           bound (train_CutMix (the_env x)
                    \<lparr>cut_prob = arg_cut_prob a, radius = arg_radius a,
                     num_proposals = arg_num_proposals a, multiplier = 0\<rparr>
                    epoch (draws_of x epoch) (the_model s) (train_loader_of x ds epoch))
         else if train_mode a = ''hybrid'' then
           bound (train_HybridPartSwapping (the_env x)
                    \<lparr>cut_prob = arg_cut_prob a, radius = arg_radius a,
                     num_proposals = arg_num_proposals a, multiplier = 0\<rparr>
                    epoch (draws_of x epoch) (the_model s) (train_loader_of x ds epoch))
         else (s, py_assert_str ''Invalid training mode !''))"

text \<open>Lines 139-201: the body of the epoch loop.\<close>

definition epoch_body ::
  "('w, 'o, 's) ext \<Rightarrow> args \<Rightarrow> dataset \<Rightarrow> ('w, 'o, 's) script \<Rightarrow> nat
     \<Rightarrow> ('w, 'o, 's) script \<times> exn option" where
  "epoch_body x a ds s epoch =
     (let s = emit TrainValPhase (emit (CurrentEpoch (epoch + 1)) s)
      in case dispatch_train x a ds epoch s of
           (s, Some e) \<Rightarrow> (s, Some e)
         | (s, None) \<Rightarrow>
            (case epoch_train s of
               None \<Rightarrow> (s, Some (NameError ''epoch_train_loss''))
             | Some (epoch_train_loss, epoch_train_acc) \<Rightarrow>
                (let s = emit ValidationPhase (emit (EpochTrainingLoss epoch_train_loss epoch_train_acc) s)
                 in case test (the_env x) (the_model s) (valid_loader_of x ds epoch)
                           (Some ''results'') epoch of
                      None \<Rightarrow> (s, Some Propagated)
                    | Some (w, epoch_valid_loss, epoch_valid_acc) \<Rightarrow>
                       (let s = emit (EpochValidationLoss epoch_valid_loss epoch_valid_acc)
                                  (s\<lparr>the_model := w\<rparr>);
                            s = emit (LogWritten epoch)
                                  (s\<lparr>logs := logs s @ [(epoch, epoch_train_loss, epoch_train_acc,
                                                         epoch_valid_loss, epoch_valid_acc)]\<rparr>);
                            s = (if best_valid_acc s < epoch_valid_acc
                                 then emit (BestModelSaved epoch epoch_valid_acc)
                                        (s\<lparr>best_valid_acc := epoch_valid_acc\<rparr>)
                                 else s)
                        in (s, None)))))"

text \<open>\<open>for epoch in range(num_epochs)\<close>: an exception in one epoch ends the run.\<close>

fun run_epochs ::
  "('st \<Rightarrow> nat \<Rightarrow> 'st \<times> exn option) \<Rightarrow> 'st \<Rightarrow> nat list \<Rightarrow> 'st \<times> exn option" where
  "run_epochs body s [] = (s, None)"
| "run_epochs body s (e # es) =
     (case body s e of (s', Some x) \<Rightarrow> (s', Some x) | (s', None) \<Rightarrow> run_epochs body s' es)"

text \<open>The script from line 66 to the end. It returns what was printed and written,
  and the exception that ended the run, if any. \<open>Wrapper(model, stage_names)\<close> reads
  \<open>model\<close>, then \<open>stage_names\<close>; the wrapper's \<open>num_stages\<close> is the number of stage
  names.\<close>

definition main :: "('w, 'o, 's) ext \<Rightarrow> args \<Rightarrow> event list \<times> exn option" where
  "main x a =
     (case select_dataset (data_type a) of Inl e \<Rightarrow> ([], Some e) | Inr ds \<Rightarrow>
     (case select_network (data_type a) (net_type a) ds of Inl e \<Rightarrow> ([], Some e) | Inr net \<Rightarrow>
     (case select_stage_names (net_type a) of Inl e \<Rightarrow> ([], Some e) | Inr names \<Rightarrow>
     (case net of None \<Rightarrow> ([], Some (NameError ''model'')) | Some n \<Rightarrow>
     (case names of None \<Rightarrow> ([], Some (NameError ''stage_names'')) | Some sn \<Rightarrow>
     (case ds of None \<Rightarrow> ([], Some (NameError ''num_classes'')) | Some d \<Rightarrow>
        (let w = \<lparr>params = init_params x n d, grads = [], training = True,
                  num_stages = int (length sn), stage_names = sn,
                  dict_activation = [], dict_gradients = [],
                  opt_state = init_opt x, sched_state = init_sched x, calls = []\<rparr>;
             s = \<lparr>the_model = w, epoch_train = None, logs = [], best_valid_acc = 0, events = []\<rparr>
         in (case run_epochs (epoch_body x a d) s [0..<nat (num_epochs a)] of
               (s, Some e) \<Rightarrow> (events s, Some e)
             | (s, None) \<Rightarrow> (events (emit (Finished (best_valid_acc s)) s), None)))))))))"

section \<open>Notions used to state the properties\<close>

text \<open>The number of samples of an epoch: the sum of \<open>labels.size(0)\<close> over the
  batches of the loader.\<close>

definition batch_sizes :: "(tensor4 \<times> labels) list \<Rightarrow> nat" where
  "batch_sizes loader = sum_list (map (\<lambda>(batch, ls). length ls) loader)"

text \<open>The calls of the periodic figure: one \<open>SaveFig\<close> when the batch index and the
  epoch are multiples of the two periods, none otherwise.\<close>

definition figure_calls :: "string \<Rightarrow> nat \<Rightarrow> nat \<Rightarrow> nat \<Rightarrow> nat \<Rightarrow> call list" where
  "figure_calls name every_idx every_epoch cur_epoch idx =
     (if idx mod every_idx = 0 \<and> cur_epoch mod every_epoch = 0
      then [SaveFig name cur_epoch idx] else [])"

text \<open>The value of \<open>final_radius\<close> of \<open>train_HybridCutMix\<close> after the batches
  \<open>0, ..., k - 1\<close>: every batch that takes the augmented branch applies
  \<open>update_radius\<close> with its own stage draw to the value left by the batches before it.\<close>

definition radius_after ::
  "bool \<Rightarrow> kwargs \<Rightarrow> (nat \<Rightarrow> draws) \<Rightarrow> int \<Rightarrow> nat \<Rightarrow> nat \<Rightarrow> int \<Rightarrow> int" where
  "radius_after rounds_down kw rnd n_stages first k r0 =
     foldl (\<lambda>r i. if rnd_r (rnd i) < cut_prob kw
                   then update_radius rounds_down n_stages (rnd_stage (rnd i)) r else r)
           r0 [first..<first + k]"

text \<open>
  What is compared between two runs of an epoch. \<open>zero_grad()\<close> and the periodic
  figures are bookkeeping: the first shows in the gradient buffers, the second writes
  files only. The observation of a store is every field of it, with the calls other than
  bookkeeping; the outcome of an epoch is the observation of the returned store with the
  returned mean loss and accuracy.
\<close>

definition is_bookkeeping :: "call \<Rightarrow> bool" where
  "is_bookkeeping c = (case c of ZeroGrad \<Rightarrow> True | SaveFig _ _ _ \<Rightarrow> True | _ \<Rightarrow> False)"

type_synonym ('w, 'o, 's) observation =
  "'w \<times> autograd list \<times> bool \<times> int \<times> string list \<times> (string \<times> tensor4) list
     \<times> (string \<times> tensor4 list) list \<times> 'o \<times> 's \<times> call list"

definition observable :: "('w, 'o, 's) world \<Rightarrow> ('w, 'o, 's) observation" where
  "observable w =
     (params w, grads w, training w, num_stages w, stage_names w, dict_activation w,
      dict_gradients w, opt_state w, sched_state w,
      filter (\<lambda>c. \<not> is_bookkeeping c) (calls w))"

definition epoch_outcome ::
  "(('w, 'o, 's) world \<times> real \<times> real) option \<Rightarrow> (('w, 'o, 's) observation \<times> real \<times> real) option" where
  "epoch_outcome r = map_option (\<lambda>(w, l, a). (observable w, l, a)) r"

definition locals_outcome ::
  "('w, 'o, 's) locals \<Rightarrow> ('w, 'o, 's) observation \<times> real \<times> nat \<times> nat" where
  "locals_outcome st =
     (observable (model st), train_loss st, train_n_corrects st, train_n_samples st)"

text \<open>The calls that an inference pass may make: \<open>model.eval()\<close>, forward passes and
  the periodic figure.\<close>

definition is_inference_call :: "call \<Rightarrow> bool" where
  "is_inference_call c =
     (case c of ModelEval \<Rightarrow> True | Forward _ \<Rightarrow> True | SaveFig _ _ _ \<Rightarrow> True | _ \<Rightarrow> False)"

text \<open>What the predictions and metrics of \<open>test\<close> are computed from.\<close>

definition test_inputs :: "('w, 'o, 's) locals \<Rightarrow> 'w \<times> bool \<times> real \<times> nat \<times> nat" where
  "test_inputs st =
     (params (model st), training (model st), train_loss st, train_n_corrects st,
      train_n_samples st)"

text \<open>
  The pixel mixing, stated position by position: \<open>mixed\<close> has the shape of \<open>batch\<close>, and
  at every position of every sample \<open>n\<close> it is the mask-weighted sum of the pixel of
  sample \<open>n\<close> and the pixel of sample \<open>perm[n]\<close>.
\<close>

definition mixes_pixelwise :: "tensor4 \<Rightarrow> tensor4 \<Rightarrow> nat list \<Rightarrow> tensor4 \<Rightarrow> bool" where
  "mixes_pixelwise msk batch perm mixed \<longleftrightarrow>
     length mixed = length batch \<and> length perm = length batch \<and>
     (\<forall>n<length batch. perm ! n < length batch \<and> length (mixed ! n) = length (batch ! n) \<and>
       (\<forall>c<length (batch ! n). length (mixed ! n ! c) = length (batch ! n ! c) \<and>
         (\<forall>i<length (batch ! n ! c). length (mixed ! n ! c ! i) = length (batch ! n ! c ! i) \<and>
           (\<forall>j<length (batch ! n ! c ! i).
              mixed ! n ! c ! i ! j
                = msk ! n ! c ! i ! j * batch ! n ! c ! i ! j
                  + (1 - msk ! n ! c ! i ! j) * batch ! (perm ! n) ! c ! i ! j))))"

section \<open>A small concrete instance\<close>

text \<open>
  A network with one real parameter, two samples of three channels and one pixel, four
  stages whose feature maps are 1 x 1, a mask generator that keeps every pixel, and an
  optimizer and a scheduler that count their steps. It is the input at which the
  properties below are evaluated.
\<close>

definition ex_env :: "(real, nat, nat) env" where
  "ex_env =
     \<lparr>net_forward = (\<lambda>training w x. map (\<lambda>sample. [w * sum_list (concat (concat sample)), 10]) x),
      hook_activation = (\<lambda>training w x s. map (\<lambda>sample. [[[1]]]) x),
      hook_gradient = (\<lambda>training w g s. [map (\<lambda>sample. [[[1]]]) (case g of [] \<Rightarrow> [] | (c, x, y) # _ \<Rightarrow> x)]),
      criterion = (\<lambda>p ls. sum_list (map2 (\<lambda>row l. if argmax_row row = l then 0 else 1) p ls)),
      opt_update = (\<lambda>os w g. (Suc os, w - real (length g))),
      sched_update = (\<lambda>ss os. (Suc ss, os)),
      generate_attentive_mask = (\<lambda>cam r k ab. map (map (map (\<lambda>_. 1))) cam),
      floordiv_rounds_down = True\<rparr>"

definition ex_world :: "(real, nat, nat) world" where
  "ex_world =
     \<lparr>params = 1, grads = [], training = False, num_stages = 4,
      stage_names = [''layer1'', ''layer2'', ''layer3'', ''layer4''],
      dict_activation = [], dict_gradients = [], opt_state = 0, sched_state = 0, calls = []\<rparr>"

definition ex_batch :: tensor4 where
  "ex_batch = [[[[1]], [[2]], [[3]]], [[[4]], [[5]], [[6]]]]"

definition ex_labels :: labels where
  "ex_labels = [1, 0]"

definition ex_kwargs :: kwargs where
  "ex_kwargs = \<lparr>cut_prob = 1 / 2, radius = 1, num_proposals = 4, multiplier = 1\<rparr>"

text \<open>Draws that take the augmented branch (\<open>r = 1/4 < cut_prob\<close>), and draws that do
  not (\<open>r = 3/4\<close>).\<close>

definition ex_draws :: "nat \<Rightarrow> draws" where
  "ex_draws idx = \<lparr>rnd_r = 1 / 4, rnd_perm = [1, 0], rnd_stage = 3, rnd_lam = 1 / 2,
                    rnd_bbox = (0, 0, 1, 1)\<rparr>"

definition ex_draws_plain :: "nat \<Rightarrow> draws" where
  "ex_draws_plain idx = \<lparr>rnd_r = 3 / 4, rnd_perm = [1, 0], rnd_stage = 3, rnd_lam = 1 / 2,
                          rnd_bbox = (0, 0, 1, 1)\<rparr>"

definition ex_loader :: "(tensor4 \<times> labels) list" where
  "ex_loader = [(ex_batch, ex_labels)]"

text \<open>A wrapper with three stages, so that the last stage has index 2, and draws that
  pick stage 1 in \<open>train_HybridCutMix\<close>.\<close>

definition ex_world_fine :: "(real, nat, nat) world" where
  "ex_world_fine = ex_world\<lparr>num_stages := 3, stage_names := [''layer1'', ''layer2'', ''layer3'']\<rparr>"

definition ex_draws_fine :: "nat \<Rightarrow> draws" where
  "ex_draws_fine idx = \<lparr>rnd_r = 1 / 4, rnd_perm = [1, 0], rnd_stage = 1, rnd_lam = 1 / 2,
                         rnd_bbox = (0, 0, 1, 1)\<rparr>"

definition ex_loader2 :: "(tensor4 \<times> labels) list" where
  "ex_loader2 = [(ex_batch, ex_labels), (ex_batch, ex_labels)]"

text \<open>The default \<open>--radius 4\<close> of the driver.\<close>

definition ex_kwargs4 :: kwargs where
  "ex_kwargs4 = ex_kwargs\<lparr>radius := 4\<rparr>"

text \<open>The keyword arguments with \<open>cut_prob = 0.0\<close>.\<close>

definition ex_kwargs0 :: kwargs where
  "ex_kwargs0 = ex_kwargs\<lparr>cut_prob := 0\<rparr>"

text \<open>Command lines of the driver: the defaults of \<open>train.py\<close> with
  \<open>--train_mode mixup\<close> (no such mode), the same with \<open>--num_epochs 0\<close>, and the defaults
  with \<open>--net_type alexnet\<close> (no such network).\<close>

definition ex_args_mixup :: args where
  "ex_args_mixup =
     \<lparr>net_type = ''resnet50'', data_type = ''cifar10'', train_mode = ''mixup'',
      num_epochs = 100, arg_cut_prob = 1 / 2, arg_radius = 4, arg_num_proposals = 4\<rparr>"

definition ex_args_alexnet :: args where
  "ex_args_alexnet =
     \<lparr>net_type = ''alexnet'', data_type = ''cifar10'', train_mode = ''vanilla'',
      num_epochs = 100, arg_cut_prob = 1 / 2, arg_radius = 4, arg_num_proposals = 4\<rparr>"

text \<open>
  A second instance, in which the mixing changes pixels and predictions: images of
  2 x 2 pixels, stage maps of 2 x 2, a mask generator that marks the top left position,
  and three classes. Sample 0 sums to 30 and is predicted as class 1, sample 1 sums to
  78 and is predicted as class 2; after the top left pixels are swapped the sums are 42
  and 66 and the predictions are the classes 0 and 2.
\<close>

definition ex_env_mix :: "(real, nat, nat) env" where
  "ex_env_mix =
     \<lparr>net_forward = (\<lambda>training w x.
         map (\<lambda>sample. [w * sum_list (concat (concat sample)), 36,
                         2 * w * sum_list (concat (concat sample)) - 60]) x),
      hook_activation = (\<lambda>training w x s. map (\<lambda>sample. [[[1, 1], [1, 1]]]) x),
      hook_gradient = (\<lambda>training w g s.
         [map (\<lambda>sample. [[[1, 1], [1, 1]]]) (case g of [] \<Rightarrow> [] | (c, x, y) # _ \<Rightarrow> x)]),
      criterion = (\<lambda>p ls. sum_list (map2 (\<lambda>row l. if argmax_row row = l then 0 else 1) p ls)),
      opt_update = (\<lambda>os w g. (Suc os, w)),
      sched_update = (\<lambda>ss os. (Suc ss, os)),
      generate_attentive_mask = (\<lambda>cam r k ab. map (\<lambda>m. [[0, 1], [1, 1]]) cam),
      floordiv_rounds_down = True\<rparr>"

definition ex_batch_mix :: tensor4 where
  "ex_batch_mix =
     [[[[1, 2], [3, 4]], [[1, 2], [3, 4]], [[1, 2], [3, 4]]],
      [[[5, 6], [7, 8]], [[5, 6], [7, 8]], [[5, 6], [7, 8]]]]"

definition ex_labels_mix :: labels where
  "ex_labels_mix = [0, 2]"

definition ex_upsampled_mix :: tensor4 where
  "ex_upsampled_mix =
     [[[[0, 1], [1, 1]], [[0, 1], [1, 1]], [[0, 1], [1, 1]]],
      [[[0, 1], [1, 1]], [[0, 1], [1, 1]], [[0, 1], [1, 1]]]]"

definition ex_mixed :: tensor4 where
  "ex_mixed =
     [[[[5, 2], [3, 4]], [[5, 2], [3, 4]], [[5, 2], [3, 4]]],
      [[[1, 6], [7, 8]], [[1, 6], [7, 8]], [[1, 6], [7, 8]]]]"

definition ex_kwargs_mix :: kwargs where
  "ex_kwargs_mix = \<lparr>cut_prob = 1 / 2, radius = 0, num_proposals = 1, multiplier = 1\<rparr>"

text \<open>A configured radius of \<open>2 ^ 62\<close>: three times it does not fit 64 bits.\<close>

definition ex_kwargs_wide :: kwargs where
  "ex_kwargs_wide = ex_kwargs\<lparr>radius := 2 ^ 62\<rparr>"

section \<open>Properties\<close>

subsection \<open>Shapes, permutations and elementwise arithmetic\<close>

lemma is_randperm_length: "is_randperm idx n \<Longrightarrow> length idx = n"
  unfolding is_randperm_def by (metis length_sort length_upt diff_zero)

lemma is_randperm_bound: "is_randperm idx n \<Longrightarrow> i \<in> set idx \<Longrightarrow> i < n"
  unfolding is_randperm_def by (metis set_sort atLeastLessThan_iff set_upt)

lemma index_select_randperm:
  "is_randperm idx (length t) \<Longrightarrow> index_select t idx = Some (map (\<lambda>i. t ! i) idx)"
  by (simp add: index_select_def list_all_iff is_randperm_bound)

lemma same_shape4_select:
  assumes "rect4 t" "is_randperm idx (length t)"
  shows "same_shape4 t (map (\<lambda>i. t ! i) idx)"
  unfolding same_shape4_def
proof (rule list_all2_all_nthI)
  show "length t = length (map ((!) t) idx)"
    using is_randperm_length[OF assms(2)] by simp
next
  fix n assume n: "n < length t"
  then have "idx ! n < length t"
    using is_randperm_bound[OF assms(2)] is_randperm_length[OF assms(2)] by simp
  then show "same_shape3 (t ! n) (map ((!) t) idx ! n)"
    using assms(1) n is_randperm_length[OF assms(2)]
    by (simp add: rect4_def list_all_iff)
qed

lemma map2_map_left_absorb:
  "list_all2 R xs ys \<Longrightarrow> (\<And>x y. R x y \<Longrightarrow> F (G x) y = H y) \<Longrightarrow> map2 F (map G xs) ys = map H ys"
  by (induction rule: list_all2_induct) simp_all

lemma map2_map_left_unit:
  "list_all2 R xs ys \<Longrightarrow> (\<And>x y. R x y \<Longrightarrow> F (G x) y = y) \<Longrightarrow> map2 F (map G xs) ys = ys"
  by (induction rule: list_all2_induct) simp_all

lemma map2_map_right_unit:
  "list_all2 R xs ys \<Longrightarrow> (\<And>x y. R x y \<Longrightarrow> F x (G y) = x) \<Longrightarrow> map2 F xs (map G ys) = xs"
  by (induction rule: list_all2_induct) simp_all

lemma same_shape4_map_left:
  "same_shape4 (map (map (map (map g))) a) b = same_shape4 a b"
  by (simp add: same_shape4_def same_shape3_def[abs_def] same_shape2_def[abs_def] list_all2_map1)

lemma same_shape4_map_right:
  "same_shape4 a (map (map (map (map g))) b) = same_shape4 a b"
  by (simp add: same_shape4_def same_shape3_def[abs_def] same_shape2_def[abs_def] list_all2_map2)

lemma same_shape2_refl: "same_shape2 a a"
  by (simp add: same_shape2_def list_all2_same)

lemma same_shape3_refl: "same_shape3 a a"
  by (simp add: same_shape3_def list_all2_same same_shape2_refl)

lemma same_shape4_refl: "same_shape4 a a"
  by (simp add: same_shape4_def list_all2_same same_shape3_refl)

lemma row_mul_ones:
  "length x = length y \<Longrightarrow> map2 (\<lambda>a b. a * b) (map (\<lambda>_. 1) x) y = (y :: real list)"
  by (induction x y rule: list_induct2) simp_all

lemma row_mul_zeros:
  "length x = length y \<Longrightarrow> map2 (\<lambda>a b. a * b) (map (\<lambda>_. 0) x) y = map (\<lambda>_. 0) (y :: real list)"
  by (induction x y rule: list_induct2) simp_all

lemma row_add_zeros_right:
  "length x = length y \<Longrightarrow> map2 (\<lambda>a b. a + b) x (map (\<lambda>_. 0) y) = (x :: real list)"
  by (induction x y rule: list_induct2) simp_all

lemma row_add_zeros_left:
  "length x = length y \<Longrightarrow> map2 (\<lambda>a b. a + b) (map (\<lambda>_. 0) x) y = (y :: real list)"
  by (induction x y rule: list_induct2) simp_all

lemma mul_ones_like: "same_shape4 m b \<Longrightarrow> ewise4 (\<lambda>x y. x * y) (ones_like m) b = b"
  unfolding ewise4_def ewise3_def ewise2_def ones_like_def same_shape4_def same_shape3_def
    same_shape2_def
  by (erule map2_map_left_unit, erule map2_map_left_unit, erule map2_map_left_unit,
      erule row_mul_ones)

lemma mul_zeros_like: "same_shape4 m b \<Longrightarrow> ewise4 (\<lambda>x y. x * y) (zeros_like m) b = zeros_like b"
  unfolding ewise4_def ewise3_def ewise2_def zeros_like_def same_shape4_def same_shape3_def
    same_shape2_def
  by (erule map2_map_left_absorb, erule map2_map_left_absorb, erule map2_map_left_absorb,
      erule row_mul_zeros)

lemma add_zeros_like_right: "same_shape4 a b \<Longrightarrow> ewise4 (\<lambda>x y. x + y) a (zeros_like b) = a"
  unfolding ewise4_def ewise3_def ewise2_def zeros_like_def same_shape4_def same_shape3_def
    same_shape2_def
  by (erule map2_map_right_unit, erule map2_map_right_unit, erule map2_map_right_unit,
      erule row_add_zeros_right)

lemma add_zeros_like_left: "same_shape4 a b \<Longrightarrow> ewise4 (\<lambda>x y. x + y) (zeros_like a) b = b"
  unfolding ewise4_def ewise3_def ewise2_def zeros_like_def same_shape4_def same_shape3_def
    same_shape2_def
  by (erule map2_map_left_unit, erule map2_map_left_unit, erule map2_map_left_unit,
      erule row_add_zeros_left)

lemma rsub1_ones: "rsub1 (ones_like b) = zeros_like b"
  by (simp add: rsub1_def ones_like_def zeros_like_def)

lemma rsub1_zeros: "rsub1 (zeros_like b) = ones_like b"
  by (simp add: rsub1_def ones_like_def zeros_like_def)

lemma blend_ones_general:
  assumes "index_select batch rand_index = Some permuted" "same_shape4 batch permuted"
  shows "blend (ones_like batch) batch rand_index = Some batch"
  using assms
  by (simp add: blend_def tmul_def tadd_def rsub1_ones mul_ones_like mul_zeros_like
      add_zeros_like_right same_shape4_refl
      same_shape4_map_left[of "\<lambda>_. 1", folded ones_like_def]
      same_shape4_map_left[of "\<lambda>_. 0", folded zeros_like_def]
      same_shape4_map_right[of _ "\<lambda>_. 0", folded zeros_like_def])

lemma blend_zeros_general:
  assumes "index_select batch rand_index = Some permuted" "same_shape4 batch permuted"
  shows "blend (zeros_like batch) batch rand_index = Some permuted"
  using assms
  by (simp add: blend_def tmul_def tadd_def rsub1_zeros mul_ones_like mul_zeros_like
      add_zeros_like_left same_shape4_refl
      same_shape4_map_left[of "\<lambda>_. 1", folded ones_like_def]
      same_shape4_map_left[of "\<lambda>_. 0", folded zeros_like_def]
      same_shape4_map_right[of _ "\<lambda>_. 0", folded zeros_like_def])

subsection \<open>The blending step at the two boundary masks\<close>

text \<open>
  Claim C5. For every rectangular image batch and every permutation of its samples,
  the blending \<open>mask * batch + (1 - mask) * batch[rand_index]\<close> returns the batch
  itself when the upsampled mask is all ones, and the permuted batch when the mask is
  all zeros. The arithmetic is that of the reals.
\<close>

theorem blend_boundary_masks:
  assumes "rect4 batch" and "is_randperm rand_index (length batch)"
  shows "blend (ones_like batch) batch rand_index = Some batch
       \<and> blend (zeros_like batch) batch rand_index = Some (map (\<lambda>i. batch ! i) rand_index)"
  using blend_ones_general[OF index_select_randperm[OF assms(2)] same_shape4_select[OF assms]]
        blend_zeros_general[OF index_select_randperm[OF assms(2)] same_shape4_select[OF assms]]
  by simp

theorem blend_boundary_masks_witness:
  "rect4 ex_batch \<and> is_randperm [1, 0] (length ex_batch)
   \<and> blend (ones_like ex_batch) ex_batch [1, 0] = Some ex_batch
   \<and> blend (zeros_like ex_batch) ex_batch [1, 0]
       = Some [[[[4]], [[5]], [[6]]], [[[1]], [[2]], [[3]]]]"
proof -
  have r: "rect4 ex_batch"
    by (simp add: rect4_def ex_batch_def same_shape3_def same_shape2_def)
  have p: "is_randperm [1, 0] (length ex_batch)"
    by (simp add: is_randperm_def ex_batch_def upt_rec)
  show ?thesis
    using r p blend_boundary_masks[OF r p] by (simp add: ex_batch_def)
qed

subsection \<open>What the augmented branches return\<close>

lemmas prim_defs = zero_grad_def forward_def backward_def clear_dict_def optimizer_step_def
  call_generate_mask_def savefig_def crit_def


lemma hps_augment_result:
  assumes "hps_augment env kw w batch ls pred d = Some (mixed, pm, loss, w')"
  shows "params w' = params w \<and> opt_state w' = opt_state w \<and> sched_state w' = sched_state w
       \<and> training w' = training w \<and> grads w' = [] \<and> dict_gradients w' = []
       \<and> num_stages w' = num_stages w \<and> stage_names w' = stage_names w
       \<and> dict_activation w' =
            map (\<lambda>s. (s, hook_activation env (training w) (params w) mixed s)) (stage_names w)
       \<and> calls w' = calls w @ [Backward [(1, pred_input pred, ls)], ZeroGrad, ClearDict,
            GenerateMask (radius kw) (num_proposals kw) (Some False), Forward mixed]
       \<and> pm = argmax1 (net_forward env (training w) (params w) mixed)"
  using assms
  by (auto simp: hps_augment_def prim_defs Let_def case_prod_beta bind_eq_Some_conv split: if_splits)

lemma hps_augment_loss:
  assumes "hps_augment env kw w batch ls pred d = Some (mixed, pm, loss, w')"
  shows "(\<exists>mask. blend mask batch (rnd_perm d) = Some mixed)
       \<and> (num_stages w - 1 < 3 \<longrightarrow>
            loss = \<lparr>lval = criterion env (net_forward env (training w) (params w) mixed) ls,
                    lgraph = [(1, mixed, ls)]\<rparr>)
       \<and> (\<not> num_stages w - 1 < 3 \<longrightarrow>
            (\<exists>W_f H_f q lb. hps_mix_ratio (radius kw) W_f H_f = Some q
               \<and> index_select ls (rnd_perm d) = Some lb
               \<and> loss = \<lparr>lval = criterion env (net_forward env (training w) (params w) mixed) ls * q
                              + criterion env (net_forward env (training w) (params w) mixed) lb * (1 - q),
                         lgraph = [(q, mixed, ls), (1 - q, mixed, lb)]\<rparr>))"
  using assms
  by (auto simp: hps_augment_def prim_defs Let_def case_prod_beta bind_eq_Some_conv ladd_def lmul_def
      split: if_splits)

lemma hcm_augment_result:
  assumes "hcm_augment env kw fr w batch ls pred d = Some (fr', mixed, pm, loss, w')"
  shows "params w' = params w \<and> opt_state w' = opt_state w \<and> sched_state w' = sched_state w
       \<and> training w' = training w \<and> grads w' = [] \<and> dict_gradients w' = []
       \<and> num_stages w' = num_stages w \<and> stage_names w' = stage_names w
       \<and> dict_activation w' =
            map (\<lambda>s. (s, hook_activation env (training w) (params w) mixed s)) (stage_names w)
       \<and> fr' = update_radius (floordiv_rounds_down env) (num_stages w) (rnd_stage d) fr
       \<and> calls w' = calls w @ [Backward [(1, pred_input pred, ls)], ZeroGrad, ClearDict,
            GenerateMask fr' (hcm_num_proposals (num_stages w) (rnd_stage d) (multiplier kw)) None, Forward mixed]
       \<and> pm = argmax1 (net_forward env (training w) (params w) mixed)"
  using assms
  by (auto simp: hcm_augment_def prim_defs Let_def case_prod_beta bind_eq_Some_conv split: if_splits)

lemma hcm_augment_loss:
  assumes "hcm_augment env kw fr w batch ls pred d = Some (fr', mixed, pm, loss, w')"
  shows "(\<exists>mask. blend mask batch (rnd_perm d) = Some mixed)
       \<and> (rnd_stage d < 3 \<longrightarrow>
            loss = \<lparr>lval = criterion env (net_forward env (training w) (params w) mixed) ls,
                    lgraph = [(1, mixed, ls)]\<rparr>)
       \<and> (\<not> rnd_stage d < 3 \<longrightarrow>
            (\<exists>masks n q lb. hcm_occlusion_ratio masks n = Some q
               \<and> index_select ls (rnd_perm d) = Some lb
               \<and> loss = \<lparr>lval = criterion env (net_forward env (training w) (params w) mixed) ls * (1 - q)
                              + criterion env (net_forward env (training w) (params w) mixed) lb * q,
                         lgraph = [(1 - q, mixed, ls), (q, mixed, lb)]\<rparr>))"
  using assms
  by (auto simp: hcm_augment_def prim_defs Let_def case_prod_beta bind_eq_Some_conv ladd_def lmul_def
      split: if_splits)

lemma cutmix_augment_result:
  assumes "cutmix_augment env w batch ls d = Some (mixed, pred, loss, w')"
  shows "params w' = params w \<and> opt_state w' = opt_state w \<and> sched_state w' = sched_state w
       \<and> training w' = training w \<and> grads w' = grads w
       \<and> num_stages w' = num_stages w \<and> stage_names w' = stage_names w
       \<and> calls w' = calls w @ [Forward mixed]
       \<and> logits pred = net_forward env (training w) (params w) mixed
       \<and> (\<exists>permuted. index_select batch (rnd_perm d) = Some permuted
             \<and> paste_box (rnd_bbox d) batch permuted = Some mixed)
       \<and> (\<exists>lam lb. cutmix_lam (rnd_bbox d) mixed = Some lam
             \<and> index_select ls (rnd_perm d) = Some lb
             \<and> loss = \<lparr>lval = criterion env (logits pred) ls * lam
                              + criterion env (logits pred) lb * (1 - lam),
                        lgraph = [(lam, mixed, ls), (1 - lam, mixed, lb)]\<rparr>)"
  using assms
  by (auto simp: cutmix_augment_def prim_defs Let_def case_prod_beta bind_eq_Some_conv ladd_def lmul_def
      split: if_splits)

subsection \<open>One iteration of each batch loop\<close>

lemma hps_batch_augmented:
  assumes "hps_batch env kw ep rnd st (idx, batch, ls) = Some st'"
    and "rnd_r (rnd idx) < cut_prob kw"
  shows "\<exists>mixed pm loss w1 n.
           hps_augment env kw (snd (forward env (zero_grad (model st)) batch)) batch ls
             (fst (forward env (zero_grad (model st)) batch)) (rnd idx) = Some (mixed, pm, loss, w1)
         \<and> count_correct pm ls = Some n
         \<and> st' = \<lparr>model = optimizer_step env (backward env (zero_grad
                      (if idx mod 150 = 0 \<and> ep mod 10 = 0
                       then savefig w1 ''Train_Orig_BatchSample'' ep idx else w1)) loss),
                   train_loss = train_loss st + lval loss,
                   train_n_corrects = train_n_corrects st + n,
                   train_n_samples = train_n_samples st + length ls\<rparr>"
  using assms
  by (clarsimp simp: hps_batch_def accumulate_def Let_def case_prod_beta bind_eq_Some_conv
      split del: if_split cong: if_cong)

lemma hcm_batch_augmented:
  assumes "hcm_batch env kw ep rnd (fr, st) (idx, batch, ls) = Some (fr', st')"
    and "rnd_r (rnd idx) < cut_prob kw"
  shows "\<exists>mixed pm loss w1 n.
           hcm_augment env kw fr (snd (forward env (zero_grad (model st)) batch)) batch ls
             (fst (forward env (zero_grad (model st)) batch)) (rnd idx) = Some (fr', mixed, pm, loss, w1)
         \<and> count_correct pm ls = Some n
         \<and> st' = \<lparr>model = optimizer_step env (backward env (zero_grad
                      (if idx mod 150 = 0 \<and> ep mod 1 = 0
                       then savefig w1 ''Train_Orig_BatchSample'' ep idx else w1)) loss),
                   train_loss = train_loss st + lval loss,
                   train_n_corrects = train_n_corrects st + n,
                   train_n_samples = train_n_samples st + length ls\<rparr>"
  using assms
  by (clarsimp simp: hcm_batch_def accumulate_def Let_def case_prod_beta bind_eq_Some_conv
      split del: if_split cong: if_cong)

lemma cutmix_batch_augmented:
  assumes "cutmix_batch env kw ep rnd st (idx, batch, ls) = Some st'"
    and "rnd_r (rnd idx) < cut_prob kw"
  shows "\<exists>mixed pred loss w1 n.
           cutmix_augment env (zero_grad (model st)) batch ls (rnd idx) = Some (mixed, pred, loss, w1)
         \<and> count_correct (argmax1 (logits pred)) ls = Some n
         \<and> st' = \<lparr>model = optimizer_step env (backward env
                      (if idx mod 100 = 0 \<and> ep mod 20 = 0
                       then savefig w1 ''TrainVal_BatchSample'' ep idx else w1) loss),
                   train_loss = train_loss st + lval loss,
                   train_n_corrects = train_n_corrects st + n,
                   train_n_samples = train_n_samples st + length ls\<rparr>"
  using assms
  by (clarsimp simp: cutmix_batch_def accumulate_def Let_def case_prod_beta bind_eq_Some_conv
      split del: if_split cong: if_cong)

lemma hps_batch_plain:
  assumes "\<not> rnd_r (rnd idx) < cut_prob kw"
  shows "hps_batch env kw ep rnd st (idx, batch, ls) =
         (case count_correct (argmax1 (net_forward env (training (model st)) (params (model st)) batch)) ls of
            None \<Rightarrow> None
          | Some n \<Rightarrow> Some
             \<lparr>model = optimizer_step env (backward env (zero_grad
                 (if idx mod 150 = 0 \<and> ep mod 10 = 0
                  then savefig (snd (forward env (zero_grad (model st)) batch)) ''Train_Orig_BatchSample'' ep idx
                  else snd (forward env (zero_grad (model st)) batch)))
                 (crit env (fst (forward env (zero_grad (model st)) batch)) ls)),
              train_loss = train_loss st + criterion env (net_forward env (training (model st)) (params (model st)) batch) ls,
              train_n_corrects = train_n_corrects st + n,
              train_n_samples = train_n_samples st + length ls\<rparr>)"
  using assms
  by (auto simp: hps_batch_def accumulate_def Let_def case_prod_beta prim_defs split: option.splits)

lemma hcm_batch_plain:
  assumes "\<not> rnd_r (rnd idx) < cut_prob kw"
  shows "hcm_batch env kw ep rnd (fr, st) (idx, batch, ls) =
         (case count_correct (argmax1 (net_forward env (training (model st)) (params (model st)) batch)) ls of
            None \<Rightarrow> None
          | Some n \<Rightarrow> Some (fr,
             \<lparr>model = optimizer_step env (backward env (zero_grad
                 (if idx mod 150 = 0 \<and> ep mod 1 = 0
                  then savefig (snd (forward env (zero_grad (model st)) batch)) ''Train_Orig_BatchSample'' ep idx
                  else snd (forward env (zero_grad (model st)) batch)))
                 (crit env (fst (forward env (zero_grad (model st)) batch)) ls)),
              train_loss = train_loss st + criterion env (net_forward env (training (model st)) (params (model st)) batch) ls,
              train_n_corrects = train_n_corrects st + n,
              train_n_samples = train_n_samples st + length ls\<rparr>))"
  using assms
  by (auto simp: hcm_batch_def accumulate_def Let_def case_prod_beta prim_defs split: option.splits)

lemma cutmix_batch_plain:
  assumes "\<not> rnd_r (rnd idx) < cut_prob kw"
  shows "cutmix_batch env kw ep rnd st (idx, batch, ls) =
         (case count_correct (argmax1 (net_forward env (training (model st)) (params (model st)) batch)) ls of
            None \<Rightarrow> None
          | Some n \<Rightarrow> Some
             \<lparr>model = optimizer_step env (backward env
                 (if idx mod 100 = 0 \<and> ep mod 20 = 0
                  then savefig (snd (forward env (zero_grad (model st)) batch)) ''TrainVal_BatchSample'' ep idx
                  else snd (forward env (zero_grad (model st)) batch))
                 (crit env (fst (forward env (zero_grad (model st)) batch)) ls)),
              train_loss = train_loss st + criterion env (net_forward env (training (model st)) (params (model st)) batch) ls,
              train_n_corrects = train_n_corrects st + n,
              train_n_samples = train_n_samples st + length ls\<rparr>)"
  using assms
  by (auto simp: cutmix_batch_def accumulate_def Let_def case_prod_beta prim_defs split: option.splits)

lemma train_batch_plain:
  "train_batch env ep st (idx, batch, ls) =
         (case count_correct (argmax1 (net_forward env (training (model st)) (params (model st)) batch)) ls of
            None \<Rightarrow> None
          | Some n \<Rightarrow> Some
             \<lparr>model = optimizer_step env (backward env
                 (if idx mod 100 = 0 \<and> ep mod 20 = 0
                  then savefig (snd (forward env (zero_grad (model st)) batch)) ''Train_BatchSample'' ep idx
                  else snd (forward env (zero_grad (model st)) batch))
                 (crit env (fst (forward env (zero_grad (model st)) batch)) ls)),
              train_loss = train_loss st + criterion env (net_forward env (training (model st)) (params (model st)) batch) ls,
              train_n_corrects = train_n_corrects st + n,
              train_n_samples = train_n_samples st + length ls\<rparr>)"
  by (auto simp: train_batch_def accumulate_def Let_def case_prod_beta prim_defs split: option.splits)

lemma test_batch_plain:
  "test_batch env sp ep st (idx, batch, ls) =
         (case count_correct (argmax1 (net_forward env (training (model st)) (params (model st)) batch)) ls of
            None \<Rightarrow> None
          | Some n \<Rightarrow> Some
             \<lparr>model = (if sp \<noteq> None \<and> idx mod 300 = 0 \<and> ep mod 20 = 0
                  then savefig (snd (forward env (model st) batch)) ''Test_BatchSample'' ep idx
                  else snd (forward env (model st) batch)),
              train_loss = train_loss st + criterion env (net_forward env (training (model st)) (params (model st)) batch) ls,
              train_n_corrects = train_n_corrects st + n,
              train_n_samples = train_n_samples st + length ls\<rparr>)"
  by (auto simp: test_batch_def accumulate_def Let_def case_prod_beta prim_defs split: option.splits)

subsection \<open>The accumulators of an epoch\<close>

lemma for_each_accumulates:
  assumes step: "\<And>s idx b ls s'. body s (idx, b, ls) = Some s' \<Longrightarrow> f s' = f s + length ls"
  shows "for_each body st (enumerate k xs) = Some st' \<Longrightarrow> f st' = f st + batch_sizes xs"
proof (induction xs arbitrary: st k)
  case Nil
  then show ?case by (simp add: batch_sizes_def)
next
  case (Cons x xs)
  obtain b ls where x: "x = (b, ls)" by (cases x)
  from Cons.prems obtain s1 where s1: "body st (k, b, ls) = Some s1"
    and rest: "for_each body s1 (enumerate (Suc k) xs) = Some st'"
    by (auto simp: x bind_eq_Some_conv)
  have "f st' = f s1 + batch_sizes xs" using Cons.IH[OF rest] .
  moreover have "f s1 = f st + length ls" using step[OF s1] .
  ultimately show ?case by (simp add: x batch_sizes_def)
qed

lemma train_batch_samples:
  "train_batch env ep st (idx, batch, ls) = Some st' \<Longrightarrow>
     train_n_samples st' = train_n_samples st + length ls"
  by (auto simp: train_batch_plain split: option.splits)

lemma hps_batch_samples:
  "hps_batch env kw ep rnd st (idx, batch, ls) = Some st' \<Longrightarrow>
     train_n_samples st' = train_n_samples st + length ls"
proof (cases "rnd_r (rnd idx) < cut_prob kw")
  case True
  assume "hps_batch env kw ep rnd st (idx, batch, ls) = Some st'"
  from hps_batch_augmented[OF this True] show ?thesis by auto
next
  case False
  assume "hps_batch env kw ep rnd st (idx, batch, ls) = Some st'"
  then show ?thesis by (auto simp: hps_batch_plain[where rnd=rnd and idx=idx and kw=kw, OF False] split: option.splits)
qed

lemma hcm_batch_samples_pair:
  "hcm_batch env kw ep rnd (fr, st) (idx, batch, ls) = Some (fr', st') \<Longrightarrow>
     train_n_samples st' = train_n_samples st + length ls"
proof (cases "rnd_r (rnd idx) < cut_prob kw")
  case True
  assume "hcm_batch env kw ep rnd (fr, st) (idx, batch, ls) = Some (fr', st')"
  from hcm_batch_augmented[OF this True] show ?thesis by auto
next
  case False
  assume "hcm_batch env kw ep rnd (fr, st) (idx, batch, ls) = Some (fr', st')"
  then show ?thesis
    by (auto simp: hcm_batch_plain[where rnd=rnd and idx=idx and kw=kw, OF False]
        split: option.splits)
qed

lemma hcm_batch_samples:
  "hcm_batch env kw ep rnd s (idx, batch, ls) = Some s' \<Longrightarrow>
     train_n_samples (snd s') = train_n_samples (snd s) + length ls"
  by (cases s; cases s') (auto dest: hcm_batch_samples_pair)

lemma cutmix_batch_samples:
  "cutmix_batch env kw ep rnd st (idx, batch, ls) = Some st' \<Longrightarrow>
     train_n_samples st' = train_n_samples st + length ls"
proof (cases "rnd_r (rnd idx) < cut_prob kw")
  case True
  assume "cutmix_batch env kw ep rnd st (idx, batch, ls) = Some st'"
  from cutmix_batch_augmented[OF this True] show ?thesis by auto
next
  case False
  assume "cutmix_batch env kw ep rnd st (idx, batch, ls) = Some st'"
  then show ?thesis by (auto simp: cutmix_batch_plain[where rnd=rnd and idx=idx and kw=kw, OF False] split: option.splits)
qed

lemma finish_epoch_accuracy:
  "finish_epoch env st n = Some (w, l, a) \<Longrightarrow>
     a = real (train_n_corrects st) / real (train_n_samples st) \<and> 0 < train_n_samples st
     \<and> l = train_loss st / real n \<and> 0 < n"
  by (auto simp: finish_epoch_def np_true_div_def Let_def bind_eq_Some_conv split: if_splits)

text \<open>
  Claim C7. Whenever a training function returns, the accuracy it returns is the
  accumulated number of correct predictions divided by the accumulated number of
  samples, and that number of samples is the sum of the batch sizes of the epoch. The
  four training functions are \<open>train\<close>, \<open>train_HybridPartSwapping\<close>,
  \<open>train_HybridCutMix\<close> and \<open>train_CutMix\<close>; the accumulators are those of the
  loop state after the last batch.
\<close>

theorem epoch_accuracy_is_quotient:
  "(train env ep w loader = Some (w', l, a) \<longrightarrow>
      (\<exists>st. for_each (train_batch env ep) (init_locals (model_train w)) (enumerate 0 loader) = Some st
         \<and> a = real (train_n_corrects st) / real (train_n_samples st)
         \<and> train_n_samples st = batch_sizes loader))
 \<and> (train_HybridPartSwapping env kw ep rnd w loader = Some (w', l, a) \<longrightarrow>
      (\<exists>st. for_each (hps_batch env kw ep rnd) (init_locals (model_train w)) (enumerate 0 loader) = Some st
         \<and> a = real (train_n_corrects st) / real (train_n_samples st)
         \<and> train_n_samples st = batch_sizes loader))
 \<and> (train_HybridCutMix env kw ep rnd w loader = Some (w', l, a) \<longrightarrow>
      (\<exists>fr st. for_each (hcm_batch env kw ep rnd) (radius kw, init_locals (model_train w))
                  (enumerate 0 loader) = Some (fr, st)
         \<and> a = real (train_n_corrects st) / real (train_n_samples st)
         \<and> train_n_samples st = batch_sizes loader))
 \<and> (train_CutMix env kw ep rnd w loader = Some (w', l, a) \<longrightarrow>
      (\<exists>st. for_each (cutmix_batch env kw ep rnd) (init_locals (model_train w)) (enumerate 0 loader) = Some st
         \<and> a = real (train_n_corrects st) / real (train_n_samples st)
         \<and> train_n_samples st = batch_sizes loader))"
proof (intro conjI impI)
  assume "train env ep w loader = Some (w', l, a)"
  then obtain st where
    run: "for_each (train_batch env ep) (init_locals (model_train w)) (enumerate 0 loader) = Some st"
    and fin: "finish_epoch env st (length loader) = Some (w', l, a)"
    by (auto simp: train_def Let_def bind_eq_Some_conv)
  have "train_n_samples st = train_n_samples (init_locals (model_train w)) + batch_sizes loader"
    using for_each_accumulates[where f = train_n_samples, OF train_batch_samples run] .
  then show "\<exists>st. for_each (train_batch env ep) (init_locals (model_train w)) (enumerate 0 loader) = Some st
         \<and> a = real (train_n_corrects st) / real (train_n_samples st)
         \<and> train_n_samples st = batch_sizes loader"
    using run finish_epoch_accuracy[OF fin] by (auto simp: init_locals_def)
next
  assume "train_HybridPartSwapping env kw ep rnd w loader = Some (w', l, a)"
  then obtain st where
    run: "for_each (hps_batch env kw ep rnd) (init_locals (model_train w)) (enumerate 0 loader) = Some st"
    and fin: "finish_epoch env st (length loader) = Some (w', l, a)"
    by (auto simp: train_HybridPartSwapping_def Let_def bind_eq_Some_conv)
  have "train_n_samples st = train_n_samples (init_locals (model_train w)) + batch_sizes loader"
    using for_each_accumulates[where f = train_n_samples, OF hps_batch_samples run] .
  then show "\<exists>st. for_each (hps_batch env kw ep rnd) (init_locals (model_train w)) (enumerate 0 loader) = Some st
         \<and> a = real (train_n_corrects st) / real (train_n_samples st)
         \<and> train_n_samples st = batch_sizes loader"
    using run finish_epoch_accuracy[OF fin] by (auto simp: init_locals_def)
next
  assume "train_HybridCutMix env kw ep rnd w loader = Some (w', l, a)"
  then obtain fr st where
    run: "for_each (hcm_batch env kw ep rnd) (radius kw, init_locals (model_train w))
            (enumerate 0 loader) = Some (fr, st)"
    and fin: "finish_epoch env st (length loader) = Some (w', l, a)"
    by (auto simp: train_HybridCutMix_def Let_def bind_eq_Some_conv)
  have "train_n_samples (snd (fr, st))
        = train_n_samples (snd (radius kw, init_locals (model_train w))) + batch_sizes loader"
    using for_each_accumulates[where f = "\<lambda>s. train_n_samples (snd s)", OF hcm_batch_samples run] .
  then show "\<exists>fr st. for_each (hcm_batch env kw ep rnd) (radius kw, init_locals (model_train w))
                  (enumerate 0 loader) = Some (fr, st)
         \<and> a = real (train_n_corrects st) / real (train_n_samples st)
         \<and> train_n_samples st = batch_sizes loader"
    using run finish_epoch_accuracy[OF fin] by (auto simp: init_locals_def)
next
  assume "train_CutMix env kw ep rnd w loader = Some (w', l, a)"
  then obtain st where
    run: "for_each (cutmix_batch env kw ep rnd) (init_locals (model_train w)) (enumerate 0 loader) = Some st"
    and fin: "finish_epoch env st (length loader) = Some (w', l, a)"
    by (auto simp: train_CutMix_def Let_def bind_eq_Some_conv)
  have "train_n_samples st = train_n_samples (init_locals (model_train w)) + batch_sizes loader"
    using for_each_accumulates[where f = train_n_samples, OF cutmix_batch_samples run] .
  then show "\<exists>st. for_each (cutmix_batch env kw ep rnd) (init_locals (model_train w)) (enumerate 0 loader) = Some st
         \<and> a = real (train_n_corrects st) / real (train_n_samples st)
         \<and> train_n_samples st = batch_sizes loader"
    using run finish_epoch_accuracy[OF fin] by (auto simp: init_locals_def)
qed

subsection \<open>The concrete instance, evaluated\<close>

lemmas eval_defs = train_def train_HybridPartSwapping_def train_HybridCutMix_def train_CutMix_def
  test_def train_batch_def hps_batch_def hcm_batch_def cutmix_batch_def test_batch_def
  hps_augment_def hcm_augment_def cutmix_augment_def accumulate_def finish_epoch_def init_locals_def
  model_train_def model_eval_def scheduler_step_def prim_defs
  ex_env_def ex_world_def ex_batch_def ex_labels_def ex_kwargs_def ex_draws_def ex_draws_plain_def
  ex_loader_def ex_world_fine_def ex_draws_fine_def ex_loader2_def ex_kwargs4_def
  ex_kwargs0_def ex_env_mix_def ex_batch_mix_def ex_labels_mix_def ex_upsampled_mix_def
  ex_mixed_def ex_kwargs_mix_def
  Let_def enumerate_eq_zip np_true_div_def py_true_div_def py_index_def py_getitem_def
  count_correct_def argmax1_def argmax_row_def class_activation_map_def adaptive_avg_pool2d_1_def
  sum_dim1_def upsample_masks_def interpolate_nearest_def spatial_size_def shape4_def blend_def
  tmul_def tadd_def rsub1_def index_select_def same_shape4_def same_shape3_def same_shape2_def
  ewise4_def ewise3_def ewise2_def ladd_def lmul_def hps_mix_ratio_def hcm_occlusion_ratio_def
  update_radius_def hcm_num_proposals_def int64_wrap_def fits_int64_def tensor_floordiv_def
  cutmix_lam_def paste_box_def batch_sizes_def upt_rec numeral_3_eq_3

lemma ex_train_returns:
  "\<exists>w'. train ex_env 1 ex_world ex_loader = Some (w', 0, 1)"
  by (simp add: eval_defs)

lemma ex_hps_returns:
  "\<exists>w'. train_HybridPartSwapping ex_env ex_kwargs 1 ex_draws ex_world ex_loader = Some (w', -6, 1)"
  by (simp add: eval_defs)

lemma ex_hcm_returns:
  "\<exists>w'. train_HybridCutMix ex_env ex_kwargs 1 ex_draws ex_world ex_loader = Some (w', 0, 1)"
  by (simp add: eval_defs)

lemma ex_cutmix_returns:
  "\<exists>w'. train_CutMix ex_env ex_kwargs 1 ex_draws ex_world ex_loader = Some (w', 0, 0)"
  by (simp add: eval_defs)

lemma ex_batch_sizes: "batch_sizes ex_loader = 2"
  by (simp add: eval_defs)

theorem epoch_accuracy_is_quotient_witness:
  "(\<exists>w'. train ex_env 1 ex_world ex_loader = Some (w', 0, 1))
   \<and> (\<exists>st. for_each (train_batch ex_env 1) (init_locals (model_train ex_world))
               (enumerate 0 ex_loader) = Some st
          \<and> (1::real) = real (train_n_corrects st) / real (train_n_samples st)
          \<and> train_n_samples st = 2)
   \<and> (\<exists>w'. train_HybridPartSwapping ex_env ex_kwargs 1 ex_draws ex_world ex_loader = Some (w', -6, 1))
   \<and> (\<exists>st. for_each (hps_batch ex_env ex_kwargs 1 ex_draws) (init_locals (model_train ex_world))
               (enumerate 0 ex_loader) = Some st
          \<and> (1::real) = real (train_n_corrects st) / real (train_n_samples st)
          \<and> train_n_samples st = 2)
   \<and> (\<exists>w'. train_HybridCutMix ex_env ex_kwargs 1 ex_draws ex_world ex_loader = Some (w', 0, 1))
   \<and> (\<exists>fr st. for_each (hcm_batch ex_env ex_kwargs 1 ex_draws)
               (radius ex_kwargs, init_locals (model_train ex_world)) (enumerate 0 ex_loader)
               = Some (fr, st)
          \<and> (1::real) = real (train_n_corrects st) / real (train_n_samples st)
          \<and> train_n_samples st = 2)
   \<and> (\<exists>w'. train_CutMix ex_env ex_kwargs 1 ex_draws ex_world ex_loader = Some (w', 0, 0))
   \<and> (\<exists>st. for_each (cutmix_batch ex_env ex_kwargs 1 ex_draws) (init_locals (model_train ex_world))
               (enumerate 0 ex_loader) = Some st
          \<and> (0::real) = real (train_n_corrects st) / real (train_n_samples st)
          \<and> train_n_samples st = 2)"
proof -
  obtain w1 where t1: "train ex_env 1 ex_world ex_loader = Some (w1, 0, 1)"
    using ex_train_returns by blast
  obtain w2 where t2:
    "train_HybridPartSwapping ex_env ex_kwargs 1 ex_draws ex_world ex_loader = Some (w2, -6, 1)"
    using ex_hps_returns by blast
  obtain w3 where t3:
    "train_HybridCutMix ex_env ex_kwargs 1 ex_draws ex_world ex_loader = Some (w3, 0, 1)"
    using ex_hcm_returns by blast
  obtain w4 where t4:
    "train_CutMix ex_env ex_kwargs 1 ex_draws ex_world ex_loader = Some (w4, 0, 0)"
    using ex_cutmix_returns by blast
  note q1 = epoch_accuracy_is_quotient[where env = ex_env and ep = 1 and w = ex_world
      and loader = ex_loader and w' = w1 and l = 0 and a = 1]
  note q2 = epoch_accuracy_is_quotient[where env = ex_env and ep = 1 and w = ex_world
      and loader = ex_loader and w' = w2 and l = "-6" and a = 1 and kw = ex_kwargs and rnd = ex_draws]
  note q3 = epoch_accuracy_is_quotient[where env = ex_env and ep = 1 and w = ex_world
      and loader = ex_loader and w' = w3 and l = 0 and a = 1 and kw = ex_kwargs and rnd = ex_draws]
  note q4 = epoch_accuracy_is_quotient[where env = ex_env and ep = 1 and w = ex_world
      and loader = ex_loader and w' = w4 and l = 0 and a = 0 and kw = ex_kwargs and rnd = ex_draws]
  show ?thesis
    using t1 t2 t3 t4 q1 q2 q3 q4 unfolding ex_batch_sizes by blast
qed

subsection \<open>The two passes of the attention-guided branch\<close>

lemma hps_batch_trace:
  assumes run: "hps_batch env kw ep rnd st (idx, batch, ls) = Some st'"
    and aug: "rnd_r (rnd idx) < cut_prob kw"
  shows "\<exists>mixed loss.
       calls (model st') = calls (model st)
          @ [ZeroGrad, Forward batch, Backward [(1, batch, ls)], ZeroGrad, ClearDict,
             GenerateMask (radius kw) (num_proposals kw) (Some False), Forward mixed]
          @ figure_calls ''Train_Orig_BatchSample'' 150 10 ep idx
          @ [ZeroGrad, Backward loss, OptimizerStep]
     \<and> loss \<noteq> [] \<and> map (\<lambda>(c, x, y). x) loss = replicate (length loss) mixed
     \<and> grads (model st') = [loss]
     \<and> (opt_state (model st'), params (model st'))
         = opt_update env (opt_state (model st)) (params (model st)) [loss]"
proof -
  from hps_batch_augmented[OF run aug] obtain mixed pm loss w1 n where
    a: "hps_augment env kw (snd (forward env (zero_grad (model st)) batch)) batch ls
             (fst (forward env (zero_grad (model st)) batch)) (rnd idx) = Some (mixed, pm, loss, w1)"
    and st': "st' = \<lparr>model = optimizer_step env (backward env (zero_grad
                      (if idx mod 150 = 0 \<and> ep mod 10 = 0
                       then savefig w1 ''Train_Orig_BatchSample'' ep idx else w1)) loss),
                   train_loss = train_loss st + lval loss,
                   train_n_corrects = train_n_corrects st + n,
                   train_n_samples = train_n_samples st + length ls\<rparr>"
    by blast
  note r = hps_augment_result[OF a]
  note l = hps_augment_loss[OF a]
  have g: "lgraph loss \<noteq> [] \<and> map (\<lambda>(c, x, y). x) (lgraph loss) = replicate (length (lgraph loss)) mixed"
    using l by (cases "num_stages (snd (forward env (zero_grad (model st)) batch)) - 1 < 3") auto
  show ?thesis
    apply (rule exI[of _ mixed], rule exI[of _ "lgraph loss"])
    using r g
    by (simp add: st' figure_calls_def prim_defs case_prod_beta)
qed

lemma hcm_batch_trace:
  assumes run: "hcm_batch env kw ep rnd (fr, st) (idx, batch, ls) = Some (fr', st')"
    and aug: "rnd_r (rnd idx) < cut_prob kw"
  shows "\<exists>mixed loss.
       calls (model st') = calls (model st)
          @ [ZeroGrad, Forward batch, Backward [(1, batch, ls)], ZeroGrad, ClearDict,
             GenerateMask fr' (hcm_num_proposals (num_stages (model st)) (rnd_stage (rnd idx))
                               (multiplier kw)) None,
             Forward mixed]
          @ figure_calls ''Train_Orig_BatchSample'' 150 1 ep idx
          @ [ZeroGrad, Backward loss, OptimizerStep]
     \<and> loss \<noteq> [] \<and> map (\<lambda>(c, x, y). x) loss = replicate (length loss) mixed
     \<and> grads (model st') = [loss]
     \<and> (opt_state (model st'), params (model st'))
         = opt_update env (opt_state (model st)) (params (model st)) [loss]
     \<and> fr' = update_radius (floordiv_rounds_down env) (num_stages (model st))
               (rnd_stage (rnd idx)) fr"
proof -
  from hcm_batch_augmented[OF run aug] obtain mixed pm loss w1 n where
    a: "hcm_augment env kw fr (snd (forward env (zero_grad (model st)) batch)) batch ls
             (fst (forward env (zero_grad (model st)) batch)) (rnd idx) = Some (fr', mixed, pm, loss, w1)"
    and st': "st' = \<lparr>model = optimizer_step env (backward env (zero_grad
                      (if idx mod 150 = 0 \<and> ep mod 1 = 0
                       then savefig w1 ''Train_Orig_BatchSample'' ep idx else w1)) loss),
                   train_loss = train_loss st + lval loss,
                   train_n_corrects = train_n_corrects st + n,
                   train_n_samples = train_n_samples st + length ls\<rparr>"
    by blast
  note r = hcm_augment_result[OF a]
  note l = hcm_augment_loss[OF a]
  have g: "lgraph loss \<noteq> [] \<and> map (\<lambda>(c, x, y). x) (lgraph loss) = replicate (length (lgraph loss)) mixed"
    using l by (cases "rnd_stage (rnd idx) < 3") auto
  show ?thesis
    apply (rule exI[of _ mixed], rule exI[of _ "lgraph loss"])
    using r g
    by (simp add: st' figure_calls_def prim_defs case_prod_beta)
qed

text \<open>
  Claim C2. In \<open>train_HybridPartSwapping\<close> and \<open>train_HybridCutMix\<close>, a batch that
  takes the augmented branch makes these calls, in this order: \<open>zero_grad\<close>, a forward
  pass on the original batch, a backward pass of the loss on the original batch,
  \<open>zero_grad\<close> with no optimizer step before it, \<open>clear_dict\<close>, the mask generation, a
  forward pass on the mixed batch, \<open>zero_grad\<close>, a backward pass of a loss whose terms
  are all on the mixed batch, and one \<open>optimizer.step()\<close>. At that step the gradient
  buffers hold the second loss only, and the step starts from the parameters and
  optimizer state the batch began with: the first pass leaves nothing but the cached
  activation and gradient that were read before the cache was cleared.
\<close>

theorem attention_path_two_passes:
  "(hps_batch env kw ep rnd st (idx, batch, ls) = Some st' \<and> rnd_r (rnd idx) < cut_prob kw \<longrightarrow>
     (\<exists>mixed loss.
        calls (model st') = calls (model st)
          @ [ZeroGrad, Forward batch, Backward [(1, batch, ls)], ZeroGrad, ClearDict,
             GenerateMask (radius kw) (num_proposals kw) (Some False), Forward mixed]
          @ figure_calls ''Train_Orig_BatchSample'' 150 10 ep idx
          @ [ZeroGrad, Backward loss, OptimizerStep]
      \<and> loss \<noteq> [] \<and> map (\<lambda>(c, x, y). x) loss = replicate (length loss) mixed
      \<and> grads (model st') = [loss]
      \<and> (opt_state (model st'), params (model st'))
          = opt_update env (opt_state (model st)) (params (model st)) [loss]
      \<and> count_list (drop (length (calls (model st))) (calls (model st'))) OptimizerStep = 1))
 \<and> (hcm_batch env kw ep rnd (fr, st) (idx, batch, ls) = Some (fr', st')
       \<and> rnd_r (rnd idx) < cut_prob kw \<longrightarrow>
     (\<exists>mixed loss.
        calls (model st') = calls (model st)
          @ [ZeroGrad, Forward batch, Backward [(1, batch, ls)], ZeroGrad, ClearDict,
             GenerateMask fr' (hcm_num_proposals (num_stages (model st)) (rnd_stage (rnd idx))
                               (multiplier kw)) None,
             Forward mixed]
          @ figure_calls ''Train_Orig_BatchSample'' 150 1 ep idx
          @ [ZeroGrad, Backward loss, OptimizerStep]
      \<and> loss \<noteq> [] \<and> map (\<lambda>(c, x, y). x) loss = replicate (length loss) mixed
      \<and> grads (model st') = [loss]
      \<and> (opt_state (model st'), params (model st'))
          = opt_update env (opt_state (model st)) (params (model st)) [loss]
      \<and> count_list (drop (length (calls (model st))) (calls (model st'))) OptimizerStep = 1))"
proof (intro conjI impI)
  assume h: "hps_batch env kw ep rnd st (idx, batch, ls) = Some st' \<and> rnd_r (rnd idx) < cut_prob kw"
  from hps_batch_trace[OF conjunct1[OF h] conjunct2[OF h]] obtain mixed loss where
    t: "calls (model st') = calls (model st)
          @ [ZeroGrad, Forward batch, Backward [(1, batch, ls)], ZeroGrad, ClearDict,
             GenerateMask (radius kw) (num_proposals kw) (Some False), Forward mixed]
          @ figure_calls ''Train_Orig_BatchSample'' 150 10 ep idx
          @ [ZeroGrad, Backward loss, OptimizerStep]"
    and rest: "loss \<noteq> [] \<and> map (\<lambda>(c, x, y). x) loss = replicate (length loss) mixed
      \<and> grads (model st') = [loss]
      \<and> (opt_state (model st'), params (model st'))
          = opt_update env (opt_state (model st)) (params (model st)) [loss]"
    by blast
  have "count_list (drop (length (calls (model st))) (calls (model st'))) OptimizerStep = 1"
    by (simp add: t figure_calls_def)
  then show "\<exists>mixed loss.
        calls (model st') = calls (model st)
          @ [ZeroGrad, Forward batch, Backward [(1, batch, ls)], ZeroGrad, ClearDict,
             GenerateMask (radius kw) (num_proposals kw) (Some False), Forward mixed]
          @ figure_calls ''Train_Orig_BatchSample'' 150 10 ep idx
          @ [ZeroGrad, Backward loss, OptimizerStep]
      \<and> loss \<noteq> [] \<and> map (\<lambda>(c, x, y). x) loss = replicate (length loss) mixed
      \<and> grads (model st') = [loss]
      \<and> (opt_state (model st'), params (model st'))
          = opt_update env (opt_state (model st)) (params (model st)) [loss]
      \<and> count_list (drop (length (calls (model st))) (calls (model st'))) OptimizerStep = 1"
    using t rest by blast
next
  assume h: "hcm_batch env kw ep rnd (fr, st) (idx, batch, ls) = Some (fr', st')
       \<and> rnd_r (rnd idx) < cut_prob kw"
  from hcm_batch_trace[OF conjunct1[OF h] conjunct2[OF h]] obtain mixed loss where
    t: "calls (model st') = calls (model st)
          @ [ZeroGrad, Forward batch, Backward [(1, batch, ls)], ZeroGrad, ClearDict,
             GenerateMask fr' (hcm_num_proposals (num_stages (model st)) (rnd_stage (rnd idx))
                               (multiplier kw)) None,
             Forward mixed]
          @ figure_calls ''Train_Orig_BatchSample'' 150 1 ep idx
          @ [ZeroGrad, Backward loss, OptimizerStep]"
    and rest: "loss \<noteq> [] \<and> map (\<lambda>(c, x, y). x) loss = replicate (length loss) mixed
      \<and> grads (model st') = [loss]
      \<and> (opt_state (model st'), params (model st'))
          = opt_update env (opt_state (model st)) (params (model st)) [loss]"
    by blast
  have "count_list (drop (length (calls (model st))) (calls (model st'))) OptimizerStep = 1"
    by (simp add: t figure_calls_def)
  then show "\<exists>mixed loss.
        calls (model st') = calls (model st)
          @ [ZeroGrad, Forward batch, Backward [(1, batch, ls)], ZeroGrad, ClearDict,
             GenerateMask fr' (hcm_num_proposals (num_stages (model st)) (rnd_stage (rnd idx))
                               (multiplier kw)) None,
             Forward mixed]
          @ figure_calls ''Train_Orig_BatchSample'' 150 1 ep idx
          @ [ZeroGrad, Backward loss, OptimizerStep]
      \<and> loss \<noteq> [] \<and> map (\<lambda>(c, x, y). x) loss = replicate (length loss) mixed
      \<and> grads (model st') = [loss]
      \<and> (opt_state (model st'), params (model st'))
          = opt_update env (opt_state (model st)) (params (model st)) [loss]
      \<and> count_list (drop (length (calls (model st))) (calls (model st'))) OptimizerStep = 1"
    using t rest by blast
qed

lemma ex_hps_batch:
  "\<exists>st'. hps_batch ex_env ex_kwargs 1 ex_draws (init_locals ex_world) (0, ex_batch, ex_labels) = Some st'
     \<and> grads (model st') = [[(4, ex_batch, [1, 0]), (- 3, ex_batch, [0, 1])]]
     \<and> train_loss st' = - 6 \<and> train_n_corrects st' = 2 \<and> train_n_samples st' = 2"
  by (simp add: eval_defs)

lemma ex_hcm_batch:
  "\<exists>st'. hcm_batch ex_env ex_kwargs 1 ex_draws (4, init_locals ex_world) (0, ex_batch, ex_labels)
           = Some (4, st')
     \<and> grads (model st') = [[(1, ex_batch, [1, 0]), (0, ex_batch, [0, 1])]]
     \<and> train_loss st' = 0 \<and> train_n_corrects st' = 2 \<and> train_n_samples st' = 2"
  by (simp add: eval_defs)

lemma ex_cutmix_batch:
  "\<exists>st'. cutmix_batch ex_env ex_kwargs 1 ex_draws (init_locals ex_world) (0, ex_batch, ex_labels)
           = Some st'
     \<and> grads (model st') = [[(0, [[[[4]], [[5]], [[6]]], [[[1]], [[2]], [[3]]]], [1, 0]),
                              (1, [[[[4]], [[5]], [[6]]], [[[1]], [[2]], [[3]]]], [0, 1])]]
     \<and> train_loss st' = 0 \<and> train_n_corrects st' = 0 \<and> train_n_samples st' = 2"
  by (simp add: eval_defs)

lemma ex_draws_augment: "rnd_r (ex_draws i) < cut_prob ex_kwargs"
  by (simp add: ex_draws_def ex_kwargs_def)

theorem attention_path_two_passes_witness:
  "(\<exists>st'. hps_batch ex_env ex_kwargs 1 ex_draws (init_locals ex_world) (0, ex_batch, ex_labels) = Some st'
      \<and> rnd_r (ex_draws 0) < cut_prob ex_kwargs
      \<and> count_list (drop (length (calls (model (init_locals ex_world)))) (calls (model st')))
           OptimizerStep = 1
      \<and> (\<exists>loss. grads (model st') = [loss]))
 \<and> (\<exists>st'. hcm_batch ex_env ex_kwargs 1 ex_draws (4, init_locals ex_world) (0, ex_batch, ex_labels)
           = Some (4, st')
      \<and> count_list (drop (length (calls (model (init_locals ex_world)))) (calls (model st')))
           OptimizerStep = 1
      \<and> (\<exists>loss. grads (model st') = [loss]))"
proof -
  obtain s1 where
    h1: "hps_batch ex_env ex_kwargs 1 ex_draws (init_locals ex_world) (0, ex_batch, ex_labels) = Some s1"
    using ex_hps_batch by blast
  obtain s2 where
    h2: "hcm_batch ex_env ex_kwargs 1 ex_draws (4, init_locals ex_world) (0, ex_batch, ex_labels)
           = Some (4, s2)"
    using ex_hcm_batch by blast
  note a = ex_draws_augment[of 0]
  note t1 = attention_path_two_passes[where env = ex_env and kw = ex_kwargs and ep = 1
      and rnd = ex_draws and st = "init_locals ex_world" and idx = 0 and batch = ex_batch
      and ls = ex_labels and st' = s1, THEN conjunct1, rule_format, OF conjI[OF h1 a]]
  note t2 = attention_path_two_passes[where env = ex_env and kw = ex_kwargs and ep = 1
      and rnd = ex_draws and st = "init_locals ex_world" and idx = 0 and batch = ex_batch
      and ls = ex_labels and st' = s2 and fr = 4 and fr' = 4, THEN conjunct2, rule_format,
      OF conjI[OF h2 a]]
  show ?thesis using h1 h2 a t1 t2 by blast
qed

subsection \<open>\<open>cut_prob = 0\<close> gives the vanilla epoch\<close>

lemma for_each_rel:
  assumes step: "\<And>s1 s2 x. R s1 s2 \<Longrightarrow> rel_option R (f s1 x) (g s2 x)"
  shows "R s1 s2 \<Longrightarrow> rel_option R (for_each f s1 xs) (for_each g s2 xs)"
proof (induction xs arbitrary: s1 s2)
  case Nil
  then show ?case by simp
next
  case (Cons x xs)
  from step[OF Cons.prems, of x] show ?case
  proof (cases rule: option.rel_cases)
    case None
    then show ?thesis by simp
  next
    case (Some a b)
    then show ?thesis using Cons.IH[of a b] by simp
  qed
qed

lemmas outcome_defs = locals_outcome_def observable_def is_bookkeeping_def prim_defs case_prod_beta

lemma hps_batch_refines_train:
  assumes "\<not> rnd_r (rnd (fst x)) < cut_prob kw" and "locals_outcome s1 = locals_outcome s2"
  shows "rel_option (\<lambda>a b. locals_outcome a = locals_outcome b)
           (hps_batch env kw ep rnd s1 x) (train_batch env ep s2 x)"
proof -
  obtain idx batch ls where x: "x = (idx, batch, ls)" by (cases x)
  have r: "\<not> rnd_r (rnd idx) < cut_prob kw" using assms(1) by (simp add: x)
  show ?thesis
    using assms(2) unfolding x
    by (simp add: hps_batch_plain[where rnd=rnd and idx=idx and kw=kw, OF r] train_batch_plain
        outcome_defs split: option.splits)
qed

lemma hcm_batch_refines_train:
  assumes "\<not> rnd_r (rnd (fst x)) < cut_prob kw" and "locals_outcome (snd s1) = locals_outcome s2"
  shows "rel_option (\<lambda>a b. locals_outcome (snd a) = locals_outcome b)
           (hcm_batch env kw ep rnd s1 x) (train_batch env ep s2 x)"
proof -
  obtain idx batch ls where x: "x = (idx, batch, ls)" by (cases x)
  obtain fr st where s1: "s1 = (fr, st)" by (cases s1)
  have r: "\<not> rnd_r (rnd idx) < cut_prob kw" using assms(1) by (simp add: x)
  show ?thesis
    using assms(2) unfolding x s1
    by (simp add: hcm_batch_plain[where rnd=rnd and idx=idx and kw=kw, OF r] train_batch_plain
        outcome_defs split: option.splits)
qed

lemma cutmix_batch_refines_train:
  assumes "\<not> rnd_r (rnd (fst x)) < cut_prob kw" and "locals_outcome s1 = locals_outcome s2"
  shows "rel_option (\<lambda>a b. locals_outcome a = locals_outcome b)
           (cutmix_batch env kw ep rnd s1 x) (train_batch env ep s2 x)"
proof -
  obtain idx batch ls where x: "x = (idx, batch, ls)" by (cases x)
  have r: "\<not> rnd_r (rnd idx) < cut_prob kw" using assms(1) by (simp add: x)
  show ?thesis
    using assms(2) unfolding x
    by (simp add: cutmix_batch_plain[where rnd=rnd and idx=idx and kw=kw, OF r] train_batch_plain
        outcome_defs split: option.splits)
qed

lemma finish_epoch_outcome:
  "locals_outcome s1 = locals_outcome s2 \<Longrightarrow>
     epoch_outcome (finish_epoch env s1 n) = epoch_outcome (finish_epoch env s2 n)"
  by (simp add: epoch_outcome_def finish_epoch_def scheduler_step_def np_true_div_def Let_def
      outcome_defs)


lemma epoch_outcome_bind:
  assumes "rel_option (\<lambda>a b. P a b) m1 m2"
    and "\<And>a b. P a b \<Longrightarrow> epoch_outcome (k1 a) = epoch_outcome (k2 b)"
  shows "epoch_outcome (m1 \<bind> k1) = epoch_outcome (m2 \<bind> k2)"
  using assms(1)
proof (cases rule: option.rel_cases)
  case None
  then show ?thesis by (simp add: epoch_outcome_def)
next
  case (Some a b)
  then show ?thesis using assms(2) by simp
qed

text \<open>
  Claim C3. With \<open>cut_prob = 0.0\<close>, and \<open>np.random.rand\<close> drawing from \<open>[0, 1)\<close>, no
  batch of \<open>train_HybridPartSwapping\<close>, \<open>train_HybridCutMix\<close> or \<open>train_CutMix\<close>
  takes the augmented branch, and the outcome of the epoch is the outcome of \<open>train\<close>
  on the same store, loader, network, criterion, optimizer and scheduler: the same
  parameters, gradient buffers, optimizer and scheduler state, caches and calls other
  than bookkeeping, the same mean loss and accuracy, and an exception in one exactly
  when in the other.
\<close>

theorem cut_prob_zero_is_vanilla:
  assumes "cut_prob kw = 0" and "\<forall>i. 0 \<le> rnd_r (rnd i)"
  shows "epoch_outcome (train_HybridPartSwapping env kw ep rnd w loader)
           = epoch_outcome (train env ep w loader)
       \<and> epoch_outcome (train_HybridCutMix env kw ep rnd w loader)
           = epoch_outcome (train env ep w loader)
       \<and> epoch_outcome (train_CutMix env kw ep rnd w loader)
           = epoch_outcome (train env ep w loader)"
proof -
  have plain: "\<And>x. \<not> rnd_r (rnd (fst x)) < cut_prob kw"
    using assms by (simp add: not_less)
  have hps: "rel_option (\<lambda>a b. locals_outcome a = locals_outcome b)
               (for_each (hps_batch env kw ep rnd) (init_locals (model_train w)) (enumerate 0 loader))
               (for_each (train_batch env ep) (init_locals (model_train w)) (enumerate 0 loader))"
  proof (rule for_each_rel[where R = "\<lambda>a b. locals_outcome a = locals_outcome b"])
    fix s1 s2 :: "('a, 'b, 'c) locals" and x
    assume "locals_outcome s1 = locals_outcome s2"
    then show "rel_option (\<lambda>a b. locals_outcome a = locals_outcome b)
                 (hps_batch env kw ep rnd s1 x) (train_batch env ep s2 x)"
      by (rule hps_batch_refines_train[where rnd=rnd and kw=kw, OF plain])
  next
    show "locals_outcome (init_locals (model_train w)) = locals_outcome (init_locals (model_train w))"
      by (rule refl)
  qed
  have hcm: "rel_option (\<lambda>a b. locals_outcome (snd a) = locals_outcome b)
               (for_each (hcm_batch env kw ep rnd) (radius kw, init_locals (model_train w))
                  (enumerate 0 loader))
               (for_each (train_batch env ep) (init_locals (model_train w)) (enumerate 0 loader))"
  proof (rule for_each_rel[where R = "\<lambda>a b. locals_outcome (snd a) = locals_outcome b"])
    fix s1 :: "int \<times> ('a, 'b, 'c) locals" and s2 :: "('a, 'b, 'c) locals" and x
    assume "locals_outcome (snd s1) = locals_outcome s2"
    then show "rel_option (\<lambda>a b. locals_outcome (snd a) = locals_outcome b)
                 (hcm_batch env kw ep rnd s1 x) (train_batch env ep s2 x)"
      by (rule hcm_batch_refines_train[where rnd=rnd and kw=kw, OF plain])
  next
    show "locals_outcome (snd (radius kw, init_locals (model_train w)))
          = locals_outcome (init_locals (model_train w))"
      by (simp only: snd_conv)
  qed
  have cm: "rel_option (\<lambda>a b. locals_outcome a = locals_outcome b)
               (for_each (cutmix_batch env kw ep rnd) (init_locals (model_train w)) (enumerate 0 loader))
               (for_each (train_batch env ep) (init_locals (model_train w)) (enumerate 0 loader))"
  proof (rule for_each_rel[where R = "\<lambda>a b. locals_outcome a = locals_outcome b"])
    fix s1 s2 :: "('a, 'b, 'c) locals" and x
    assume "locals_outcome s1 = locals_outcome s2"
    then show "rel_option (\<lambda>a b. locals_outcome a = locals_outcome b)
                 (cutmix_batch env kw ep rnd s1 x) (train_batch env ep s2 x)"
      by (rule cutmix_batch_refines_train[where rnd=rnd and kw=kw, OF plain])
  next
    show "locals_outcome (init_locals (model_train w)) = locals_outcome (init_locals (model_train w))"
      by (rule refl)
  qed
  have 1: "epoch_outcome (train_HybridPartSwapping env kw ep rnd w loader)
           = epoch_outcome (train env ep w loader)"
    unfolding train_HybridPartSwapping_def train_def Let_def
    by (rule epoch_outcome_bind[OF hps]) (rule finish_epoch_outcome)
  have 2: "epoch_outcome (train_HybridCutMix env kw ep rnd w loader)
           = epoch_outcome (train env ep w loader)"
    unfolding train_HybridCutMix_def train_def Let_def
  proof (rule epoch_outcome_bind[OF hcm])
    fix a :: "int \<times> ('a, 'b, 'c) locals" and b :: "('a, 'b, 'c) locals"
    assume h: "locals_outcome (snd a) = locals_outcome b"
    show "epoch_outcome (case a of (final_radius, st) \<Rightarrow> finish_epoch env st (length loader))
          = epoch_outcome (finish_epoch env b (length loader))"
      unfolding case_prod_beta by (rule finish_epoch_outcome[OF h])
  qed
  have 3: "epoch_outcome (train_CutMix env kw ep rnd w loader)
           = epoch_outcome (train env ep w loader)"
    unfolding train_CutMix_def train_def Let_def
    by (rule epoch_outcome_bind[OF cm]) (rule finish_epoch_outcome)
  show ?thesis using 1 2 3 by simp
qed

theorem cut_prob_zero_is_vanilla_witness:
  "cut_prob ex_kwargs0 = 0 \<and> (\<forall>i. 0 \<le> rnd_r (ex_draws i))
   \<and> (\<exists>obs. epoch_outcome (train ex_env 1 ex_world ex_loader) = Some (obs, 0, 1)
        \<and> epoch_outcome (train_HybridPartSwapping ex_env ex_kwargs0 1 ex_draws ex_world ex_loader)
            = Some (obs, 0, 1)
        \<and> epoch_outcome (train_HybridCutMix ex_env ex_kwargs0 1 ex_draws ex_world ex_loader)
            = Some (obs, 0, 1)
        \<and> epoch_outcome (train_CutMix ex_env ex_kwargs0 1 ex_draws ex_world ex_loader)
            = Some (obs, 0, 1))"
proof -
  have c: "cut_prob ex_kwargs0 = 0" by (simp add: ex_kwargs0_def)
  have r: "\<forall>i. 0 \<le> rnd_r (ex_draws i)" by (simp add: ex_draws_def)
  obtain w1 where t1: "train ex_env 1 ex_world ex_loader = Some (w1, 0, 1)"
    using ex_train_returns by blast
  have o: "epoch_outcome (train ex_env 1 ex_world ex_loader) = Some (observable w1, 0, 1)"
    using t1 by (simp add: epoch_outcome_def)
  note eq = cut_prob_zero_is_vanilla[OF c r, of ex_env 1 ex_world ex_loader]
  show ?thesis
    using c r o trans[OF eq[THEN conjunct1] o] trans[OF eq[THEN conjunct2, THEN conjunct1] o]
      trans[OF eq[THEN conjunct2, THEN conjunct2] o]
    by blast
qed

subsection \<open>Evaluation is inference only\<close>

lemma test_batch_preserves:
  assumes "test_batch env sp ep st x = Some st'"
  shows "params (model st') = params (model st) \<and> grads (model st') = grads (model st)
       \<and> opt_state (model st') = opt_state (model st) \<and> sched_state (model st') = sched_state (model st)
       \<and> training (model st') = training (model st)
       \<and> (\<exists>new. calls (model st') = calls (model st) @ new \<and> list_all is_inference_call new)"
proof -
  obtain idx batch ls where x: "x = (idx, batch, ls)" by (cases x)
  show ?thesis
    using assms unfolding x
    by (auto simp: test_batch_plain prim_defs case_prod_beta is_inference_call_def
        split: option.splits if_splits)
qed

lemma test_loop_preserves:
  "for_each (test_batch env sp ep) st xs = Some st' \<Longrightarrow>
     params (model st') = params (model st) \<and> grads (model st') = grads (model st)
     \<and> opt_state (model st') = opt_state (model st) \<and> sched_state (model st') = sched_state (model st)
     \<and> training (model st') = training (model st)
     \<and> (\<exists>new. calls (model st') = calls (model st) @ new \<and> list_all is_inference_call new)"
proof (induction xs arbitrary: st)
  case Nil
  then show ?case by simp
next
  case (Cons x xs)
  from Cons.prems obtain s1 where s1: "test_batch env sp ep st x = Some s1"
    and rest: "for_each (test_batch env sp ep) s1 xs = Some st'"
    by (auto simp: bind_eq_Some_conv)
  from test_batch_preserves[OF s1] obtain n1 where
    p1: "params (model s1) = params (model st) \<and> grads (model s1) = grads (model st)
       \<and> opt_state (model s1) = opt_state (model st) \<and> sched_state (model s1) = sched_state (model st)
       \<and> training (model s1) = training (model st)"
    and c1: "calls (model s1) = calls (model st) @ n1" "list_all is_inference_call n1"
    by blast
  from Cons.IH[OF rest] obtain n2 where
    p2: "params (model st') = params (model s1) \<and> grads (model st') = grads (model s1)
       \<and> opt_state (model st') = opt_state (model s1) \<and> sched_state (model st') = sched_state (model s1)
       \<and> training (model st') = training (model s1)"
    and c2: "calls (model st') = calls (model s1) @ n2" "list_all is_inference_call n2"
    by blast
  have "calls (model st') = calls (model st) @ (n1 @ n2) \<and> list_all is_inference_call (n1 @ n2)"
    using c1 c2 by simp
  then show ?case using p1 p2 by metis
qed

lemma test_batch_deterministic:
  assumes "test_inputs s1 = test_inputs s2"
  shows "rel_option (\<lambda>a b. test_inputs a = test_inputs b)
           (test_batch env sp ep s1 x) (test_batch env sp ep s2 x)"
proof -
  obtain idx batch ls where x: "x = (idx, batch, ls)" by (cases x)
  show ?thesis
    using assms unfolding x
    by (simp add: test_batch_plain test_inputs_def prim_defs case_prod_beta split: option.splits)
qed

text \<open>
  Claim C8. A call of \<open>test\<close> that returns leaves the parameters, the gradient
  buffers, the optimizer state and the scheduler state as they were; the only calls it
  makes are \<open>model.eval()\<close>, forward passes and figure writes (no backward pass, no
  \<open>zero_grad\<close>, no optimizer or scheduler step). Called again on the returned model and
  the same loader it returns the same loss and accuracy. The network and the criterion
  are functions of the mode, the parameters and the batch, and floats are reals: the equality
  is that of the computed values.
\<close>

theorem test_has_no_side_effect_on_training_state:
  assumes "test env w loader sp ep = Some (w', l, a)"
  shows "params w' = params w \<and> grads w' = grads w
       \<and> opt_state w' = opt_state w \<and> sched_state w' = sched_state w
       \<and> list_all is_inference_call (drop (length (calls w)) (calls w'))
       \<and> (\<exists>w''. test env w' loader sp ep = Some (w'', l, a) \<and> params w'' = params w)"
proof -
  from assms obtain st where
    run: "for_each (test_batch env sp ep) (init_locals (model_eval w)) (enumerate 0 loader) = Some st"
    and l: "np_true_div (train_loss st) (real (length loader)) = Some l"
    and a: "np_true_div (real (train_n_corrects st)) (real (train_n_samples st)) = Some a"
    and w': "w' = model st"
    by (auto simp: test_def Let_def bind_eq_Some_conv)
  from test_loop_preserves[OF run] obtain new where
    p: "params w' = params w" "grads w' = grads w" "opt_state w' = opt_state w"
       "sched_state w' = sched_state w" "training w' = False"
    and c: "calls w' = calls w @ ModelEval # new" "list_all is_inference_call new"
    by (auto simp: w' init_locals_def model_eval_def)
  have calls_ok: "list_all is_inference_call (drop (length (calls w)) (calls w'))"
    using c by (simp add: is_inference_call_def)
  have start: "test_inputs (init_locals (model_eval w')) = test_inputs (init_locals (model_eval w))"
    using p by (simp add: test_inputs_def init_locals_def model_eval_def)
  have "rel_option (\<lambda>a b. test_inputs a = test_inputs b)
          (for_each (test_batch env sp ep) (init_locals (model_eval w')) (enumerate 0 loader))
          (for_each (test_batch env sp ep) (init_locals (model_eval w)) (enumerate 0 loader))"
  proof (rule for_each_rel[where R = "\<lambda>a b. test_inputs a = test_inputs b"])
    fix s1 s2 :: "('a, 'b, 'c) locals" and x
    assume "test_inputs s1 = test_inputs s2"
    then show "rel_option (\<lambda>a b. test_inputs a = test_inputs b)
                 (test_batch env sp ep s1 x) (test_batch env sp ep s2 x)"
      by (rule test_batch_deterministic)
  next
    show "test_inputs (init_locals (model_eval w')) = test_inputs (init_locals (model_eval w))"
      by (rule start)
  qed
  then obtain st2 where
    run2: "for_each (test_batch env sp ep) (init_locals (model_eval w')) (enumerate 0 loader) = Some st2"
    and same: "test_inputs st2 = test_inputs st"
    unfolding run by (auto simp: option_rel_Some2)
  have again: "test env w' loader sp ep = Some (model st2, l, a)"
    using run2 same l a by (simp add: test_def Let_def test_inputs_def)
  have "params (model st2) = params w"
    using same p by (simp add: test_inputs_def w')
  then show ?thesis using p calls_ok again by blast
qed

lemma ex_test_returns:
  "\<exists>w'. test ex_env ex_world ex_loader None 0 = Some (w', 0, 1)"
  by (simp add: eval_defs)

theorem test_has_no_side_effect_on_training_state_witness:
  "\<exists>w' w''. test ex_env ex_world ex_loader None 0 = Some (w', 0, 1)
     \<and> params w' = params ex_world \<and> grads w' = grads ex_world
     \<and> opt_state w' = opt_state ex_world \<and> sched_state w' = sched_state ex_world
     \<and> test ex_env w' ex_loader None 0 = Some (w'', 0, 1)"
proof -
  obtain w1 where t: "test ex_env ex_world ex_loader None 0 = Some (w1, 0, 1)"
    using ex_test_returns by blast
  show ?thesis
    using t test_has_no_side_effect_on_training_state[OF t] by blast
qed

subsection \<open>The label-mixing coefficient\<close>

lemma mixed_loss_at_coefficient_one:
  "lval (ladd (lmul (crit env p la) 1) (lmul (crit env p lb) (1 - 1))) = criterion env (logits p) la"
  by (simp add: ladd_def lmul_def crit_def)

lemma hps_mix_ratio_unit_interval:
  assumes "hps_mix_ratio r W_f H_f = Some q"
  shows "(0 \<le> q \<and> q \<le> 1) \<longleftrightarrow> (r + 1) ^ 2 \<le> int (W_f * H_f)"
proof -
  have nz: "W_f * H_f \<noteq> 0" and q: "q = real_of_int ((r + 1) ^ 2) / real (W_f * H_f)"
    using assms by (auto simp: hps_mix_ratio_def py_true_div_def Let_def split: if_splits)
  have pos: "0 < real (W_f * H_f)" using nz by simp
  have "0 \<le> q" unfolding q using pos by simp
  moreover have "q \<le> 1 \<longleftrightarrow> real_of_int ((r + 1) ^ 2) \<le> real (W_f * H_f)"
    unfolding q using pos by (simp add: divide_le_eq)
  moreover have "real_of_int ((r + 1) ^ 2) \<le> real (W_f * H_f) \<longleftrightarrow> (r + 1) ^ 2 \<le> int (W_f * H_f)"
    by (metis of_int_le_iff of_int_of_nat_eq)
  ultimately show ?thesis by simp
qed

lemma sum_list_unit_interval:
  "list_all (\<lambda>x. 0 \<le> x \<and> x \<le> (1::real)) xs \<Longrightarrow> 0 \<le> sum_list xs \<and> sum_list xs \<le> real (length xs)"
  by (induction xs) auto

lemma hcm_occlusion_ratio_unit_interval:
  assumes q: "hcm_occlusion_ratio masks n = Some q"
    and binary: "list_all (\<lambda>m. length (concat m) = n
                    \<and> list_all (\<lambda>x. 0 \<le> x \<and> x \<le> 1) (concat m)) masks"
  shows "0 \<le> q \<and> q \<le> 1"
proof -
  have n: "0 < n" and ne: "masks \<noteq> []"
    and qdef: "q = sum_list (map (\<lambda>m. 1 - sum_list (concat m) / real n) masks) / real (length masks)"
    using q by (auto simp: hcm_occlusion_ratio_def split: if_splits)
  have each: "list_all (\<lambda>x. 0 \<le> x \<and> x \<le> (1::real))
                (map (\<lambda>m. 1 - sum_list (concat m) / real n) masks)"
  proof -
    have "\<And>m. m \<in> set masks \<Longrightarrow>
            0 \<le> 1 - sum_list (concat m) / real n \<and> 1 - sum_list (concat m) / real n \<le> 1"
    proof -
      fix m assume "m \<in> set masks"
      then have l: "length (concat m) = n" and u: "list_all (\<lambda>x. 0 \<le> x \<and> x \<le> 1) (concat m)"
        using binary by (auto simp: list_all_iff)
      from sum_list_unit_interval[OF u] l have "0 \<le> sum_list (concat m)"
        and "sum_list (concat m) \<le> real n" by simp_all
      then show "0 \<le> 1 - sum_list (concat m) / real n \<and> 1 - sum_list (concat m) / real n \<le> 1"
        using n by (simp add: divide_le_eq)
    qed
    then show ?thesis by (simp add: list_all_iff)
  qed
  from sum_list_unit_interval[OF each]
  have "0 \<le> sum_list (map (\<lambda>m. 1 - sum_list (concat m) / real n) masks)"
    and "sum_list (map (\<lambda>m. 1 - sum_list (concat m) / real n) masks) \<le> real (length masks)"
    by simp_all
  then show ?thesis unfolding qdef using ne by (simp add: divide_le_eq)
qed

text \<open>
  Claim C1, evaluated on the code. The claim asks for a label-mixing coefficient in
  \<open>[0, 1]\<close> for every radius and every stage size. \<open>train_HybridPartSwapping\<close> computes
  \<open>mix_ratio = (radius + 1) ** 2 / (W_f * H_f)\<close> with no bound: with \<open>radius = 7\<close> on a
  7 x 7 stage it is \<open>64/49 > 1\<close>, and the weight \<open>1 - mix_ratio\<close> of the second label
  is negative. On the concrete instance (radius 1, a 1 x 1 stage) the loss that is
  backpropagated has the coefficients 4 and -3 and the accumulated loss is negative.
  The lemmas before the theorem state what does hold: the loss at coefficient 1, the
  exact range condition of \<open>mix_ratio\<close>, and the range of \<open>occlusion_ratio\<close> on masks
  with entries in \<open>[0, 1]\<close>.
\<close>

theorem hps_mix_ratio_exceeds_one:
  "hps_mix_ratio 7 7 7 = Some (64 / 49) \<and> (1::real) < 64 / 49 \<and> 1 - 64 / 49 < (0::real)
   \<and> radius ex_kwargs = 1
   \<and> (\<exists>st'. hps_batch ex_env ex_kwargs 1 ex_draws (init_locals ex_world) (0, ex_batch, ex_labels)
               = Some st'
         \<and> grads (model st') = [[(4, ex_batch, [1, 0]), (- 3, ex_batch, [0, 1])]]
         \<and> train_loss st' = - 6)"
proof -
  have a: "hps_mix_ratio 7 7 7 = Some (64 / 49)"
    by (simp add: hps_mix_ratio_def py_true_div_def Let_def)
  have b: "radius ex_kwargs = 1" by (simp add: ex_kwargs_def)
  show ?thesis using a b ex_hps_batch by auto
qed

subsection \<open>The guards of the driver\<close>

lemma head_of_epochs: "0 < n \<Longrightarrow> [0..<n] = 0 # [Suc 0..<n]"
  by (simp add: upt_conv_Cons)

text \<open>
  Claim C4, evaluated on the code. The claim asks that an unknown strategy name or
  network type fails before any epoch starts. The guards of the driver are
  \<open>assert\<close> statements on non-empty string literals, which never raise. With
  \<open>--train_mode mixup\<close> the run enters the first epoch, prints its header, passes the
  \<open>assert\<close>, and ends with a NameError when \<open>epoch_train_loss\<close> is read; with
  \<open>--num_epochs 0\<close> in addition it ends normally. With \<open>--net_type alexnet\<close> the run
  ends before the first epoch, with a NameError on \<open>model\<close> and not by the guard.
\<close>

theorem unknown_train_mode_passes_the_assert:
  "py_assert_str ''Invalid training mode !'' = None
   \<and> main x ex_args_mixup = ([CurrentEpoch 1, TrainValPhase], Some (NameError ''epoch_train_loss''))
   \<and> main x (ex_args_mixup\<lparr>num_epochs := 0\<rparr>) = ([Finished 0], None)
   \<and> py_assert_str ''Unsupported network type !'' = None
   \<and> main x ex_args_alexnet = ([], Some (NameError ''model''))"
proof -
  have e: "[0..<(100::nat)] = 0 # [Suc 0..<100]"
    using head_of_epochs[of 100] by simp
  have 1: "py_assert_str ''Invalid training mode !'' = None"
    and 4: "py_assert_str ''Unsupported network type !'' = None"
    by (simp_all add: py_assert_str_def)
  have 2: "main x ex_args_mixup
           = ([CurrentEpoch 1, TrainValPhase], Some (NameError ''epoch_train_loss''))"
    unfolding main_def ex_args_mixup_def
    by (simp add: e select_dataset_def select_network_def select_stage_names_def epoch_body_def
        dispatch_train_def emit_def py_assert_str_def Let_def del: upt_Suc)
  have 3: "main x (ex_args_mixup\<lparr>num_epochs := 0\<rparr>) = ([Finished 0], None)"
    unfolding main_def ex_args_mixup_def
    by (simp add: select_dataset_def select_network_def select_stage_names_def emit_def
        py_assert_str_def Let_def)
  have 5: "main x ex_args_alexnet = ([], Some (NameError ''model''))"
    unfolding main_def ex_args_alexnet_def
    by (simp add: select_dataset_def select_network_def select_stage_names_def py_assert_str_def)
  show ?thesis using 1 2 3 4 5 by simp
qed

subsection \<open>The blended batch, pixel by pixel\<close>

lemmas shape_index = same_shape4_def same_shape3_def same_shape2_def list_all2_conv_all_nth

lemma ewise4_shape: "same_shape4 a b \<Longrightarrow> same_shape4 (ewise4 f a b) a"
  by (simp add: shape_index ewise4_def ewise3_def ewise2_def)

lemma ewise4_nth:
  assumes "same_shape4 a b" "n < length a" "c < length (a ! n)" "i < length (a ! n ! c)"
    "j < length (a ! n ! c ! i)"
  shows "ewise4 f a b ! n ! c ! i ! j = f (a ! n ! c ! i ! j) (b ! n ! c ! i ! j)"
  using assms by (simp add: shape_index ewise4_def ewise3_def ewise2_def)

lemma rsub1_shape: "same_shape4 (rsub1 m) b = same_shape4 m b"
  by (simp add: shape_index rsub1_def)

lemma rsub1_nth:
  assumes "n < length m" "c < length (m ! n)" "i < length (m ! n ! c)" "j < length (m ! n ! c ! i)"
  shows "rsub1 m ! n ! c ! i ! j = 1 - m ! n ! c ! i ! j"
  using assms by (simp add: rsub1_def)

lemma same_shape4_trans: "same_shape4 a b \<Longrightarrow> same_shape4 b c \<Longrightarrow> same_shape4 a c"
  by (simp add: shape_index)

lemma blend_mixes_pixelwise:
  assumes "blend msk batch perm = Some mixed"
  shows "mixes_pixelwise msk batch perm mixed"
proof -
  from assms obtain p where
    s1: "same_shape4 msk batch"
    and sel: "index_select batch perm = Some p"
    and s2: "same_shape4 (rsub1 msk) p"
    and s3: "same_shape4 (ewise4 (\<lambda>x y. x * y) msk batch) (ewise4 (\<lambda>x y. x * y) (rsub1 msk) p)"
    and mixed: "mixed = ewise4 (\<lambda>x y. x + y) (ewise4 (\<lambda>x y. x * y) msk batch)
                          (ewise4 (\<lambda>x y. x * y) (rsub1 msk) p)"
    by (auto simp: blend_def tmul_def tadd_def bind_eq_Some_conv split: if_splits)
  have p: "p = map (\<lambda>i. batch ! i) perm" and inr: "\<forall>i\<in>set perm. i < length batch"
    using sel by (auto simp: index_select_def list_all_iff split: if_splits)
  have mp: "same_shape4 msk p" using s2 by (simp add: rsub1_shape)
  have lp: "length perm = length batch"
    using s1 mp by (simp add: shape_index p)
  have sa: "same_shape4 (ewise4 (\<lambda>x y. x * y) msk batch) msk" by (rule ewise4_shape[OF s1])
  have sm: "same_shape4 mixed msk"
    unfolding mixed by (rule same_shape4_trans[OF ewise4_shape[OF s3] sa])
  have smb: "same_shape4 mixed batch" by (rule same_shape4_trans[OF sm s1])
  show ?thesis
    unfolding mixes_pixelwise_def
  proof (intro conjI allI impI)
    show "length mixed = length batch" using smb by (simp add: shape_index)
    show "length perm = length batch" by (rule lp)
  next
    fix n assume n: "n < length batch"
    then show "perm ! n < length batch" using inr lp by simp
    show "length (mixed ! n) = length (batch ! n)" using smb n by (simp add: shape_index)
  next
    fix n c assume n: "n < length batch" and c: "c < length (batch ! n)"
    show "length (mixed ! n ! c) = length (batch ! n ! c)" using smb n c by (simp add: shape_index)
  next
    fix n c i assume n: "n < length batch" and c: "c < length (batch ! n)"
      and i: "i < length (batch ! n ! c)"
    show "length (mixed ! n ! c ! i) = length (batch ! n ! c ! i)"
      using smb n c i by (simp add: shape_index)
  next
    fix n c i j assume n: "n < length batch" and c: "c < length (batch ! n)"
      and i: "i < length (batch ! n ! c)" and j: "j < length (batch ! n ! c ! i)"
    have bm: "n < length msk" "c < length (msk ! n)" "i < length (msk ! n ! c)"
      "j < length (msk ! n ! c ! i)"
      using s1 n c i j by (simp_all add: shape_index)
    let ?a = "ewise4 (\<lambda>x y. x * y) msk batch"
    have ba: "n < length ?a" "c < length (?a ! n)" "i < length (?a ! n ! c)"
      "j < length (?a ! n ! c ! i)"
      using sa bm by (simp_all add: shape_index)
    have pn: "p ! n = batch ! (perm ! n)" using n lp by (simp add: p)
    have "mixed ! n ! c ! i ! j
          = ?a ! n ! c ! i ! j + ewise4 (\<lambda>x y. x * y) (rsub1 msk) p ! n ! c ! i ! j"
      unfolding mixed by (rule ewise4_nth[OF s3 ba])
    also have "?a ! n ! c ! i ! j = msk ! n ! c ! i ! j * batch ! n ! c ! i ! j"
      by (rule ewise4_nth[OF s1 bm])
    also have "ewise4 (\<lambda>x y. x * y) (rsub1 msk) p ! n ! c ! i ! j
               = rsub1 msk ! n ! c ! i ! j * p ! n ! c ! i ! j"
      using s2 bm by (intro ewise4_nth) (simp_all add: rsub1_def)
    also have "rsub1 msk ! n ! c ! i ! j = 1 - msk ! n ! c ! i ! j" by (rule rsub1_nth[OF bm])
    finally show "mixed ! n ! c ! i ! j
                = msk ! n ! c ! i ! j * batch ! n ! c ! i ! j
                  + (1 - msk ! n ! c ! i ! j) * batch ! (perm ! n) ! c ! i ! j"
      by (simp add: pn)
  qed
qed

lemma count_correct_positions:
  assumes "count_correct ps ls = Some n"
  shows "length ps = length ls \<and> n = length (filter (\<lambda>i. ps ! i = ls ! i) [0..<length ls])"
proof -
  have l: "length ps = length ls"
    and n: "n = length (filter (\<lambda>(p, l). p = l) (zip ps ls))"
    using assms by (auto simp: count_correct_def split: if_splits)
  have "zip ps ls = map (\<lambda>i. (ps ! i, ls ! i)) [0..<length ls]"
    using l by (intro nth_equalityI) simp_all
  then have "filter (\<lambda>(p, l). p = l) (zip ps ls)
             = map (\<lambda>i. (ps ! i, ls ! i)) (filter (\<lambda>i. ps ! i = ls ! i) [0..<length ls])"
    by (simp add: filter_map comp_def)
  then show ?thesis using l n by simp
qed

lemma getitem_of_hooks:
  "py_getitem (map (\<lambda>s. (s, f s)) names) k = Some v \<Longrightarrow> v = f k"
  by (induction names) (auto simp: py_getitem_def split: if_splits)

lemma index_select_Some: "index_select xs idx = Some ys \<Longrightarrow> ys = map (\<lambda>i. xs ! i) idx"
  by (auto simp: index_select_def split: if_splits)

lemma mixes_pixelwise_unique:
  assumes "mixes_pixelwise msk batch perm x" and "mixes_pixelwise msk batch perm y"
  shows "x = y"
proof (rule nth_equalityI)
  show "length x = length y" using assms by (simp add: mixes_pixelwise_def)
next
  fix n assume "n < length x"
  then have n: "n < length batch" using assms by (simp add: mixes_pixelwise_def)
  show "x ! n = y ! n"
  proof (rule nth_equalityI)
    show "length (x ! n) = length (y ! n)" using assms n by (simp add: mixes_pixelwise_def)
  next
    fix c assume "c < length (x ! n)"
    then have c: "c < length (batch ! n)" using assms n by (simp add: mixes_pixelwise_def)
    show "x ! n ! c = y ! n ! c"
    proof (rule nth_equalityI)
      show "length (x ! n ! c) = length (y ! n ! c)"
        using assms n c by (simp add: mixes_pixelwise_def)
    next
      fix i assume "i < length (x ! n ! c)"
      then have i: "i < length (batch ! n ! c)" using assms n c by (simp add: mixes_pixelwise_def)
      show "x ! n ! c ! i = y ! n ! c ! i"
      proof (rule nth_equalityI)
        show "length (x ! n ! c ! i) = length (y ! n ! c ! i)"
          using assms n c i by (simp add: mixes_pixelwise_def)
      next
        fix j assume "j < length (x ! n ! c ! i)"
        then have j: "j < length (batch ! n ! c ! i)"
          using assms n c i by (simp add: mixes_pixelwise_def)
        show "x ! n ! c ! i ! j = y ! n ! c ! i ! j"
          using assms n c i j by (simp add: mixes_pixelwise_def)
      qed
    qed
  qed
qed

lemma hps_mix_ratio_value:
  "hps_mix_ratio r W_f H_f = Some q \<Longrightarrow>
     W_f * H_f \<noteq> 0 \<and> q = real_of_int ((r + 1) ^ 2) / real (W_f * H_f)"
  by (auto simp: hps_mix_ratio_def py_true_div_def Let_def split: if_splits)

lemma hcm_occlusion_ratio_value:
  "hcm_occlusion_ratio masks n = Some q \<Longrightarrow>
     n \<noteq> 0 \<and> masks \<noteq> [] \<and>
     q = sum_list (map (\<lambda>m. 1 - sum_list (concat m) / real n) masks) / real (length masks)"
  by (auto simp: hcm_occlusion_ratio_def split: if_splits)

lemma hps_augment_provenance:
  assumes "hps_augment env kw w batch ls pred d = Some (mixed, pm, loss, w')"
  shows "\<exists>name fmap gs grad cam up q.
       py_index (stage_names w) (num_stages w - 1) = Some name
     \<and> py_getitem (dict_activation w) name = Some fmap
     \<and> py_getitem (map (\<lambda>s. (s, hook_gradient env (training w) (params w)
                                    [(1, pred_input pred, ls)] s)) (stage_names w)) name = Some gs
     \<and> py_index gs 0 = Some grad
     \<and> class_activation_map fmap grad = Some cam
     \<and> upsample_masks (generate_attentive_mask env cam (radius kw) (num_proposals kw) (Some False))
           (spatial_size batch) = Some up
     \<and> hps_mix_ratio (radius kw) (fst (snd (snd (shape4 fmap)))) (snd (snd (snd (shape4 fmap))))
          = Some q
     \<and> blend up batch (rnd_perm d) = Some mixed
     \<and> loss = (if num_stages w - 1 < 3
               then \<lparr>lval = criterion env (net_forward env (training w) (params w) mixed) ls,
                     lgraph = [(1, mixed, ls)]\<rparr>
               else \<lparr>lval = criterion env (net_forward env (training w) (params w) mixed) ls * q
                            + criterion env (net_forward env (training w) (params w) mixed)
                                (map (\<lambda>i. ls ! i) (rnd_perm d)) * (1 - q),
                     lgraph = [(q, mixed, ls), (1 - q, mixed, map (\<lambda>i. ls ! i) (rnd_perm d))]\<rparr>)"
  using assms
  by (auto simp: hps_augment_def prim_defs Let_def case_prod_beta bind_eq_Some_conv ladd_def lmul_def
      dest!: index_select_Some split: if_splits)

lemma hcm_augment_provenance:
  assumes "hcm_augment env kw fr w batch ls pred d = Some (fr', mixed, pm, loss, w')"
  shows "\<exists>name fmap gs grad cam up q.
       py_index (stage_names w) (rnd_stage d) = Some name
     \<and> py_getitem (dict_activation w) name = Some fmap
     \<and> py_getitem (map (\<lambda>s. (s, hook_gradient env (training w) (params w)
                                    [(1, pred_input pred, ls)] s)) (stage_names w)) name = Some gs
     \<and> py_index gs 0 = Some grad
     \<and> class_activation_map fmap grad = Some cam
     \<and> upsample_masks (generate_attentive_mask env cam fr'
            (hcm_num_proposals (num_stages w) (rnd_stage d) (multiplier kw)) None)
           (spatial_size batch) = Some up
     \<and> hcm_occlusion_ratio (generate_attentive_mask env cam fr'
            (hcm_num_proposals (num_stages w) (rnd_stage d) (multiplier kw)) None)
          (fst (snd (snd (shape4 fmap))) * snd (snd (snd (shape4 fmap)))) = Some q
     \<and> blend up batch (rnd_perm d) = Some mixed
     \<and> loss = (if rnd_stage d < 3
               then \<lparr>lval = criterion env (net_forward env (training w) (params w) mixed) ls,
                     lgraph = [(1, mixed, ls)]\<rparr>
               else \<lparr>lval = criterion env (net_forward env (training w) (params w) mixed) ls * (1 - q)
                            + criterion env (net_forward env (training w) (params w) mixed)
                                (map (\<lambda>i. ls ! i) (rnd_perm d)) * q,
                     lgraph = [(1 - q, mixed, ls), (q, mixed, map (\<lambda>i. ls ! i) (rnd_perm d))]\<rparr>)"
  using assms
  by (auto simp: hcm_augment_def prim_defs Let_def case_prod_beta bind_eq_Some_conv ladd_def lmul_def
      dest!: index_select_Some split: if_splits)

subsection \<open>An augmented batch, from the hooks to the accumulators\<close>

lemma hps_batch_mixed:
  assumes "hps_batch env kw ep rnd st (idx, batch, ls) = Some st'"
    and "rnd_r (rnd idx) < cut_prob kw"
  shows "\<exists>name grad cam up mixed N C W_f H_f.
       py_index (stage_names (model st)) (num_stages (model st) - 1) = Some name
     \<and> py_index (hook_gradient env (training (model st)) (params (model st))
                   [(1, batch, ls)] name) 0 = Some grad
     \<and> shape4 (hook_activation env (training (model st)) (params (model st)) batch name)
          = (N, C, W_f, H_f)
     \<and> W_f * H_f \<noteq> 0
     \<and> class_activation_map
          (hook_activation env (training (model st)) (params (model st)) batch name) grad = Some cam
     \<and> upsample_masks (generate_attentive_mask env cam (radius kw) (num_proposals kw) (Some False))
           (spatial_size batch) = Some up
     \<and> blend up batch (rnd_perm (rnd idx)) = Some mixed
     \<and> length (argmax1 (net_forward env (training (model st)) (params (model st)) mixed)) = length ls
     \<and> grads (model st') =
         [if num_stages (model st) - 1 < 3 then [(1, mixed, ls)]
          else [(real_of_int ((radius kw + 1) ^ 2) / real (W_f * H_f), mixed, ls),
                (1 - real_of_int ((radius kw + 1) ^ 2) / real (W_f * H_f), mixed,
                 map (\<lambda>i. ls ! i) (rnd_perm (rnd idx)))]]
     \<and> train_loss st' = train_loss st +
         (if num_stages (model st) - 1 < 3
          then criterion env (net_forward env (training (model st)) (params (model st)) mixed) ls
          else criterion env (net_forward env (training (model st)) (params (model st)) mixed) ls
                 * (real_of_int ((radius kw + 1) ^ 2) / real (W_f * H_f))
             + criterion env (net_forward env (training (model st)) (params (model st)) mixed)
                 (map (\<lambda>i. ls ! i) (rnd_perm (rnd idx)))
                 * (1 - real_of_int ((radius kw + 1) ^ 2) / real (W_f * H_f)))
     \<and> train_n_corrects st' = train_n_corrects st +
         length (filter (\<lambda>i. argmax1 (net_forward env (training (model st)) (params (model st))
                                        mixed) ! i = ls ! i) [0..<length ls])"
proof -
  let ?w = "snd (forward env (zero_grad (model st)) batch)"
  let ?p = "fst (forward env (zero_grad (model st)) batch)"
  from hps_batch_augmented[OF assms] obtain mixed pm loss w1 n where
    a: "hps_augment env kw ?w batch ls ?p (rnd idx) = Some (mixed, pm, loss, w1)"
    and n: "count_correct pm ls = Some n"
    and st': "st' = \<lparr>model = optimizer_step env (backward env (zero_grad
                      (if idx mod 150 = 0 \<and> ep mod 10 = 0
                       then savefig w1 ''Train_Orig_BatchSample'' ep idx else w1)) loss),
                   train_loss = train_loss st + lval loss,
                   train_n_corrects = train_n_corrects st + n,
                   train_n_samples = train_n_samples st + length ls\<rparr>"
    by blast
  have w: "training ?w = training (model st)" "params ?w = params (model st)"
    "num_stages ?w = num_stages (model st)" "stage_names ?w = stage_names (model st)"
    "pred_input ?p = batch"
    "dict_activation ?w = map (\<lambda>s. (s, hook_activation env (training (model st))
        (params (model st)) batch s)) (stage_names (model st))"
    by (simp_all add: prim_defs)
  have pm: "pm = argmax1 (net_forward env (training (model st)) (params (model st)) mixed)"
    using hps_augment_result[OF a] by (simp add: w)
  from hps_augment_provenance[OF a] obtain name fmap gs grad cam up q where
    1: "py_index (stage_names (model st)) (num_stages (model st) - 1) = Some name"
    and 2: "py_getitem (map (\<lambda>s. (s, hook_activation env (training (model st))
        (params (model st)) batch s)) (stage_names (model st))) name = Some fmap"
    and 3: "py_getitem (map (\<lambda>s. (s, hook_gradient env (training (model st)) (params (model st))
                                    [(1, batch, ls)] s)) (stage_names (model st))) name = Some gs"
    and 4: "py_index gs 0 = Some grad"
    and 5: "class_activation_map fmap grad = Some cam"
    and 6: "upsample_masks (generate_attentive_mask env cam (radius kw) (num_proposals kw) (Some False))
           (spatial_size batch) = Some up"
    and 7: "hps_mix_ratio (radius kw) (fst (snd (snd (shape4 fmap)))) (snd (snd (snd (shape4 fmap))))
          = Some q"
    and 8: "blend up batch (rnd_perm (rnd idx)) = Some mixed"
    and 9: "loss = (if num_stages (model st) - 1 < 3
               then \<lparr>lval = criterion env (net_forward env (training (model st)) (params (model st)) mixed) ls,
                     lgraph = [(1, mixed, ls)]\<rparr>
               else \<lparr>lval = criterion env (net_forward env (training (model st)) (params (model st)) mixed) ls * q
                            + criterion env (net_forward env (training (model st)) (params (model st)) mixed)
                                (map (\<lambda>i. ls ! i) (rnd_perm (rnd idx))) * (1 - q),
                     lgraph = [(q, mixed, ls), (1 - q, mixed, map (\<lambda>i. ls ! i) (rnd_perm (rnd idx)))]\<rparr>)"
    unfolding w by blast
  have fmap: "fmap = hook_activation env (training (model st)) (params (model st)) batch name"
    by (rule getitem_of_hooks[OF 2])
  have gs: "gs = hook_gradient env (training (model st)) (params (model st)) [(1, batch, ls)] name"
    by (rule getitem_of_hooks[OF 3])
  obtain N C W_f H_f where sh: "shape4 fmap = (N, C, W_f, H_f)"
    by (cases "shape4 fmap") auto
  have q: "W_f * H_f \<noteq> 0" "q = real_of_int ((radius kw + 1) ^ 2) / real (W_f * H_f)"
    using hps_mix_ratio_value[OF 7] by (simp_all add: sh)
  have g: "grads (model st') = [lgraph loss]" and tl: "train_loss st' = train_loss st + lval loss"
    and nc: "train_n_corrects st' = train_n_corrects st + n"
    by (simp_all add: st' prim_defs case_prod_beta)
  note cnt = count_correct_positions[OF n, unfolded pm]
  show ?thesis
    apply (rule exI[of _ name], rule exI[of _ grad], rule exI[of _ cam], rule exI[of _ up],
        rule exI[of _ mixed], rule exI[of _ N], rule exI[of _ C], rule exI[of _ W_f],
        rule exI[of _ H_f])
    using 1 4[unfolded gs] sh[unfolded fmap] q(1) 5[unfolded fmap] 6 8 cnt
    by (simp add: g tl nc 9 q(2))
qed

lemma hcm_batch_mixed:
  assumes "hcm_batch env kw ep rnd (fr, st) (idx, batch, ls) = Some (fr', st')"
    and "rnd_r (rnd idx) < cut_prob kw"
  shows "\<exists>name grad cam masks up mixed N C W_f H_f.
       fr' = update_radius (floordiv_rounds_down env) (num_stages (model st))
               (rnd_stage (rnd idx)) fr
     \<and> py_index (stage_names (model st)) (rnd_stage (rnd idx)) = Some name
     \<and> py_index (hook_gradient env (training (model st)) (params (model st))
                   [(1, batch, ls)] name) 0 = Some grad
     \<and> shape4 (hook_activation env (training (model st)) (params (model st)) batch name)
          = (N, C, W_f, H_f)
     \<and> W_f * H_f \<noteq> 0
     \<and> class_activation_map
          (hook_activation env (training (model st)) (params (model st)) batch name) grad = Some cam
     \<and> masks = generate_attentive_mask env cam fr'
                 (hcm_num_proposals (num_stages (model st)) (rnd_stage (rnd idx)) (multiplier kw))
                 None
     \<and> masks \<noteq> []
     \<and> upsample_masks masks (spatial_size batch) = Some up
     \<and> blend up batch (rnd_perm (rnd idx)) = Some mixed
     \<and> length (argmax1 (net_forward env (training (model st)) (params (model st)) mixed)) = length ls
     \<and> grads (model st') =
         [if rnd_stage (rnd idx) < 3 then [(1, mixed, ls)]
          else [(1 - sum_list (map (\<lambda>m. 1 - sum_list (concat m) / real (W_f * H_f)) masks)
                      / real (length masks), mixed, ls),
                (sum_list (map (\<lambda>m. 1 - sum_list (concat m) / real (W_f * H_f)) masks)
                      / real (length masks), mixed,
                 map (\<lambda>i. ls ! i) (rnd_perm (rnd idx)))]]
     \<and> train_loss st' = train_loss st +
         (if rnd_stage (rnd idx) < 3
          then criterion env (net_forward env (training (model st)) (params (model st)) mixed) ls
          else criterion env (net_forward env (training (model st)) (params (model st)) mixed) ls
                 * (1 - sum_list (map (\<lambda>m. 1 - sum_list (concat m) / real (W_f * H_f)) masks)
                          / real (length masks))
             + criterion env (net_forward env (training (model st)) (params (model st)) mixed)
                 (map (\<lambda>i. ls ! i) (rnd_perm (rnd idx)))
                 * (sum_list (map (\<lambda>m. 1 - sum_list (concat m) / real (W_f * H_f)) masks)
                      / real (length masks)))
     \<and> train_n_corrects st' = train_n_corrects st +
         length (filter (\<lambda>i. argmax1 (net_forward env (training (model st)) (params (model st))
                                        mixed) ! i = ls ! i) [0..<length ls])"
proof -
  let ?w = "snd (forward env (zero_grad (model st)) batch)"
  let ?p = "fst (forward env (zero_grad (model st)) batch)"
  let ?np = "hcm_num_proposals (num_stages (model st)) (rnd_stage (rnd idx)) (multiplier kw)"
  from hcm_batch_augmented[OF assms] obtain mixed pm loss w1 n where
    a: "hcm_augment env kw fr ?w batch ls ?p (rnd idx) = Some (fr', mixed, pm, loss, w1)"
    and n: "count_correct pm ls = Some n"
    and st': "st' = \<lparr>model = optimizer_step env (backward env (zero_grad
                      (if idx mod 150 = 0 \<and> ep mod 1 = 0
                       then savefig w1 ''Train_Orig_BatchSample'' ep idx else w1)) loss),
                   train_loss = train_loss st + lval loss,
                   train_n_corrects = train_n_corrects st + n,
                   train_n_samples = train_n_samples st + length ls\<rparr>"
    by blast
  have w: "training ?w = training (model st)" "params ?w = params (model st)"
    "num_stages ?w = num_stages (model st)" "stage_names ?w = stage_names (model st)"
    "pred_input ?p = batch"
    "dict_activation ?w = map (\<lambda>s. (s, hook_activation env (training (model st))
        (params (model st)) batch s)) (stage_names (model st))"
    by (simp_all add: prim_defs)
  have pm: "pm = argmax1 (net_forward env (training (model st)) (params (model st)) mixed)"
    and fr': "fr' = update_radius (floordiv_rounds_down env) (num_stages (model st))
               (rnd_stage (rnd idx)) fr"
    using hcm_augment_result[OF a] by (simp_all add: w)
  from hcm_augment_provenance[OF a] obtain name fmap gs grad cam up q where
    1: "py_index (stage_names (model st)) (rnd_stage (rnd idx)) = Some name"
    and 2: "py_getitem (map (\<lambda>s. (s, hook_activation env (training (model st))
        (params (model st)) batch s)) (stage_names (model st))) name = Some fmap"
    and 3: "py_getitem (map (\<lambda>s. (s, hook_gradient env (training (model st)) (params (model st))
                                    [(1, batch, ls)] s)) (stage_names (model st))) name = Some gs"
    and 4: "py_index gs 0 = Some grad"
    and 5: "class_activation_map fmap grad = Some cam"
    and 6: "upsample_masks (generate_attentive_mask env cam fr' ?np None)
           (spatial_size batch) = Some up"
    and 7: "hcm_occlusion_ratio (generate_attentive_mask env cam fr' ?np None)
          (fst (snd (snd (shape4 fmap))) * snd (snd (snd (shape4 fmap)))) = Some q"
    and 8: "blend up batch (rnd_perm (rnd idx)) = Some mixed"
    and 9: "loss = (if rnd_stage (rnd idx) < 3
               then \<lparr>lval = criterion env (net_forward env (training (model st)) (params (model st)) mixed) ls,
                     lgraph = [(1, mixed, ls)]\<rparr>
               else \<lparr>lval = criterion env (net_forward env (training (model st)) (params (model st)) mixed) ls * (1 - q)
                            + criterion env (net_forward env (training (model st)) (params (model st)) mixed)
                                (map (\<lambda>i. ls ! i) (rnd_perm (rnd idx))) * q,
                     lgraph = [(1 - q, mixed, ls), (q, mixed, map (\<lambda>i. ls ! i) (rnd_perm (rnd idx)))]\<rparr>)"
    unfolding w by blast
  have fmap: "fmap = hook_activation env (training (model st)) (params (model st)) batch name"
    by (rule getitem_of_hooks[OF 2])
  have gs: "gs = hook_gradient env (training (model st)) (params (model st)) [(1, batch, ls)] name"
    by (rule getitem_of_hooks[OF 3])
  obtain N C W_f H_f where sh: "shape4 fmap = (N, C, W_f, H_f)"
    by (cases "shape4 fmap") auto
  define masks where "masks = generate_attentive_mask env cam fr' ?np None"
  have q: "W_f * H_f \<noteq> 0" "masks \<noteq> []"
    "q = sum_list (map (\<lambda>m. 1 - sum_list (concat m) / real (W_f * H_f)) masks) / real (length masks)"
    using hcm_occlusion_ratio_value[OF 7] by (simp_all add: sh masks_def)
  have g: "grads (model st') = [lgraph loss]" and tl: "train_loss st' = train_loss st + lval loss"
    and nc: "train_n_corrects st' = train_n_corrects st + n"
    by (simp_all add: st' prim_defs case_prod_beta)
  note cnt = count_correct_positions[OF n, unfolded pm]
  show ?thesis
    apply (rule exI[of _ name], rule exI[of _ grad], rule exI[of _ cam], rule exI[of _ masks],
        rule exI[of _ up], rule exI[of _ mixed], rule exI[of _ N], rule exI[of _ C],
        rule exI[of _ W_f], rule exI[of _ H_f])
    using fr' 1 4[unfolded gs] sh[unfolded fmap] q(1,2) 5[unfolded fmap] 6[folded masks_def] 8 cnt
      masks_def
    by (simp add: g tl nc 9 q(3))
qed

lemma cutmix_batch_mixed:
  assumes "cutmix_batch env kw ep rnd st (idx, batch, ls) = Some st'"
    and "rnd_r (rnd idx) < cut_prob kw"
  shows "\<exists>permuted mixed.
       index_select batch (rnd_perm (rnd idx)) = Some permuted
     \<and> paste_box (rnd_bbox (rnd idx)) batch permuted = Some mixed
     \<and> length (argmax1 (net_forward env (training (model st)) (params (model st)) mixed)) = length ls
     \<and> train_n_corrects st' = train_n_corrects st +
         length (filter (\<lambda>i. argmax1 (net_forward env (training (model st)) (params (model st))
                                        mixed) ! i = ls ! i) [0..<length ls])"
proof -
  from cutmix_batch_augmented[OF assms] obtain mixed pred loss w1 n where
    a: "cutmix_augment env (zero_grad (model st)) batch ls (rnd idx) = Some (mixed, pred, loss, w1)"
    and n: "count_correct (argmax1 (logits pred)) ls = Some n"
    and st': "st' = \<lparr>model = optimizer_step env (backward env
                      (if idx mod 100 = 0 \<and> ep mod 20 = 0
                       then savefig w1 ''TrainVal_BatchSample'' ep idx else w1) loss),
                   train_loss = train_loss st + lval loss,
                   train_n_corrects = train_n_corrects st + n,
                   train_n_samples = train_n_samples st + length ls\<rparr>"
    by blast
  note r = cutmix_augment_result[OF a]
  have lg: "logits pred = net_forward env (training (model st)) (params (model st)) mixed"
    using r by (simp add: prim_defs)
  from r obtain permuted where p: "index_select batch (rnd_perm (rnd idx)) = Some permuted"
    "paste_box (rnd_bbox (rnd idx)) batch permuted = Some mixed"
    by blast
  note cnt = count_correct_positions[OF n, unfolded lg]
  have nc: "train_n_corrects st' = train_n_corrects st + n" by (simp add: st')
  show ?thesis using p cnt nc by blast
qed

subsection \<open>The radius update of \<open>train_HybridCutMix\<close>\<close>

lemma hcm_batch_radius:
  assumes "hcm_batch env kw ep rnd (fr, st) (idx, batch, ls) = Some (fr', st')"
  shows "fr' = (if rnd_r (rnd idx) < cut_prob kw
                then update_radius (floordiv_rounds_down env) (num_stages (model st))
                       (rnd_stage (rnd idx)) fr
                else fr)
       \<and> num_stages (model st') = num_stages (model st)"
proof (cases "rnd_r (rnd idx) < cut_prob kw")
  case True
  from hcm_batch_augmented[OF assms True] obtain mixed pm loss w1 n where
    a: "hcm_augment env kw fr (snd (forward env (zero_grad (model st)) batch)) batch ls
             (fst (forward env (zero_grad (model st)) batch)) (rnd idx) = Some (fr', mixed, pm, loss, w1)"
    and st': "st' = \<lparr>model = optimizer_step env (backward env (zero_grad
                      (if idx mod 150 = 0 \<and> ep mod 1 = 0
                       then savefig w1 ''Train_Orig_BatchSample'' ep idx else w1)) loss),
                   train_loss = train_loss st + lval loss,
                   train_n_corrects = train_n_corrects st + n,
                   train_n_samples = train_n_samples st + length ls\<rparr>"
    by blast
  show ?thesis using hcm_augment_result[OF a] True
    by (simp add: st' prim_defs case_prod_beta)
next
  case False
  show ?thesis using assms False
    by (auto simp: hcm_batch_plain[where rnd=rnd and idx=idx and kw=kw, OF False] prim_defs
        case_prod_beta split: option.splits)
qed

lemma hcm_loop_radius:
  "for_each (hcm_batch env kw ep rnd) (fr, st) (enumerate k xs) = Some (fr', st') \<Longrightarrow>
     fr' = radius_after (floordiv_rounds_down env) kw rnd (num_stages (model st)) k (length xs) fr
     \<and> num_stages (model st') = num_stages (model st)"
proof (induction xs arbitrary: fr st k)
  case Nil
  then show ?case by (simp add: radius_after_def)
next
  case (Cons x xs)
  obtain b ls where x: "x = (b, ls)" by (cases x)
  from Cons.prems obtain fr1 st1 where
    s1: "hcm_batch env kw ep rnd (fr, st) (k, b, ls) = Some (fr1, st1)"
    and rest: "for_each (hcm_batch env kw ep rnd) (fr1, st1) (enumerate (Suc k) xs) = Some (fr', st')"
    by (auto simp: x bind_eq_Some_conv)
  note step = hcm_batch_radius[OF s1]
  note ih = Cons.IH[OF rest]
  have "radius_after (floordiv_rounds_down env) kw rnd (num_stages (model st)) k (length (x # xs)) fr
        = radius_after (floordiv_rounds_down env) kw rnd (num_stages (model st)) (Suc k) (length xs) fr1"
  proof -
    have u: "[k..<k + length (x # xs)] = k # [Suc k..<Suc k + length xs]"
      using upt_conv_Cons[of k "k + length (x # xs)"] by (simp del: upt_Suc)
    show ?thesis unfolding radius_after_def u using step by simp
  qed
  then show ?case using ih step by simp
qed

lemma update_radius_exact:
  assumes "fits_int64 (n_stages - s)" and "fits_int64 (fr * (n_stages - s))"
    and "rounds_down \<or> 0 \<le> fr * (n_stages - s)"
  shows "update_radius rounds_down n_stages s fr
         = (if s < 3 then fr * (n_stages - s) div 4 else fr * (n_stages - s))"
proof -
  have w: "int64_wrap x = x" if "fits_int64 x" for x
    using that by (simp add: int64_wrap_def fits_int64_def)
  have t: "tensor_floordiv rounds_down a 4 = a div 4" if "rounds_down \<or> 0 \<le> a" for a
    using that by (auto simp: tensor_floordiv_def sgn_if)
  show ?thesis
    using assms by (simp add: update_radius_def Let_def w t)
qed

subsection \<open>The mixing instance\<close>

lemma ex_mix_hps_fine:
  "\<exists>st'. hps_batch ex_env_mix ex_kwargs_mix 1 ex_draws (init_locals ex_world_fine)
            (0, ex_batch_mix, ex_labels_mix) = Some st'"
  by (simp add: eval_defs)

lemma ex_mix_hps_coarse:
  "\<exists>st'. hps_batch ex_env_mix ex_kwargs_mix 1 ex_draws (init_locals ex_world)
            (0, ex_batch_mix, ex_labels_mix) = Some st'"
  by (simp add: eval_defs)

lemma ex_mix_hcm_fine:
  "\<exists>st'. hcm_batch ex_env_mix ex_kwargs_mix 1 ex_draws_fine (4, init_locals ex_world)
            (0, ex_batch_mix, ex_labels_mix) = Some (3, st')"
  by (simp add: eval_defs)

lemma ex_mix_hcm_coarse:
  "\<exists>st'. hcm_batch ex_env_mix ex_kwargs_mix 1 ex_draws (4, init_locals ex_world)
            (0, ex_batch_mix, ex_labels_mix) = Some (4, st')"
  by (simp add: eval_defs)

lemma ex_mix_cutmix:
  "\<exists>st'. cutmix_batch ex_env_mix ex_kwargs_mix 1 ex_draws (init_locals ex_world)
            (0, ex_batch_mix, ex_labels_mix) = Some st'"
  by (simp add: eval_defs)

lemma ex_mix_augment:
  "rnd_r (ex_draws i) < cut_prob ex_kwargs_mix" "rnd_r (ex_draws_fine i) < cut_prob ex_kwargs_mix"
  by (simp_all add: ex_draws_def ex_draws_fine_def ex_kwargs_mix_def)

lemma ex_mix_blend:
  "blend ex_upsampled_mix ex_batch_mix [1, 0] = Some ex_mixed"
  by (simp add: eval_defs)

lemma ex_mix_upsampled:
  assumes "py_index (hook_gradient ex_env_mix t p [(1, ex_batch_mix, ls)] name) 0 = Some grad"
    and "class_activation_map (hook_activation ex_env_mix t p ex_batch_mix name) grad = Some cam"
    and "upsample_masks (generate_attentive_mask ex_env_mix cam r k ab) (spatial_size ex_batch_mix)
           = Some up"
  shows "up = ex_upsampled_mix \<and> generate_attentive_mask ex_env_mix cam r k ab
           = [[[0, 1], [1, 1]], [[0, 1], [1, 1]]]"
  using assms by (auto simp: eval_defs)

lemma ex_mix_predictions:
  "argmax1 (net_forward ex_env_mix t 1 ex_mixed) = [0, 2]"
  "argmax1 (net_forward ex_env_mix t 1 ex_batch_mix) = [1, 2]"
  by (simp_all add: eval_defs)

lemma ex_mix_paste:
  "index_select ex_batch_mix [1, 0] = Some p \<Longrightarrow> paste_box (0, 0, 1, 1) ex_batch_mix p = Some m
     \<Longrightarrow> m = ex_mixed"
  by (auto simp: eval_defs)

lemma ex_mix_pinned:
  assumes "py_index (hook_gradient ex_env_mix t p [(1, ex_batch_mix, ls)] name) 0 = Some grad"
    and "class_activation_map (hook_activation ex_env_mix t p ex_batch_mix name) grad = Some cam"
    and "upsample_masks (generate_attentive_mask ex_env_mix cam r k ab) (spatial_size ex_batch_mix)
           = Some up"
    and "mixes_pixelwise up ex_batch_mix perm mixed"
    and "perm = [1, 0]"
  shows "mixed = ex_mixed"
proof -
  have "up = ex_upsampled_mix" using ex_mix_upsampled[OF assms(1,2,3)] by simp
  then have "mixes_pixelwise ex_upsampled_mix ex_batch_mix [1, 0] mixed"
    using assms(4,5) by simp
  then show ?thesis
    by (rule mixes_pixelwise_unique[OF _ blend_mixes_pixelwise[OF ex_mix_blend]])
qed

lemma ex_mix_stage_shape:
  "shape4 (hook_activation ex_env_mix t p ex_batch_mix name) = (N, C, W_f, H_f)
     \<Longrightarrow> W_f = 2 \<and> H_f = 2"
  by (auto simp: eval_defs)

subsection \<open>The fine-grained threshold\<close>

text \<open>
  Claim C6. In both hybrid training functions the batch of an augmented iteration is
  mixed in its pixels whatever the stage: the second forward pass runs on the batch
  \<open>mixed\<close> whose every pixel is \<open>m * x + (1 - m) * x'\<close>, with \<open>x\<close> the pixel of the
  original batch, \<open>x'\<close> the pixel of the sample drawn by the permutation and \<open>m\<close> the
  upsampled attention mask that \<open>generate_attentive_mask\<close> returned for the class
  activation map of the target stage. When the target stage index is below 3, the loss
  that is accumulated and backpropagated is the criterion on \<open>mixed\<close> against the original
  labels alone. Otherwise it is the two-label loss: in \<open>train_HybridPartSwapping\<close> the
  original labels weigh \<open>(radius + 1)\<^sup>2 / (W_f * H_f)\<close> and the permuted labels one minus
  that; in \<open>train_HybridCutMix\<close> the permuted labels weigh the mean over the samples of
  \<open>1 - sum mask / (W_f * H_f)\<close> and the original labels one minus that. The target stage
  index is \<open>num_stages - 1\<close> in the first function and the drawn index in the second.
\<close>

theorem fine_grained_skips_label_mixing:
  "(hps_batch env kw ep rnd st (idx, batch, ls) = Some st' \<and> rnd_r (rnd idx) < cut_prob kw \<longrightarrow>
     (\<exists>name grad cam up mixed N C W_f H_f.
         py_index (stage_names (model st)) (num_stages (model st) - 1) = Some name
       \<and> py_index (hook_gradient env (training (model st)) (params (model st))
                     [(1, batch, ls)] name) 0 = Some grad
       \<and> shape4 (hook_activation env (training (model st)) (params (model st)) batch name)
            = (N, C, W_f, H_f)
       \<and> class_activation_map
            (hook_activation env (training (model st)) (params (model st)) batch name) grad
            = Some cam
       \<and> upsample_masks
            (generate_attentive_mask env cam (radius kw) (num_proposals kw) (Some False))
            (spatial_size batch) = Some up
       \<and> mixes_pixelwise up batch (rnd_perm (rnd idx)) mixed
       \<and> (num_stages (model st) - 1 < 3 \<longrightarrow>
             grads (model st') = [[(1, mixed, ls)]]
           \<and> train_loss st' = train_loss st
               + criterion env (net_forward env (training (model st)) (params (model st)) mixed) ls)
       \<and> (\<not> num_stages (model st) - 1 < 3 \<longrightarrow>
             grads (model st') =
               [[(real_of_int ((radius kw + 1) ^ 2) / real (W_f * H_f), mixed, ls),
                 (1 - real_of_int ((radius kw + 1) ^ 2) / real (W_f * H_f), mixed,
                  map (\<lambda>i. ls ! i) (rnd_perm (rnd idx)))]]
           \<and> train_loss st' = train_loss st
               + (criterion env (net_forward env (training (model st)) (params (model st)) mixed) ls
                    * (real_of_int ((radius kw + 1) ^ 2) / real (W_f * H_f))
                + criterion env (net_forward env (training (model st)) (params (model st)) mixed)
                    (map (\<lambda>i. ls ! i) (rnd_perm (rnd idx)))
                    * (1 - real_of_int ((radius kw + 1) ^ 2) / real (W_f * H_f))))))
 \<and> (hcm_batch env kw ep rnd (fr, st) (idx, batch, ls) = Some (fr', st')
       \<and> rnd_r (rnd idx) < cut_prob kw \<longrightarrow>
     (\<exists>name grad cam masks up mixed N C W_f H_f.
         py_index (stage_names (model st)) (rnd_stage (rnd idx)) = Some name
       \<and> py_index (hook_gradient env (training (model st)) (params (model st))
                     [(1, batch, ls)] name) 0 = Some grad
       \<and> shape4 (hook_activation env (training (model st)) (params (model st)) batch name)
            = (N, C, W_f, H_f)
       \<and> class_activation_map
            (hook_activation env (training (model st)) (params (model st)) batch name) grad
            = Some cam
       \<and> masks = generate_attentive_mask env cam
                   (update_radius (floordiv_rounds_down env) (num_stages (model st))
                      (rnd_stage (rnd idx)) fr)
                   (hcm_num_proposals (num_stages (model st)) (rnd_stage (rnd idx)) (multiplier kw))
                   None
       \<and> upsample_masks masks (spatial_size batch) = Some up
       \<and> mixes_pixelwise up batch (rnd_perm (rnd idx)) mixed
       \<and> (rnd_stage (rnd idx) < 3 \<longrightarrow>
             grads (model st') = [[(1, mixed, ls)]]
           \<and> train_loss st' = train_loss st
               + criterion env (net_forward env (training (model st)) (params (model st)) mixed) ls)
       \<and> (\<not> rnd_stage (rnd idx) < 3 \<longrightarrow>
             grads (model st') =
               [[(1 - sum_list (map (\<lambda>m. 1 - sum_list (concat m) / real (W_f * H_f)) masks)
                        / real (length masks), mixed, ls),
                 (sum_list (map (\<lambda>m. 1 - sum_list (concat m) / real (W_f * H_f)) masks)
                        / real (length masks), mixed,
                  map (\<lambda>i. ls ! i) (rnd_perm (rnd idx)))]]
           \<and> train_loss st' = train_loss st
               + (criterion env (net_forward env (training (model st)) (params (model st)) mixed) ls
                    * (1 - sum_list (map (\<lambda>m. 1 - sum_list (concat m) / real (W_f * H_f)) masks)
                             / real (length masks))
                + criterion env (net_forward env (training (model st)) (params (model st)) mixed)
                    (map (\<lambda>i. ls ! i) (rnd_perm (rnd idx)))
                    * (sum_list (map (\<lambda>m. 1 - sum_list (concat m) / real (W_f * H_f)) masks)
                         / real (length masks))))))"
proof (intro conjI impI)
  assume h: "hps_batch env kw ep rnd st (idx, batch, ls) = Some st' \<and> rnd_r (rnd idx) < cut_prob kw"
  from hps_batch_mixed[OF conjunct1[OF h] conjunct2[OF h]]
  show "\<exists>name grad cam up mixed N C W_f H_f.
         py_index (stage_names (model st)) (num_stages (model st) - 1) = Some name
       \<and> py_index (hook_gradient env (training (model st)) (params (model st))
                     [(1, batch, ls)] name) 0 = Some grad
       \<and> shape4 (hook_activation env (training (model st)) (params (model st)) batch name)
            = (N, C, W_f, H_f)
       \<and> class_activation_map
            (hook_activation env (training (model st)) (params (model st)) batch name) grad
            = Some cam
       \<and> upsample_masks
            (generate_attentive_mask env cam (radius kw) (num_proposals kw) (Some False))
            (spatial_size batch) = Some up
       \<and> mixes_pixelwise up batch (rnd_perm (rnd idx)) mixed
       \<and> (num_stages (model st) - 1 < 3 \<longrightarrow>
             grads (model st') = [[(1, mixed, ls)]]
           \<and> train_loss st' = train_loss st
               + criterion env (net_forward env (training (model st)) (params (model st)) mixed) ls)
       \<and> (\<not> num_stages (model st) - 1 < 3 \<longrightarrow>
             grads (model st') =
               [[(real_of_int ((radius kw + 1) ^ 2) / real (W_f * H_f), mixed, ls),
                 (1 - real_of_int ((radius kw + 1) ^ 2) / real (W_f * H_f), mixed,
                  map (\<lambda>i. ls ! i) (rnd_perm (rnd idx)))]]
           \<and> train_loss st' = train_loss st
               + (criterion env (net_forward env (training (model st)) (params (model st)) mixed) ls
                    * (real_of_int ((radius kw + 1) ^ 2) / real (W_f * H_f))
                + criterion env (net_forward env (training (model st)) (params (model st)) mixed)
                    (map (\<lambda>i. ls ! i) (rnd_perm (rnd idx)))
                    * (1 - real_of_int ((radius kw + 1) ^ 2) / real (W_f * H_f))))"
    apply (elim exE conjE)
    subgoal for name grad cam up mixed N C W_f H_f
      apply (rule exI[of _ name], rule exI[of _ grad], rule exI[of _ cam], rule exI[of _ up],
          rule exI[of _ mixed], rule exI[of _ N], rule exI[of _ C], rule exI[of _ W_f],
          rule exI[of _ H_f])
      apply (frule blend_mixes_pixelwise)
      apply simp
      done
    done
next
  assume h: "hcm_batch env kw ep rnd (fr, st) (idx, batch, ls) = Some (fr', st')
       \<and> rnd_r (rnd idx) < cut_prob kw"
  from hcm_batch_mixed[OF conjunct1[OF h] conjunct2[OF h]]
  show "\<exists>name grad cam masks up mixed N C W_f H_f.
         py_index (stage_names (model st)) (rnd_stage (rnd idx)) = Some name
       \<and> py_index (hook_gradient env (training (model st)) (params (model st))
                     [(1, batch, ls)] name) 0 = Some grad
       \<and> shape4 (hook_activation env (training (model st)) (params (model st)) batch name)
            = (N, C, W_f, H_f)
       \<and> class_activation_map
            (hook_activation env (training (model st)) (params (model st)) batch name) grad
            = Some cam
       \<and> masks = generate_attentive_mask env cam
                   (update_radius (floordiv_rounds_down env) (num_stages (model st))
                      (rnd_stage (rnd idx)) fr)
                   (hcm_num_proposals (num_stages (model st)) (rnd_stage (rnd idx)) (multiplier kw))
                   None
       \<and> upsample_masks masks (spatial_size batch) = Some up
       \<and> mixes_pixelwise up batch (rnd_perm (rnd idx)) mixed
       \<and> (rnd_stage (rnd idx) < 3 \<longrightarrow>
             grads (model st') = [[(1, mixed, ls)]]
           \<and> train_loss st' = train_loss st
               + criterion env (net_forward env (training (model st)) (params (model st)) mixed) ls)
       \<and> (\<not> rnd_stage (rnd idx) < 3 \<longrightarrow>
             grads (model st') =
               [[(1 - sum_list (map (\<lambda>m. 1 - sum_list (concat m) / real (W_f * H_f)) masks)
                        / real (length masks), mixed, ls),
                 (sum_list (map (\<lambda>m. 1 - sum_list (concat m) / real (W_f * H_f)) masks)
                        / real (length masks), mixed,
                  map (\<lambda>i. ls ! i) (rnd_perm (rnd idx)))]]
           \<and> train_loss st' = train_loss st
               + (criterion env (net_forward env (training (model st)) (params (model st)) mixed) ls
                    * (1 - sum_list (map (\<lambda>m. 1 - sum_list (concat m) / real (W_f * H_f)) masks)
                             / real (length masks))
                + criterion env (net_forward env (training (model st)) (params (model st)) mixed)
                    (map (\<lambda>i. ls ! i) (rnd_perm (rnd idx)))
                    * (sum_list (map (\<lambda>m. 1 - sum_list (concat m) / real (W_f * H_f)) masks)
                         / real (length masks))))"
    apply (elim exE conjE)
    subgoal for name grad cam masks up mixed N C W_f H_f
      apply (rule exI[of _ name], rule exI[of _ grad], rule exI[of _ cam], rule exI[of _ masks],
          rule exI[of _ up], rule exI[of _ mixed], rule exI[of _ N], rule exI[of _ C],
          rule exI[of _ W_f], rule exI[of _ H_f])
      apply (frule blend_mixes_pixelwise)
      apply simp
      done
    done
qed

theorem fine_grained_skips_label_mixing_witness:
  "(\<exists>st'. hps_batch ex_env_mix ex_kwargs_mix 1 ex_draws (init_locals ex_world_fine)
             (0, ex_batch_mix, ex_labels_mix) = Some st'
      \<and> rnd_r (ex_draws 0) < cut_prob ex_kwargs_mix
      \<and> num_stages (model (init_locals ex_world_fine)) - 1 < 3
      \<and> grads (model st') = [[(1, ex_mixed, [0, 2])]]
      \<and> train_loss st' = 0)
 \<and> (\<exists>st'. hps_batch ex_env_mix ex_kwargs_mix 1 ex_draws (init_locals ex_world)
             (0, ex_batch_mix, ex_labels_mix) = Some st'
      \<and> \<not> num_stages (model (init_locals ex_world)) - 1 < 3
      \<and> grads (model st') = [[(1 / 4, ex_mixed, [0, 2]), (3 / 4, ex_mixed, [2, 0])]]
      \<and> train_loss st' = 3 / 2)
 \<and> (\<exists>st'. hcm_batch ex_env_mix ex_kwargs_mix 1 ex_draws_fine (4, init_locals ex_world)
             (0, ex_batch_mix, ex_labels_mix) = Some (3, st')
      \<and> rnd_r (ex_draws_fine 0) < cut_prob ex_kwargs_mix
      \<and> rnd_stage (ex_draws_fine 0) < 3
      \<and> grads (model st') = [[(1, ex_mixed, [0, 2])]]
      \<and> train_loss st' = 0)
 \<and> (\<exists>st'. hcm_batch ex_env_mix ex_kwargs_mix 1 ex_draws (4, init_locals ex_world)
             (0, ex_batch_mix, ex_labels_mix) = Some (4, st')
      \<and> \<not> rnd_stage (ex_draws 0) < 3
      \<and> grads (model st') = [[(3 / 4, ex_mixed, [0, 2]), (1 / 4, ex_mixed, [2, 0])]]
      \<and> train_loss st' = 1 / 2)
 \<and> mixes_pixelwise ex_upsampled_mix ex_batch_mix [1, 0] ex_mixed
 \<and> ex_mixed \<noteq> ex_batch_mix"
proof -
  let ?f = "init_locals ex_world_fine"
  let ?c = "init_locals ex_world"
  obtain s1 where h1: "hps_batch ex_env_mix ex_kwargs_mix 1 ex_draws ?f
             (0, ex_batch_mix, ex_labels_mix) = Some s1"
    using ex_mix_hps_fine by blast
  obtain s2 where h2: "hps_batch ex_env_mix ex_kwargs_mix 1 ex_draws ?c
             (0, ex_batch_mix, ex_labels_mix) = Some s2"
    using ex_mix_hps_coarse by blast
  obtain s3 where h3: "hcm_batch ex_env_mix ex_kwargs_mix 1 ex_draws_fine (4, ?c)
             (0, ex_batch_mix, ex_labels_mix) = Some (3, s3)"
    using ex_mix_hcm_fine by blast
  obtain s4 where h4: "hcm_batch ex_env_mix ex_kwargs_mix 1 ex_draws (4, ?c)
             (0, ex_batch_mix, ex_labels_mix) = Some (4, s4)"
    using ex_mix_hcm_coarse by blast
  have fine: "num_stages (model ?f) - 1 < 3" "\<not> num_stages (model ?c) - 1 < 3"
    "rnd_stage (ex_draws_fine 0) < 3" "\<not> rnd_stage (ex_draws 0) < 3"
    by (simp_all add: init_locals_def ex_world_fine_def ex_world_def ex_draws_fine_def ex_draws_def)
  have perm: "rnd_perm (ex_draws 0) = [1, 0]" "rnd_perm (ex_draws_fine 0) = [1, 0]"
    by (simp_all add: ex_draws_fine_def ex_draws_def)
  have c1: "grads (model s1) = [[(1, ex_mixed, [0, 2])]] \<and> train_loss s1 = 0"
  proof -
    from fine_grained_skips_label_mixing[where env = ex_env_mix and kw = ex_kwargs_mix and ep = 1
        and rnd = ex_draws and st = ?f and idx = 0 and batch = ex_batch_mix
        and ls = ex_labels_mix and st' = s1, THEN conjunct1, rule_format,
        OF conjI[OF h1 ex_mix_augment(1)]]
    obtain name grad cam up mixed where
      g: "py_index (hook_gradient ex_env_mix (training (model ?f)) (params (model ?f))
                     [(1, ex_batch_mix, ex_labels_mix)] name) 0 = Some grad"
      and c: "class_activation_map
            (hook_activation ex_env_mix (training (model ?f)) (params (model ?f)) ex_batch_mix name)
            grad = Some cam"
      and u: "upsample_masks
            (generate_attentive_mask ex_env_mix cam (radius ex_kwargs_mix)
               (num_proposals ex_kwargs_mix) (Some False))
            (spatial_size ex_batch_mix) = Some up"
      and m: "mixes_pixelwise up ex_batch_mix (rnd_perm (ex_draws 0)) mixed"
      and f: "num_stages (model ?f) - 1 < 3 \<longrightarrow>
             grads (model s1) = [[(1, mixed, ex_labels_mix)]]
           \<and> train_loss s1 = train_loss ?f
               + criterion ex_env_mix
                   (net_forward ex_env_mix (training (model ?f)) (params (model ?f)) mixed)
                   ex_labels_mix"
      by blast
    have "mixed = ex_mixed" by (rule ex_mix_pinned[OF g c u m perm(1)])
    then show ?thesis using f fine(1) by (simp add: eval_defs)
  qed
  have c2: "grads (model s2) = [[(1 / 4, ex_mixed, [0, 2]), (3 / 4, ex_mixed, [2, 0])]]
          \<and> train_loss s2 = 3 / 2"
  proof -
    from fine_grained_skips_label_mixing[where env = ex_env_mix and kw = ex_kwargs_mix and ep = 1
        and rnd = ex_draws and st = ?c and idx = 0 and batch = ex_batch_mix
        and ls = ex_labels_mix and st' = s2, THEN conjunct1, rule_format,
        OF conjI[OF h2 ex_mix_augment(1)]]
    obtain name grad cam up mixed N C W_f H_f where
      g: "py_index (hook_gradient ex_env_mix (training (model ?c)) (params (model ?c))
                     [(1, ex_batch_mix, ex_labels_mix)] name) 0 = Some grad"
      and sh: "shape4 (hook_activation ex_env_mix (training (model ?c)) (params (model ?c))
                  ex_batch_mix name) = (N, C, W_f, H_f)"
      and c: "class_activation_map
            (hook_activation ex_env_mix (training (model ?c)) (params (model ?c)) ex_batch_mix name)
            grad = Some cam"
      and u: "upsample_masks
            (generate_attentive_mask ex_env_mix cam (radius ex_kwargs_mix)
               (num_proposals ex_kwargs_mix) (Some False))
            (spatial_size ex_batch_mix) = Some up"
      and m: "mixes_pixelwise up ex_batch_mix (rnd_perm (ex_draws 0)) mixed"
      and f: "\<not> num_stages (model ?c) - 1 < 3 \<longrightarrow>
             grads (model s2) =
               [[(real_of_int ((radius ex_kwargs_mix + 1) ^ 2) / real (W_f * H_f), mixed,
                  ex_labels_mix),
                 (1 - real_of_int ((radius ex_kwargs_mix + 1) ^ 2) / real (W_f * H_f), mixed,
                  map (\<lambda>i. ex_labels_mix ! i) (rnd_perm (ex_draws 0)))]]
           \<and> train_loss s2 = train_loss ?c
               + (criterion ex_env_mix
                    (net_forward ex_env_mix (training (model ?c)) (params (model ?c)) mixed)
                    ex_labels_mix
                    * (real_of_int ((radius ex_kwargs_mix + 1) ^ 2) / real (W_f * H_f))
                + criterion ex_env_mix
                    (net_forward ex_env_mix (training (model ?c)) (params (model ?c)) mixed)
                    (map (\<lambda>i. ex_labels_mix ! i) (rnd_perm (ex_draws 0)))
                    * (1 - real_of_int ((radius ex_kwargs_mix + 1) ^ 2) / real (W_f * H_f)))"
      by blast
    have "mixed = ex_mixed" by (rule ex_mix_pinned[OF g c u m perm(1)])
    moreover have "W_f = 2 \<and> H_f = 2" by (rule ex_mix_stage_shape[OF sh])
    ultimately show ?thesis using f fine(2) by (simp add: eval_defs)
  qed
  have c3: "grads (model s3) = [[(1, ex_mixed, [0, 2])]] \<and> train_loss s3 = 0"
  proof -
    from fine_grained_skips_label_mixing[where env = ex_env_mix and kw = ex_kwargs_mix and ep = 1
        and rnd = ex_draws_fine and st = ?c and idx = 0 and batch = ex_batch_mix
        and ls = ex_labels_mix and st' = s3 and fr = 4 and fr' = 3, THEN conjunct2, rule_format,
        OF conjI[OF h3 ex_mix_augment(2)]]
    obtain name grad cam masks up mixed where
      g: "py_index (hook_gradient ex_env_mix (training (model ?c)) (params (model ?c))
                     [(1, ex_batch_mix, ex_labels_mix)] name) 0 = Some grad"
      and c: "class_activation_map
            (hook_activation ex_env_mix (training (model ?c)) (params (model ?c)) ex_batch_mix name)
            grad = Some cam"
      and ms: "masks = generate_attentive_mask ex_env_mix cam
                   (update_radius (floordiv_rounds_down ex_env_mix) (num_stages (model ?c))
                      (rnd_stage (ex_draws_fine 0)) 4)
                   (hcm_num_proposals (num_stages (model ?c)) (rnd_stage (ex_draws_fine 0))
                      (multiplier ex_kwargs_mix))
                   None"
      and u: "upsample_masks masks (spatial_size ex_batch_mix) = Some up"
      and m: "mixes_pixelwise up ex_batch_mix (rnd_perm (ex_draws_fine 0)) mixed"
      and f: "rnd_stage (ex_draws_fine 0) < 3 \<longrightarrow>
             grads (model s3) = [[(1, mixed, ex_labels_mix)]]
           \<and> train_loss s3 = train_loss ?c
               + criterion ex_env_mix
                   (net_forward ex_env_mix (training (model ?c)) (params (model ?c)) mixed)
                   ex_labels_mix"
      by blast
    have "mixed = ex_mixed" by (rule ex_mix_pinned[OF g c u[unfolded ms] m perm(2)])
    then show ?thesis using f fine(3) by (simp add: eval_defs)
  qed
  have c4: "grads (model s4) = [[(3 / 4, ex_mixed, [0, 2]), (1 / 4, ex_mixed, [2, 0])]]
          \<and> train_loss s4 = 1 / 2"
  proof -
    from fine_grained_skips_label_mixing[where env = ex_env_mix and kw = ex_kwargs_mix and ep = 1
        and rnd = ex_draws and st = ?c and idx = 0 and batch = ex_batch_mix
        and ls = ex_labels_mix and st' = s4 and fr = 4 and fr' = 4, THEN conjunct2, rule_format,
        OF conjI[OF h4 ex_mix_augment(1)]]
    obtain name grad cam masks up mixed N C W_f H_f where
      g: "py_index (hook_gradient ex_env_mix (training (model ?c)) (params (model ?c))
                     [(1, ex_batch_mix, ex_labels_mix)] name) 0 = Some grad"
      and sh: "shape4 (hook_activation ex_env_mix (training (model ?c)) (params (model ?c))
                  ex_batch_mix name) = (N, C, W_f, H_f)"
      and c: "class_activation_map
            (hook_activation ex_env_mix (training (model ?c)) (params (model ?c)) ex_batch_mix name)
            grad = Some cam"
      and ms: "masks = generate_attentive_mask ex_env_mix cam
                   (update_radius (floordiv_rounds_down ex_env_mix) (num_stages (model ?c))
                      (rnd_stage (ex_draws 0)) 4)
                   (hcm_num_proposals (num_stages (model ?c)) (rnd_stage (ex_draws 0))
                      (multiplier ex_kwargs_mix))
                   None"
      and u: "upsample_masks masks (spatial_size ex_batch_mix) = Some up"
      and m: "mixes_pixelwise up ex_batch_mix (rnd_perm (ex_draws 0)) mixed"
      and f: "\<not> rnd_stage (ex_draws 0) < 3 \<longrightarrow>
             grads (model s4) =
               [[(1 - sum_list (map (\<lambda>m. 1 - sum_list (concat m) / real (W_f * H_f)) masks)
                        / real (length masks), mixed, ex_labels_mix),
                 (sum_list (map (\<lambda>m. 1 - sum_list (concat m) / real (W_f * H_f)) masks)
                        / real (length masks), mixed,
                  map (\<lambda>i. ex_labels_mix ! i) (rnd_perm (ex_draws 0)))]]
           \<and> train_loss s4 = train_loss ?c
               + (criterion ex_env_mix
                    (net_forward ex_env_mix (training (model ?c)) (params (model ?c)) mixed)
                    ex_labels_mix
                    * (1 - sum_list (map (\<lambda>m. 1 - sum_list (concat m) / real (W_f * H_f)) masks)
                             / real (length masks))
                + criterion ex_env_mix
                    (net_forward ex_env_mix (training (model ?c)) (params (model ?c)) mixed)
                    (map (\<lambda>i. ex_labels_mix ! i) (rnd_perm (ex_draws 0)))
                    * (sum_list (map (\<lambda>m. 1 - sum_list (concat m) / real (W_f * H_f)) masks)
                         / real (length masks)))"
      by blast
    have "mixed = ex_mixed" by (rule ex_mix_pinned[OF g c u[unfolded ms] m perm(1)])
    moreover have "W_f = 2 \<and> H_f = 2" by (rule ex_mix_stage_shape[OF sh])
    moreover have "masks = [[[0, 1], [1, 1]], [[0, 1], [1, 1]]]"
      using ex_mix_upsampled[OF g c u[unfolded ms]] ms by simp
    ultimately show ?thesis using f fine(4) by (simp add: eval_defs)
  qed
  have px: "mixes_pixelwise ex_upsampled_mix ex_batch_mix [1, 0] ex_mixed"
    by (rule blend_mixes_pixelwise[OF ex_mix_blend])
  have ne: "ex_mixed \<noteq> ex_batch_mix" by (simp add: ex_mixed_def ex_batch_mix_def)
  show ?thesis
    using h1 h2 h3 h4 c1 c2 c3 c4 px ne fine ex_mix_augment(1)[of 0] ex_mix_augment(2)[of 0]
    by blast
qed

subsection \<open>The accuracy of an augmented batch\<close>

text \<open>
  Claim C9. In \<open>train_HybridPartSwapping\<close>, \<open>train_HybridCutMix\<close> and \<open>train_CutMix\<close>,
  when a batch takes the augmented branch, the number added to the count of correct
  predictions is the number of positions \<open>i\<close> at which the class predicted on the mixed
  batch (the argmax of the second forward pass) equals the original label \<open>ls ! i\<close>. The
  mixed batch is the pixelwise blend under the upsampled attention mask in the two
  hybrid functions and the batch with the box of the permuted samples pasted in
  \<open>train_CutMix\<close>. The permuted labels do not occur in the count.
\<close>

theorem accuracy_uses_original_labels:
  "(hps_batch env kw ep rnd st (idx, batch, ls) = Some st' \<and> rnd_r (rnd idx) < cut_prob kw \<longrightarrow>
     (\<exists>name grad cam up mixed.
         py_index (stage_names (model st)) (num_stages (model st) - 1) = Some name
       \<and> py_index (hook_gradient env (training (model st)) (params (model st))
                     [(1, batch, ls)] name) 0 = Some grad
       \<and> class_activation_map
            (hook_activation env (training (model st)) (params (model st)) batch name) grad
            = Some cam
       \<and> upsample_masks
            (generate_attentive_mask env cam (radius kw) (num_proposals kw) (Some False))
            (spatial_size batch) = Some up
       \<and> mixes_pixelwise up batch (rnd_perm (rnd idx)) mixed
       \<and> length (argmax1 (net_forward env (training (model st)) (params (model st)) mixed))
            = length ls
       \<and> train_n_corrects st' = train_n_corrects st +
           length (filter (\<lambda>i. argmax1 (net_forward env (training (model st)) (params (model st))
                                          mixed) ! i = ls ! i) [0..<length ls])))
 \<and> (hcm_batch env kw ep rnd (fr, st) (idx, batch, ls) = Some (fr', st')
       \<and> rnd_r (rnd idx) < cut_prob kw \<longrightarrow>
     (\<exists>name grad cam up mixed.
         py_index (stage_names (model st)) (rnd_stage (rnd idx)) = Some name
       \<and> py_index (hook_gradient env (training (model st)) (params (model st))
                     [(1, batch, ls)] name) 0 = Some grad
       \<and> class_activation_map
            (hook_activation env (training (model st)) (params (model st)) batch name) grad
            = Some cam
       \<and> upsample_masks
            (generate_attentive_mask env cam
               (update_radius (floordiv_rounds_down env) (num_stages (model st))
                  (rnd_stage (rnd idx)) fr)
               (hcm_num_proposals (num_stages (model st)) (rnd_stage (rnd idx)) (multiplier kw))
               None)
            (spatial_size batch) = Some up
       \<and> mixes_pixelwise up batch (rnd_perm (rnd idx)) mixed
       \<and> length (argmax1 (net_forward env (training (model st)) (params (model st)) mixed))
            = length ls
       \<and> train_n_corrects st' = train_n_corrects st +
           length (filter (\<lambda>i. argmax1 (net_forward env (training (model st)) (params (model st))
                                          mixed) ! i = ls ! i) [0..<length ls])))
 \<and> (cutmix_batch env kw ep rnd st (idx, batch, ls) = Some st' \<and> rnd_r (rnd idx) < cut_prob kw \<longrightarrow>
     (\<exists>permuted mixed.
         index_select batch (rnd_perm (rnd idx)) = Some permuted
       \<and> paste_box (rnd_bbox (rnd idx)) batch permuted = Some mixed
       \<and> length (argmax1 (net_forward env (training (model st)) (params (model st)) mixed))
            = length ls
       \<and> train_n_corrects st' = train_n_corrects st +
           length (filter (\<lambda>i. argmax1 (net_forward env (training (model st)) (params (model st))
                                          mixed) ! i = ls ! i) [0..<length ls])))"
proof (intro conjI impI)
  assume h: "hps_batch env kw ep rnd st (idx, batch, ls) = Some st' \<and> rnd_r (rnd idx) < cut_prob kw"
  from hps_batch_mixed[OF conjunct1[OF h] conjunct2[OF h]]
  show "\<exists>name grad cam up mixed.
         py_index (stage_names (model st)) (num_stages (model st) - 1) = Some name
       \<and> py_index (hook_gradient env (training (model st)) (params (model st))
                     [(1, batch, ls)] name) 0 = Some grad
       \<and> class_activation_map
            (hook_activation env (training (model st)) (params (model st)) batch name) grad
            = Some cam
       \<and> upsample_masks
            (generate_attentive_mask env cam (radius kw) (num_proposals kw) (Some False))
            (spatial_size batch) = Some up
       \<and> mixes_pixelwise up batch (rnd_perm (rnd idx)) mixed
       \<and> length (argmax1 (net_forward env (training (model st)) (params (model st)) mixed))
            = length ls
       \<and> train_n_corrects st' = train_n_corrects st +
           length (filter (\<lambda>i. argmax1 (net_forward env (training (model st)) (params (model st))
                                          mixed) ! i = ls ! i) [0..<length ls])"
    apply (elim exE conjE)
    subgoal for name grad cam up mixed N C W_f H_f
      apply (rule exI[of _ name], rule exI[of _ grad], rule exI[of _ cam], rule exI[of _ up],
          rule exI[of _ mixed])
      apply (frule blend_mixes_pixelwise)
      apply simp
      done
    done
next
  assume h: "hcm_batch env kw ep rnd (fr, st) (idx, batch, ls) = Some (fr', st')
       \<and> rnd_r (rnd idx) < cut_prob kw"
  from hcm_batch_mixed[OF conjunct1[OF h] conjunct2[OF h]]
  show "\<exists>name grad cam up mixed.
         py_index (stage_names (model st)) (rnd_stage (rnd idx)) = Some name
       \<and> py_index (hook_gradient env (training (model st)) (params (model st))
                     [(1, batch, ls)] name) 0 = Some grad
       \<and> class_activation_map
            (hook_activation env (training (model st)) (params (model st)) batch name) grad
            = Some cam
       \<and> upsample_masks
            (generate_attentive_mask env cam
               (update_radius (floordiv_rounds_down env) (num_stages (model st))
                  (rnd_stage (rnd idx)) fr)
               (hcm_num_proposals (num_stages (model st)) (rnd_stage (rnd idx)) (multiplier kw))
               None)
            (spatial_size batch) = Some up
       \<and> mixes_pixelwise up batch (rnd_perm (rnd idx)) mixed
       \<and> length (argmax1 (net_forward env (training (model st)) (params (model st)) mixed))
            = length ls
       \<and> train_n_corrects st' = train_n_corrects st +
           length (filter (\<lambda>i. argmax1 (net_forward env (training (model st)) (params (model st))
                                          mixed) ! i = ls ! i) [0..<length ls])"
    apply (elim exE conjE)
    subgoal for name grad cam masks up mixed N C W_f H_f
      apply (rule exI[of _ name], rule exI[of _ grad], rule exI[of _ cam], rule exI[of _ up],
          rule exI[of _ mixed])
      apply (frule blend_mixes_pixelwise)
      apply simp
      done
    done
next
  assume h: "cutmix_batch env kw ep rnd st (idx, batch, ls) = Some st' \<and> rnd_r (rnd idx) < cut_prob kw"
  show "\<exists>permuted mixed.
         index_select batch (rnd_perm (rnd idx)) = Some permuted
       \<and> paste_box (rnd_bbox (rnd idx)) batch permuted = Some mixed
       \<and> length (argmax1 (net_forward env (training (model st)) (params (model st)) mixed))
            = length ls
       \<and> train_n_corrects st' = train_n_corrects st +
           length (filter (\<lambda>i. argmax1 (net_forward env (training (model st)) (params (model st))
                                          mixed) ! i = ls ! i) [0..<length ls])"
    by (rule cutmix_batch_mixed[OF conjunct1[OF h] conjunct2[OF h]])
qed

theorem accuracy_uses_original_labels_witness:
  "(\<exists>st'. hps_batch ex_env_mix ex_kwargs_mix 1 ex_draws (init_locals ex_world)
             (0, ex_batch_mix, ex_labels_mix) = Some st'
      \<and> rnd_r (ex_draws 0) < cut_prob ex_kwargs_mix
      \<and> train_n_corrects st' = 2)
 \<and> (\<exists>st'. hcm_batch ex_env_mix ex_kwargs_mix 1 ex_draws (4, init_locals ex_world)
             (0, ex_batch_mix, ex_labels_mix) = Some (4, st')
      \<and> train_n_corrects st' = 2)
 \<and> (\<exists>st'. cutmix_batch ex_env_mix ex_kwargs_mix 1 ex_draws (init_locals ex_world)
             (0, ex_batch_mix, ex_labels_mix) = Some st'
      \<and> train_n_corrects st' = 2)
 \<and> length (filter (\<lambda>i. argmax1 (net_forward ex_env_mix True 1 ex_mixed) ! i = ex_labels_mix ! i)
      [0..<length ex_labels_mix]) = 2
 \<and> length (filter (\<lambda>i. argmax1 (net_forward ex_env_mix True 1 ex_batch_mix) ! i = ex_labels_mix ! i)
      [0..<length ex_labels_mix]) = 1
 \<and> length (filter (\<lambda>i. argmax1 (net_forward ex_env_mix True 1 ex_mixed) ! i
                        = map (\<lambda>i. ex_labels_mix ! i) (rnd_perm (ex_draws 0)) ! i)
      [0..<length ex_labels_mix]) = 0"
proof -
  let ?c = "init_locals ex_world"
  obtain s1 where h1: "hps_batch ex_env_mix ex_kwargs_mix 1 ex_draws ?c
             (0, ex_batch_mix, ex_labels_mix) = Some s1"
    using ex_mix_hps_coarse by blast
  obtain s2 where h2: "hcm_batch ex_env_mix ex_kwargs_mix 1 ex_draws (4, ?c)
             (0, ex_batch_mix, ex_labels_mix) = Some (4, s2)"
    using ex_mix_hcm_coarse by blast
  obtain s3 where h3: "cutmix_batch ex_env_mix ex_kwargs_mix 1 ex_draws ?c
             (0, ex_batch_mix, ex_labels_mix) = Some s3"
    using ex_mix_cutmix by blast
  have perm: "rnd_perm (ex_draws 0) = [1, 0]" "rnd_bbox (ex_draws 0) = (0, 0, 1, 1)"
    by (simp_all add: ex_draws_def)
  have n: "length (filter (\<lambda>i. argmax1 (net_forward ex_env_mix t 1 ex_mixed) ! i = ex_labels_mix ! i)
      [0..<length ex_labels_mix]) = 2" for t
    by (simp add: ex_mix_predictions ex_labels_mix_def upt_rec)
  have n1: "length (filter (\<lambda>i. argmax1 (net_forward ex_env_mix True 1 ex_batch_mix) ! i
                               = ex_labels_mix ! i) [0..<length ex_labels_mix]) = 1"
    by (simp add: ex_mix_predictions ex_labels_mix_def upt_rec)
  have n0: "length (filter (\<lambda>i. argmax1 (net_forward ex_env_mix True 1 ex_mixed) ! i
                        = map (\<lambda>i. ex_labels_mix ! i) (rnd_perm (ex_draws 0)) ! i)
      [0..<length ex_labels_mix]) = 0"
    by (simp add: ex_mix_predictions ex_labels_mix_def upt_rec perm)
  have p: "params (model ?c) = 1" "train_n_corrects ?c = 0"
    by (simp_all add: init_locals_def ex_world_def)
  have c1: "train_n_corrects s1 = 2"
  proof -
    from accuracy_uses_original_labels[where env = ex_env_mix and kw = ex_kwargs_mix and ep = 1
        and rnd = ex_draws and st = ?c and idx = 0 and batch = ex_batch_mix
        and ls = ex_labels_mix and st' = s1, THEN conjunct1, rule_format,
        OF conjI[OF h1 ex_mix_augment(1)]]
    obtain name grad cam up mixed where
      g: "py_index (hook_gradient ex_env_mix (training (model ?c)) (params (model ?c))
                     [(1, ex_batch_mix, ex_labels_mix)] name) 0 = Some grad"
      and c: "class_activation_map
            (hook_activation ex_env_mix (training (model ?c)) (params (model ?c)) ex_batch_mix name)
            grad = Some cam"
      and u: "upsample_masks
            (generate_attentive_mask ex_env_mix cam (radius ex_kwargs_mix)
               (num_proposals ex_kwargs_mix) (Some False))
            (spatial_size ex_batch_mix) = Some up"
      and m: "mixes_pixelwise up ex_batch_mix (rnd_perm (ex_draws 0)) mixed"
      and f: "train_n_corrects s1 = train_n_corrects ?c +
           length (filter (\<lambda>i. argmax1 (net_forward ex_env_mix (training (model ?c))
                                          (params (model ?c)) mixed) ! i = ex_labels_mix ! i)
                     [0..<length ex_labels_mix])"
      by blast
    have "mixed = ex_mixed" by (rule ex_mix_pinned[OF g c u m perm(1)])
    then show ?thesis using f by (simp only: p n)
  qed
  have c2: "train_n_corrects s2 = 2"
  proof -
    from accuracy_uses_original_labels[where env = ex_env_mix and kw = ex_kwargs_mix and ep = 1
        and rnd = ex_draws and st = ?c and idx = 0 and batch = ex_batch_mix
        and ls = ex_labels_mix and st' = s2 and fr = 4 and fr' = 4, THEN conjunct2,
        THEN conjunct1, rule_format, OF conjI[OF h2 ex_mix_augment(1)]]
    obtain name grad cam up mixed where
      g: "py_index (hook_gradient ex_env_mix (training (model ?c)) (params (model ?c))
                     [(1, ex_batch_mix, ex_labels_mix)] name) 0 = Some grad"
      and c: "class_activation_map
            (hook_activation ex_env_mix (training (model ?c)) (params (model ?c)) ex_batch_mix name)
            grad = Some cam"
      and u: "upsample_masks
            (generate_attentive_mask ex_env_mix cam
               (update_radius (floordiv_rounds_down ex_env_mix) (num_stages (model ?c))
                  (rnd_stage (ex_draws 0)) 4)
               (hcm_num_proposals (num_stages (model ?c)) (rnd_stage (ex_draws 0))
                  (multiplier ex_kwargs_mix))
               None)
            (spatial_size ex_batch_mix) = Some up"
      and m: "mixes_pixelwise up ex_batch_mix (rnd_perm (ex_draws 0)) mixed"
      and f: "train_n_corrects s2 = train_n_corrects ?c +
           length (filter (\<lambda>i. argmax1 (net_forward ex_env_mix (training (model ?c))
                                          (params (model ?c)) mixed) ! i = ex_labels_mix ! i)
                     [0..<length ex_labels_mix])"
      by blast
    have "mixed = ex_mixed" by (rule ex_mix_pinned[OF g c u m perm(1)])
    then show ?thesis using f by (simp only: p n)
  qed
  have c3: "train_n_corrects s3 = 2"
  proof -
    from accuracy_uses_original_labels[where env = ex_env_mix and kw = ex_kwargs_mix and ep = 1
        and rnd = ex_draws and st = ?c and idx = 0 and batch = ex_batch_mix
        and ls = ex_labels_mix and st' = s3, THEN conjunct2, THEN conjunct2, rule_format,
        OF conjI[OF h3 ex_mix_augment(1)]]
    obtain permuted mixed where
      s: "index_select ex_batch_mix (rnd_perm (ex_draws 0)) = Some permuted"
      and b: "paste_box (rnd_bbox (ex_draws 0)) ex_batch_mix permuted = Some mixed"
      and f: "train_n_corrects s3 = train_n_corrects ?c +
           length (filter (\<lambda>i. argmax1 (net_forward ex_env_mix (training (model ?c))
                                          (params (model ?c)) mixed) ! i = ex_labels_mix ! i)
                     [0..<length ex_labels_mix])"
      by blast
    have "mixed = ex_mixed" by (rule ex_mix_paste[OF s[unfolded perm] b[unfolded perm]])
    then show ?thesis using f by (simp only: p n)
  qed
  show ?thesis
    using h1 h2 h3 c1 c2 c3 n[of True] n1 n0 ex_mix_augment(1)[of 0] by blast
qed

subsection \<open>The radius across the batches of an epoch\<close>

lemma update_radius_wraps:
  "update_radius True 4 1 (2 ^ 62) = - 1152921504606846976"
  "update_radius False 4 1 (2 ^ 62) = - 1152921504606846976"
  "update_radius True 4 1 (- 1) = - 1"
  "update_radius False 4 1 (- 1) = 0"
  by (simp_all add: update_radius_def int64_wrap_def tensor_floordiv_def)

text \<open>
  Claim C10. In \<open>train_HybridCutMix\<close>, \<open>final_radius\<close> is carried from batch to batch:
  after the earlier batches of the epoch it holds the configured radius with the update
  of every earlier augmented batch applied in order, and an augmented batch applies the
  update of its own stage draw to that carried value and passes the result to the mask
  generator. The update multiplies by \<open>num_stages - stage\<close> and divides by 4 when
  \<open>stage < 3\<close>, on 64-bit tensor values: when the difference and the product fit 64
  bits, and the product is not negative or the division rounds down, the new value is
  \<open>final_radius * (num_stages - stage)\<close>, divided by 4 rounding down when \<open>stage < 3\<close>;
  otherwise the product wraps around.
\<close>

theorem final_radius_carried_across_batches:
  assumes "for_each (hcm_batch env kw ep rnd) (radius kw, init_locals (model_train w))
             (enumerate 0 earlier) = Some (fr, st)"
    and "hcm_batch env kw ep rnd (fr, st) (length earlier, batch, ls) = Some (fr', st')"
    and "rnd_r (rnd (length earlier)) < cut_prob kw"
  shows "fr = radius_after (floordiv_rounds_down env) kw rnd (num_stages w) 0 (length earlier)
               (radius kw)
       \<and> fr' = update_radius (floordiv_rounds_down env) (num_stages w)
                 (rnd_stage (rnd (length earlier))) fr
       \<and> GenerateMask fr'
           (hcm_num_proposals (num_stages w) (rnd_stage (rnd (length earlier))) (multiplier kw))
           None
           \<in> set (drop (length (calls (model st))) (calls (model st')))
       \<and> (fits_int64 (num_stages w - rnd_stage (rnd (length earlier)))
            \<and> fits_int64 (fr * (num_stages w - rnd_stage (rnd (length earlier))))
            \<and> (floordiv_rounds_down env
                 \<or> 0 \<le> fr * (num_stages w - rnd_stage (rnd (length earlier))))
          \<longrightarrow> fr' = (if rnd_stage (rnd (length earlier)) < 3
                      then fr * (num_stages w - rnd_stage (rnd (length earlier))) div 4
                      else fr * (num_stages w - rnd_stage (rnd (length earlier)))))"
proof -
  have l: "fr = radius_after (floordiv_rounds_down env) kw rnd (num_stages w) 0 (length earlier)
                  (radius kw)
         \<and> num_stages (model st) = num_stages w"
    using hcm_loop_radius[OF assms(1)] by (simp add: init_locals_def model_train_def)
  from hcm_batch_trace[OF assms(2,3)] obtain mixed loss where
    t: "calls (model st') = calls (model st)
          @ [ZeroGrad, Forward batch, Backward [(1, batch, ls)], ZeroGrad, ClearDict,
             GenerateMask fr' (hcm_num_proposals (num_stages (model st))
                                 (rnd_stage (rnd (length earlier))) (multiplier kw)) None,
             Forward mixed]
          @ figure_calls ''Train_Orig_BatchSample'' 150 1 ep (length earlier)
          @ [ZeroGrad, Backward loss, OptimizerStep]"
    and f: "fr' = update_radius (floordiv_rounds_down env) (num_stages (model st))
                    (rnd_stage (rnd (length earlier))) fr"
    by blast
  have e: "fr' = (if rnd_stage (rnd (length earlier)) < 3
                  then fr * (num_stages w - rnd_stage (rnd (length earlier))) div 4
                  else fr * (num_stages w - rnd_stage (rnd (length earlier))))"
    if "fits_int64 (num_stages w - rnd_stage (rnd (length earlier)))"
      and "fits_int64 (fr * (num_stages w - rnd_stage (rnd (length earlier))))"
      and "floordiv_rounds_down env \<or> 0 \<le> fr * (num_stages w - rnd_stage (rnd (length earlier)))"
    using update_radius_exact[OF that] f l by simp
  show ?thesis using l f e by (simp add: t)
qed

lemma ex_hcm_two_batches:
  "\<exists>st st'. for_each (hcm_batch ex_env ex_kwargs4 1 ex_draws_fine)
               (radius ex_kwargs4, init_locals (model_train ex_world)) (enumerate 0 ex_loader)
             = Some (3, st)
     \<and> hcm_batch ex_env ex_kwargs4 1 ex_draws_fine (3, st) (length ex_loader, ex_batch, ex_labels)
         = Some (2, st')"
  by (simp add: eval_defs)

lemma ex_hcm_wide_batch:
  "\<exists>st'. hcm_batch ex_env ex_kwargs_wide 1 ex_draws_fine
            (radius ex_kwargs_wide, init_locals (model_train ex_world)) (0, ex_batch, ex_labels)
          = Some (- 1152921504606846976, st')"
  by (simp add: eval_defs ex_kwargs_wide_def)

theorem final_radius_carried_across_batches_witness:
  "(\<exists>st st'. for_each (hcm_batch ex_env ex_kwargs4 1 ex_draws_fine)
               (radius ex_kwargs4, init_locals (model_train ex_world)) (enumerate 0 ex_loader)
             = Some (3, st)
     \<and> hcm_batch ex_env ex_kwargs4 1 ex_draws_fine (3, st) (length ex_loader, ex_batch, ex_labels)
         = Some (2, st')
     \<and> rnd_r (ex_draws_fine (length ex_loader)) < cut_prob ex_kwargs4
     \<and> radius ex_kwargs4 = 4
     \<and> radius_after (floordiv_rounds_down ex_env) ex_kwargs4 ex_draws_fine (num_stages ex_world)
          0 (length ex_loader) (radius ex_kwargs4) = 3
     \<and> update_radius (floordiv_rounds_down ex_env) (num_stages ex_world)
          (rnd_stage (ex_draws_fine (length ex_loader))) (radius ex_kwargs4) = 3
     \<and> update_radius (floordiv_rounds_down ex_env) (num_stages ex_world)
          (rnd_stage (ex_draws_fine (length ex_loader))) 3 = 2
     \<and> (2::int) = 3 * (num_stages ex_world - rnd_stage (ex_draws_fine (length ex_loader))) div 4
     \<and> GenerateMask 2 3 None \<in> set (drop (length (calls (model st))) (calls (model st'))))
 \<and> (\<exists>st'. hcm_batch ex_env ex_kwargs_wide 1 ex_draws_fine
            (radius ex_kwargs_wide, init_locals (model_train ex_world)) (0, ex_batch, ex_labels)
          = Some (- 1152921504606846976, st')
     \<and> radius ex_kwargs_wide = 2 ^ 62
     \<and> update_radius (floordiv_rounds_down ex_env) (num_stages ex_world)
          (rnd_stage (ex_draws_fine 0)) (2 ^ 62) = - 1152921504606846976
     \<and> \<not> fits_int64 (2 ^ 62 * (num_stages ex_world - rnd_stage (ex_draws_fine 0)))
     \<and> GenerateMask (- 1152921504606846976) 3 None
          \<in> set (drop (length (calls (model (init_locals (model_train ex_world)))))
                   (calls (model st'))))"
proof -
  obtain st st' where
    h1: "for_each (hcm_batch ex_env ex_kwargs4 1 ex_draws_fine)
               (radius ex_kwargs4, init_locals (model_train ex_world)) (enumerate 0 ex_loader)
             = Some (3, st)"
    and h2: "hcm_batch ex_env ex_kwargs4 1 ex_draws_fine (3, st) (length ex_loader, ex_batch, ex_labels)
         = Some (2, st')"
    using ex_hcm_two_batches by blast
  obtain sw where
    h3: "hcm_batch ex_env ex_kwargs_wide 1 ex_draws_fine
            (radius ex_kwargs_wide, init_locals (model_train ex_world))
            (length ([] :: (tensor4 \<times> labels) list), ex_batch, ex_labels)
          = Some (- 1152921504606846976, sw)"
    using ex_hcm_wide_batch by auto
  have h0: "for_each (hcm_batch ex_env ex_kwargs_wide 1 ex_draws_fine)
               (radius ex_kwargs_wide, init_locals (model_train ex_world)) (enumerate 0 [])
             = Some (radius ex_kwargs_wide, init_locals (model_train ex_world))"
    by simp
  have a: "rnd_r (ex_draws_fine i) < cut_prob ex_kwargs4"
    "rnd_r (ex_draws_fine i) < cut_prob ex_kwargs_wide" for i
    by (simp_all add: ex_draws_fine_def ex_kwargs4_def ex_kwargs_wide_def ex_kwargs_def)
  have v: "radius ex_kwargs4 = 4" "radius ex_kwargs_wide = 2 ^ 62"
    "num_stages ex_world = 4" "rnd_stage (ex_draws_fine i) = 1" "floordiv_rounds_down ex_env"
    "multiplier ex_kwargs4 = 1" "multiplier ex_kwargs_wide = 1" for i
    by (simp_all add: ex_kwargs4_def ex_kwargs_wide_def ex_kwargs_def ex_world_def
        ex_draws_fine_def ex_env_def)
  have u: "update_radius True 4 1 4 = 3" "update_radius True 4 1 3 = 2"
    "hcm_num_proposals 4 1 1 = 3" "\<not> fits_int64 (2 ^ 62 * (4 - 1))"
    by (simp_all add: update_radius_def hcm_num_proposals_def int64_wrap_def tensor_floordiv_def
        fits_int64_def)
  note t1 = final_radius_carried_across_batches[OF h1 h2 a(1)]
  note t2 = final_radius_carried_across_batches[OF h0 h3 a(2)]
  have p1: "radius_after (floordiv_rounds_down ex_env) ex_kwargs4 ex_draws_fine
              (num_stages ex_world) 0 (length ex_loader) (radius ex_kwargs4) = 3"
    using conjunct1[OF t1] by simp
  have g1: "GenerateMask 2 3 None \<in> set (drop (length (calls (model st))) (calls (model st')))"
    using conjunct1[OF conjunct2[OF conjunct2[OF t1]]] by (simp only: v u)
  have g2: "GenerateMask (- 1152921504606846976) 3 None
          \<in> set (drop (length (calls (model (init_locals (model_train ex_world)))))
                   (calls (model sw)))"
    using conjunct1[OF conjunct2[OF conjunct2[OF t2]]] by (simp only: v u)
  have d: "(2::int) = 3 * (num_stages ex_world - rnd_stage (ex_draws_fine (length ex_loader))) div 4"
    by (simp add: v)
  have q1: "update_radius (floordiv_rounds_down ex_env) (num_stages ex_world)
          (rnd_stage (ex_draws_fine (length ex_loader))) (radius ex_kwargs4) = 3"
    and q2: "update_radius (floordiv_rounds_down ex_env) (num_stages ex_world)
          (rnd_stage (ex_draws_fine (length ex_loader))) 3 = 2"
    and q3: "update_radius (floordiv_rounds_down ex_env) (num_stages ex_world)
          (rnd_stage (ex_draws_fine 0)) (2 ^ 62) = - 1152921504606846976"
    and q4: "\<not> fits_int64 (2 ^ 62 * (num_stages ex_world - rnd_stage (ex_draws_fine 0)))"
    by (simp_all only: v u update_radius_wraps not_False_eq_True)
  have h3': "hcm_batch ex_env ex_kwargs_wide 1 ex_draws_fine
            (radius ex_kwargs_wide, init_locals (model_train ex_world)) (0, ex_batch, ex_labels)
          = Some (- 1152921504606846976, sw)"
    using h3 by (simp only: list.size)
  have c1: "\<exists>st st'. for_each (hcm_batch ex_env ex_kwargs4 1 ex_draws_fine)
               (radius ex_kwargs4, init_locals (model_train ex_world)) (enumerate 0 ex_loader)
             = Some (3, st)
     \<and> hcm_batch ex_env ex_kwargs4 1 ex_draws_fine (3, st) (length ex_loader, ex_batch, ex_labels)
         = Some (2, st')
     \<and> rnd_r (ex_draws_fine (length ex_loader)) < cut_prob ex_kwargs4
     \<and> radius ex_kwargs4 = 4
     \<and> radius_after (floordiv_rounds_down ex_env) ex_kwargs4 ex_draws_fine (num_stages ex_world)
          0 (length ex_loader) (radius ex_kwargs4) = 3
     \<and> update_radius (floordiv_rounds_down ex_env) (num_stages ex_world)
          (rnd_stage (ex_draws_fine (length ex_loader))) (radius ex_kwargs4) = 3
     \<and> update_radius (floordiv_rounds_down ex_env) (num_stages ex_world)
          (rnd_stage (ex_draws_fine (length ex_loader))) 3 = 2
     \<and> (2::int) = 3 * (num_stages ex_world - rnd_stage (ex_draws_fine (length ex_loader))) div 4
     \<and> GenerateMask 2 3 None \<in> set (drop (length (calls (model st))) (calls (model st')))"
    using h1 h2 a(1)[of "length ex_loader"] v(1) p1 q1 q2 d g1 by blast
  have c2: "\<exists>st'. hcm_batch ex_env ex_kwargs_wide 1 ex_draws_fine
            (radius ex_kwargs_wide, init_locals (model_train ex_world)) (0, ex_batch, ex_labels)
          = Some (- 1152921504606846976, st')
     \<and> radius ex_kwargs_wide = 2 ^ 62
     \<and> update_radius (floordiv_rounds_down ex_env) (num_stages ex_world)
          (rnd_stage (ex_draws_fine 0)) (2 ^ 62) = - 1152921504606846976
     \<and> \<not> fits_int64 (2 ^ 62 * (num_stages ex_world - rnd_stage (ex_draws_fine 0)))
     \<and> GenerateMask (- 1152921504606846976) 3 None
          \<in> set (drop (length (calls (model (init_locals (model_train ex_world)))))
                   (calls (model st')))"
    using h3' v(2) q3 q4 g2 by blast
  show ?thesis using c1 c2 by (rule conjI)
qed

end
